theory Spec2Isabelle
  imports Main "HOL-Library.AList" "HOL-Library.Sublist"
begin

section \<open>Python values and string operations\<close>

text \<open>
  Strings are byte lists: a Python \<open>str\<close> is modelled by its UTF-8 encoding, which is what
  the renderers write (\<open>encoding='utf-8'\<close>). The case operations \<open>str.lower\<close> and
  \<open>str.title\<close> follow the Unicode tables of the interpreter, which are no part of the
  repository: the model takes both as parameters (\<open>str_lower\<close> and \<open>str_title\<close> below).
\<close>

datatype pyval = PNone | PInt int | PStr string

definition digit_char :: \<open>nat \<Rightarrow> char\<close> where
  \<open>digit_char d = char_of (48 + d)\<close>

fun str_nat :: \<open>nat \<Rightarrow> string\<close> where
  \<open>str_nat n = (if n < 10 then [digit_char n] else str_nat (n div 10) @ [digit_char (n mod 10)])\<close>

declare str_nat.simps [simp del]

text \<open>\<open>str(i)\<close> and the f-string field \<open>{i}\<close> of an integer.\<close>

definition str_int :: \<open>int \<Rightarrow> string\<close> where
  \<open>str_int i = (if i < 0 then CHR ''-'' # str_nat (nat (- i)) else str_nat (nat i))\<close>

text \<open>The f-string field \<open>{x}\<close> of a nullable text column.\<close>

fun fmt_opt :: \<open>string option \<Rightarrow> string\<close> where
  \<open>fmt_opt None = ''None''\<close>
| \<open>fmt_opt (Some s) = s\<close>

text \<open>The truth value of a nullable text column in \<open>if x:\<close>.\<close>

fun truthy :: \<open>string option \<Rightarrow> bool\<close> where
  \<open>truthy None = False\<close>
| \<open>truthy (Some s) = (s \<noteq> [])\<close>

fun val_opt :: \<open>string option \<Rightarrow> pyval\<close> where
  \<open>val_opt None = PNone\<close>
| \<open>val_opt (Some s) = PStr s\<close>

text \<open>The format specification \<open>12s\<close>: left-justified in a field of the given width.\<close>

definition ljust :: \<open>nat \<Rightarrow> string \<Rightarrow> string\<close> where
  \<open>ljust w s = s @ replicate (w - length s) CHR '' ''\<close>

definition zfill :: \<open>nat \<Rightarrow> string \<Rightarrow> string\<close> where
  \<open>zfill w s = replicate (w - length s) CHR ''0'' @ s\<close>

record datetime =
  year :: nat
  month :: nat
  day :: nat
  hour :: nat
  minute :: nat
  second :: nat

text \<open>\<open>t.strftime("%Y-%m-%d %H:%M:%S")\<close>\<close>

definition strftime :: \<open>datetime \<Rightarrow> string\<close> where
  \<open>strftime t = zfill 4 (str_nat (year t)) @ ''-'' @ zfill 2 (str_nat (month t)) @ ''-''
     @ zfill 2 (str_nat (day t)) @ '' '' @ zfill 2 (str_nat (hour t)) @ '':''
     @ zfill 2 (str_nat (minute t)) @ '':'' @ zfill 2 (str_nat (second t))\<close>

section \<open>The scan store\<close>

text \<open>
  The store is the SQLite database at \<open>self.db_path\<close>, with the two tables the generator
  selects from. A row is the tuple \<open>SELECT *\<close> returns, columns in the order
  \<open>get_scan_data\<close> indexes them: a scan is
  (id, target_url, scan_type, start_time, end_time, total_alerts, high_risk, medium_risk,
  low_risk, status) and a vulnerability is
  (id, scan_id, name, severity, confidence, url, description, solution, reference).
  The remediation and reference columns are nullable; the generator tests both for
  emptiness before use. A database file need not hold the tables (\<open>sqlite3.connect\<close>
  creates an empty file where there is none): a table that is missing is \<open>None\<close>. Rows come
  back in table order.
\<close>

type_synonym scan_row =
  \<open>int \<times> string \<times> string \<times> string \<times> string \<times> int \<times> int \<times> int \<times> int \<times> string\<close>

type_synonym vuln_row =
  \<open>int \<times> int \<times> string \<times> string \<times> string \<times> string \<times> string \<times> string option \<times> string option\<close>

record store =
  scans :: \<open>scan_row list option\<close>
  vulnerabilities_table :: \<open>vuln_row list option\<close>

text \<open>The dictionaries \<open>get_scan_data\<close> builds; the keys \<open>'scan_id'\<close> of a scan and \<open>'id'\<close> of a finding are \<open>data_scan_id\<close> and \<open>vuln_id\<close>.\<close>

record vuln =
  vuln_id :: int
  name :: string
  severity :: string
  confidence :: string
  url :: string
  description :: string
  solution :: \<open>string option\<close>
  reference :: \<open>string option\<close>

record scan_data =
  data_scan_id :: int
  target_url :: string
  scan_type :: string
  start_time :: string
  end_time :: string
  total_alerts :: int
  high_risk :: int
  medium_risk :: int
  low_risk :: int
  status :: string
  vulnerabilities :: \<open>vuln list\<close>

section \<open>Output documents\<close>

text \<open>
  A written file is modelled by what the renderer hands to the writer: the text of the
  HTML report, the value given to \<open>json.dump\<close>, the rows given to \<open>csv.writer\<close> (each
  field as the writer converts it: \<open>None\<close> to the empty field, text as it is), the story
  given to ReportLab, the blocks added to the python-docx document, and the cells of the
  openpyxl workbook. Fonts, colours and table styles are not part of the model. ReportLab,
  python-docx and openpyxl also write the time of saving into the file (the document
  information of a PDF, the entries of the archive a DOCX or XLSX file is): the model
  keeps it as the stamp of the file, a text the encoder derives from a reading of the
  clock.
\<close>

datatype json = JNull | JInt int | JStr string | JArr \<open>json list\<close> | JObj \<open>(string \<times> json) list\<close>

datatype flowable =
    Paragraph string string
  | Spacer nat nat
  | Table \<open>string list list\<close> \<open>nat list\<close>
  | PageBreak

datatype block =
    Heading string nat
  | DocTable string \<open>string list list\<close>
  | DocParagraph string
  | DocPageBreak

datatype content =
    HtmlFile string
  | JsonFile json
  | CsvFile \<open>string list list\<close>
  | PdfFile \<open>flowable list\<close> string
  | DocxFile \<open>block list\<close> string
  | XlsxFile \<open>(string \<times> pyval) list\<close> \<open>pyval list list\<close> string

section \<open>The process and its surroundings\<close>

text \<open>
  \<open>sys\<close> holds what a run does not change: the store, the three availability flags set
  when the module is imported, the successive readings of the clock, which paths can be
  opened for writing, and what the interpreter and the three encoders contribute:
  \<open>str.lower\<close> and \<open>str.title\<close>; which texts each encoder accepts (ReportLab parses the text
  of a \<open>Paragraph\<close> as markup and raises \<open>ValueError\<close> on text that is not well formed,
  python-docx raises \<open>ValueError\<close> and openpyxl \<open>IllegalCharacterError\<close> on text with
  control characters); and the stamp each encoder derives from the clock. \<open>state\<close> holds
  what a run changes: the files, the lines printed, the connections opened and closed,
  and how often the clock was read.
\<close>

record sys =
  db :: store
  PDF_AVAILABLE :: bool
  DOCX_AVAILABLE :: bool
  EXCEL_AVAILABLE :: bool
  clock :: \<open>nat \<Rightarrow> datetime\<close>
  writable :: \<open>string \<Rightarrow> bool\<close>
  str_lower :: \<open>string \<Rightarrow> string\<close>
  str_title :: \<open>string \<Rightarrow> string\<close>
  paragraph_ok :: \<open>string \<Rightarrow> bool\<close>
  docx_ok :: \<open>string \<Rightarrow> bool\<close>
  xlsx_ok :: \<open>string \<Rightarrow> bool\<close>
  pdf_stamp :: \<open>datetime \<Rightarrow> string\<close>
  docx_stamp :: \<open>datetime \<Rightarrow> string\<close>
  xlsx_stamp :: \<open>datetime \<Rightarrow> string\<close>

datatype conn_event = Connect nat | Close nat

record state =
  files :: \<open>string \<rightharpoonup> content\<close>
  stdout :: \<open>string list\<close>
  conn_log :: \<open>conn_event list\<close>
  ticks :: nat

text \<open>The exceptions that leave the generator; each carries the text it is about.\<close>

datatype exn =
    OSError string
  | OverflowError
  | OperationalError string
  | ValueError string
  | IllegalCharacterError string

definition print :: \<open>string \<Rightarrow> state \<Rightarrow> state\<close> where
  \<open>print line st = st\<lparr>stdout := stdout st @ [line]\<rparr>\<close>

definition datetime_now :: \<open>sys \<Rightarrow> state \<Rightarrow> datetime \<times> state\<close> where
  \<open>datetime_now env st = (clock env (ticks st), st\<lparr>ticks := Suc (ticks st)\<rparr>)\<close>

text \<open>
  Opening a path for writing and writing the whole document: \<open>OSError\<close> when the path
  cannot be opened, and then no file is created.
\<close>

definition write_file :: \<open>sys \<Rightarrow> string \<Rightarrow> content \<Rightarrow> state \<Rightarrow> exn + state\<close> where
  \<open>write_file env path doc st =
     (if writable env path then Inr (st\<lparr>files := (files st)(path \<mapsto> doc)\<rparr>) else Inl (OSError path))\<close>

definition connect :: \<open>state \<Rightarrow> nat \<times> state\<close> where
  \<open>connect st = (length (conn_log st), st\<lparr>conn_log := conn_log st @ [Connect (length (conn_log st))]\<rparr>)\<close>

definition close :: \<open>nat \<Rightarrow> state \<Rightarrow> state\<close> where
  \<open>close conn st = st\<lparr>conn_log := conn_log st @ [Close conn]\<rparr>\<close>

section \<open>Reading a scan\<close>

text \<open>
  \<open>cursor.execute\<close> prepares the statement, which raises \<open>OperationalError\<close> when the table
  is missing, and then binds the parameter, which raises \<open>OverflowError\<close> when the integer
  does not fit the 64-bit integer of SQLite.
\<close>

definition bind_int :: \<open>int \<Rightarrow> exn + int\<close> where
  \<open>bind_int i = (if - (2 ^ 63) \<le> i \<and> i < 2 ^ 63 then Inr i else Inl OverflowError)\<close>

text \<open>\<open>SELECT * FROM scans WHERE id = ?\<close> followed by \<open>fetchone()\<close>.\<close>

definition select_scan :: \<open>store \<Rightarrow> int \<Rightarrow> exn + scan_row option\<close> where
  \<open>select_scan d i =
     (case scans d of
        None \<Rightarrow> Inl (OperationalError ''no such table: scans'')
      | Some rows \<Rightarrow>
          (case bind_int i of
             Inl e \<Rightarrow> Inl e
           | Inr k \<Rightarrow> Inr (find (\<lambda>row. fst row = k) rows)))\<close>

text \<open>\<open>SELECT * FROM vulnerabilities WHERE scan_id = ?\<close> followed by \<open>fetchall()\<close>.\<close>

definition select_vulns :: \<open>store \<Rightarrow> int \<Rightarrow> exn + vuln_row list\<close> where
  \<open>select_vulns d i =
     (case vulnerabilities_table d of
        None \<Rightarrow> Inl (OperationalError ''no such table: vulnerabilities'')
      | Some rows \<Rightarrow>
          (case bind_int i of
             Inl e \<Rightarrow> Inl e
           | Inr k \<Rightarrow> Inr (filter (\<lambda>row. fst (snd row) = k) rows)))\<close>

fun vuln_dict :: \<open>vuln_row \<Rightarrow> vuln\<close> where
  \<open>vuln_dict (v0, v1, v2, v3, v4, v5, v6, v7, v8) =
     \<lparr>vuln_id = v0, name = v2, severity = v3, confidence = v4, url = v5, description = v6,
      solution = v7, reference = v8\<rparr>\<close>

text \<open>The loop \<open>for v in vulns: data['vulnerabilities'].append({...})\<close>.\<close>

fun append_vulns :: \<open>vuln_row list \<Rightarrow> scan_data \<Rightarrow> scan_data\<close> where
  \<open>append_vulns [] data = data\<close>
| \<open>append_vulns (v # vs) data =
     append_vulns vs (data\<lparr>vulnerabilities := vulnerabilities data @ [vuln_dict v]\<rparr>)\<close>

fun scan_dict :: \<open>scan_row \<Rightarrow> scan_data\<close> where
  \<open>scan_dict (s0, s1, s2, s3, s4, s5, s6, s7, s8, s9) =
     \<lparr>data_scan_id = s0, target_url = s1, scan_type = s2, start_time = s3, end_time = s4,
      total_alerts = s5, high_risk = s6, medium_risk = s7, low_risk = s8, status = s9,
      vulnerabilities = []\<rparr>\<close>

text \<open>
  The connection is closed on the two paths that return. A query that raises leaves
  \<open>get_scan_data\<close> at once: there is no \<open>try\<close>, and \<open>close\<close> is not reached.
\<close>

definition get_scan_data :: \<open>sys \<Rightarrow> int \<Rightarrow> state \<Rightarrow> (exn + scan_data option) \<times> state\<close> where
  \<open>get_scan_data env scan_id st =
     (let (conn, st1) = connect st in
      case select_scan (db env) scan_id of
        Inl e \<Rightarrow> (Inl e, st1)
      | Inr None \<Rightarrow> (Inr None, close conn st1)
      | Inr (Some scan) \<Rightarrow>
          (case select_vulns (db env) scan_id of
             Inl e \<Rightarrow> (Inl e, st1)
           | Inr vulns \<Rightarrow>
               (let data = append_vulns vulns (scan_dict scan)
                in (Inr (Some data), close conn st1))))\<close>

text \<open>
  The test \<open>not data\<close> the renderers apply to the result: true for \<open>None\<close> and for a
  dictionary without keys.
\<close>

definition data_keys :: \<open>scan_data \<Rightarrow> string list\<close> where
  \<open>data_keys data =
     [''scan_id'', ''target_url'', ''scan_type'', ''start_time'', ''end_time'', ''total_alerts'',
      ''high_risk'', ''medium_risk'', ''low_risk'', ''status'', ''vulnerabilities'']\<close>

fun not_data :: \<open>scan_data option \<Rightarrow> bool\<close> where
  \<open>not_data None = True\<close>
| \<open>not_data (Some data) = (data_keys data = [])\<close>

section \<open>The HTML report\<close>

text \<open>
  The constants below are the literal segments of the report template, in the order in
  which \<open>generate_html_report\<close> concatenates them. \<open>html_style\<close> is the segment between
  the title and the first summary card.
\<close>

definition html_open :: string where
  \<open>html_open = ''
<!DOCTYPE html>
<html lang="en">
<head>
    <meta charset="UTF-8">
    <meta name="viewport" content="width=device-width, initial-scale=1.0">
    <title>Security Scan Report - ''\<close>

definition html_style_1 :: string where
  \<open>html_style_1 = ''</title>
    <style>
        * {
            margin: 0;
            padding: 0;
            box-sizing: border-box;
        }
        
        body {
            font-family: 'Segoe UI', Tahoma, Geneva, Verdana, sans-serif;
            background: linear-gradient(135deg, #667eea 0%, #764ba2 100%);
            padding: 40px 20px;
            min-height: 100vh;
        }
        
        .container {
            max-width: 1200px;
            margin: 0 auto;
            background: white;
            border-radius: 20px;
            box-shadow: 0 20px 60px rgba(0,0,0,0.3);
            overflow: hidden;
        }
        
        .header {
            background: linear-gradient(135deg, #667eea 0%, #764ba2 100%);
            color: white;
            padding: 60px 40px;
            text-align: center;
            position: relative;
            overflow: hidden;
        }
        
        .header::before {
''\<close>

definition html_style_2 :: string where
  \<open>html_style_2 = ''            content: '' @ [CHR 0x27, CHR 0x27] @ '';
            position: absolute;
            top: -50%;
            left: -50%;
            width: 200%;
            height: 200%;
            background: radial-gradient(circle, rgba(255,255,255,0.1) 0%, transparent 70%);
            animation: pulse 15s ease-in-out infinite;
        }
        
        @keyframes pulse {
            0%, 100% { transform: scale(1); }
            50% { transform: scale(1.1); }
        }
        
        .header h1 {
            font-size: 3em;
            margin-bottom: 10px;
            text-shadow: 2px 2px 4px rgba(0,0,0,0.3);
            position: relative;
            z-index: 1;
        }
        
        .header .subtitle {
            font-size: 1.2em;
            opacity: 0.9;
            position: relative;
            z-index: 1;
        }
        
        .summary {
            display: grid;
            grid-template-columns: repeat(auto-fit, minmax(250px, 1fr));
''\<close>

definition html_style_3 :: string where
  \<open>html_style_3 = ''            gap: 30px;
            padding: 40px;
            background: #f8f9fa;
        }
        
        .stat-card {
            background: white;
            padding: 30px;
            border-radius: 15px;
            box-shadow: 0 10px 30px rgba(0,0,0,0.1);
            transform: translateY(0);
            transition: all 0.3s ease;
            position: relative;
            overflow: hidden;
        }
        
        .stat-card::before {
            content: '' @ [CHR 0x27, CHR 0x27] @ '';
            position: absolute;
            top: 0;
            left: 0;
            width: 100%;
            height: 5px;
        }
        
        .stat-card.total::before { background: linear-gradient(90deg, #667eea, #764ba2); }
        .stat-card.high::before { background: linear-gradient(90deg, #f093fb, #f5576c); }
        .stat-card.medium::before { background: linear-gradient(90deg, #ffecd2, #fcb69f); }
        .stat-card.low::before { background: linear-gradient(90deg, #a8edea, #fed6e3); }
''\<close>

definition html_style_4 :: string where
  \<open>html_style_4 = ''        
        .stat-card:hover {
            transform: translateY(-10px);
            box-shadow: 0 15px 40px rgba(0,0,0,0.2);
        }
        
        .stat-card h3 {
            font-size: 0.9em;
            color: #666;
            margin-bottom: 10px;
            text-transform: uppercase;
            letter-spacing: 1px;
        }
        
        .stat-card .number {
            font-size: 3em;
            font-weight: bold;
            background: linear-gradient(135deg, #667eea 0%, #764ba2 100%);
            -webkit-background-clip: text;
            -webkit-text-fill-color: transparent;
        }
        
        .stat-card.high .number {
            background: linear-gradient(135deg, #f093fb 0%, #f5576c 100%);
            -webkit-background-clip: text;
            -webkit-text-fill-color: transparent;
        }
        
        .stat-card.medium .number {
            background: linear-gradient(135deg, #ffecd2 0%, #fcb69f 100%);
''\<close>

definition html_style_5 :: string where
  \<open>html_style_5 = ''            -webkit-background-clip: text;
            -webkit-text-fill-color: transparent;
        }
        
        .stat-card.low .number {
            background: linear-gradient(135deg, #a8edea 0%, #fed6e3 100%);
            -webkit-background-clip: text;
            -webkit-text-fill-color: transparent;
        }
        
        .info-section {
            padding: 40px;
            background: white;
        }
        
        .info-grid {
            display: grid;
            grid-template-columns: repeat(auto-fit, minmax(300px, 1fr));
            gap: 20px;
            margin-bottom: 40px;
        }
        
        .info-item {
            padding: 20px;
            background: #f8f9fa;
            border-radius: 10px;
            border-left: 4px solid #667eea;
        }
        
        .info-item label {
            font-weight: bold;
            color: #667eea;
            display: block;
''\<close>

definition html_style_6 :: string where
  \<open>html_style_6 = ''            margin-bottom: 5px;
        }
        
        .info-item value {
            color: #333;
        }
        
        .vulnerabilities {
            padding: 40px;
            background: white;
        }
        
        .section-title {
            font-size: 2em;
            margin-bottom: 30px;
            color: #333;
            text-align: center;
            position: relative;
            padding-bottom: 15px;
        }
        
        .section-title::after {
            content: '' @ [CHR 0x27, CHR 0x27] @ '';
            position: absolute;
            bottom: 0;
            left: 50%;
            transform: translateX(-50%);
            width: 100px;
            height: 4px;
            background: linear-gradient(90deg, #667eea, #764ba2);
            border-radius: 2px;
        }
        
        .vuln-card {
            background: white;
            border-radius: 15px;
            padding: 30px;
''\<close>

definition html_style_7 :: string where
  \<open>html_style_7 = ''            margin-bottom: 30px;
            box-shadow: 0 5px 20px rgba(0,0,0,0.1);
            border-left: 6px solid #ddd;
            transition: all 0.3s ease;
        }
        
        .vuln-card:hover {
            box-shadow: 0 10px 30px rgba(0,0,0,0.15);
            transform: translateX(5px);
        }
        
        .vuln-card.high { border-left-color: #f5576c; }
        .vuln-card.medium { border-left-color: #fcb69f; }
        .vuln-card.low { border-left-color: #a8edea; }
        
        .vuln-header {
            display: flex;
            justify-content: space-between;
            align-items: center;
            margin-bottom: 20px;
        }
        
        .vuln-title {
            font-size: 1.5em;
            color: #333;
            font-weight: bold;
        }
        
        .severity-badge {
            padding: 8px 20px;
            border-radius: 25px;
            font-weight: bold;
''\<close>

definition html_style_8 :: string where
  \<open>html_style_8 = ''            font-size: 0.9em;
            text-transform: uppercase;
            letter-spacing: 1px;
            box-shadow: 0 4px 10px rgba(0,0,0,0.2);
        }
        
        .severity-badge.high {
            background: linear-gradient(135deg, #f093fb 0%, #f5576c 100%);
            color: white;
        }
        
        .severity-badge.medium {
            background: linear-gradient(135deg, #ffecd2 0%, #fcb69f 100%);
            color: #8B4513;
        }
        
        .severity-badge.low {
            background: linear-gradient(135deg, #a8edea 0%, #fed6e3 100%);
            color: #333;
        }
        
        .vuln-content {
            color: #666;
            line-height: 1.8;
        }
        
        .vuln-content p {
            margin-bottom: 15px;
        }
        
        .vuln-content strong {
            color: #333;
            display: inline-block;
            margin-right: 10px;
''\<close>

definition html_style_9 :: string where
  \<open>html_style_9 = ''        }
        
        .solution-box {
            background: linear-gradient(135deg, #d4fc79 0%, #96e6a1 100%);
            padding: 20px;
            border-radius: 10px;
            margin-top: 20px;
            border-left: 4px solid #4CAF50;
        }
        
        .solution-box strong {
            color: #2e7d32;
            font-size: 1.1em;
        }
        
        .footer {
            background: #2c3e50;
            color: white;
            padding: 40px;
            text-align: center;
        }
        
        .footer p {
            margin-bottom: 10px;
            opacity: 0.8;
        }
        
        .btn-3d {
            display: inline-block;
            padding: 15px 40px;
            margin: 10px;
            border-radius: 50px;
            font-weight: bold;
            text-decoration: none;
            color: white;
            box-shadow: 0 8px 15px rgba(0,0,0,0.3);
''\<close>

definition html_style_10 :: string where
  \<open>html_style_10 = ''            transition: all 0.3s ease;
            position: relative;
            overflow: hidden;
        }
        
        .btn-3d::before {
            content: '' @ [CHR 0x27, CHR 0x27] @ '';
            position: absolute;
            top: 0;
            left: -100%;
            width: 100%;
            height: 100%;
            background: rgba(255,255,255,0.2);
            transition: all 0.3s ease;
        }
        
        .btn-3d:hover::before {
            left: 100%;
        }
        
        .btn-3d:hover {
            transform: translateY(-5px);
            box-shadow: 0 15px 30px rgba(0,0,0,0.4);
        }
        
        .btn-3d:active {
            transform: translateY(-2px);
            box-shadow: 0 5px 10px rgba(0,0,0,0.3);
        }
        
        .btn-primary {
            background: linear-gradient(135deg, #667eea 0%, #764ba2 100%);
        }
        
        .btn-success {
            background: linear-gradient(135deg, #11998e 0%, #38ef7d 100%);
''\<close>

definition html_style_11 :: string where
  \<open>html_style_11 = ''        }
        
        .btn-danger {
            background: linear-gradient(135deg, #f093fb 0%, #f5576c 100%);
        }
        
        .action-buttons {
            text-align: center;
            padding: 40px;
            background: #f8f9fa;
        }
        
        @media print {
            .action-buttons, .btn-3d { display: none; }
            body { background: white; }
            .container { box-shadow: none; }
        }
    </style>
</head>
<body>
    <div class="container">
        <!-- Header -->
        <div class="header">
            <h1>'' @ [CHR 0xEF, CHR 0xA3, CHR 0xBF, CHR 0xC3, CHR 0xBC, CHR 0xC3, CHR 0xB5, CHR 0xC2, CHR 0xB0, CHR 0xC3, CHR 0x94, CHR 0xE2, CHR 0x88, CHR 0x8F, CHR 0xC3, CHR 0xA8] @ '' SECURITY SCAN REPORT</h1>
            <p class="subtitle">Comprehensive Vulnerability Assessment</p>
        </div>
        
        <!-- Summary Cards -->
        <div class="summary">
''\<close>

definition html_style :: string where
  \<open>html_style = html_style_1 @ html_style_2 @ html_style_3 @ html_style_4 @ html_style_5 @ html_style_6 @ html_style_7 @ html_style_8 @ html_style_9 @ html_style_10 @ html_style_11\<close>

definition html_total_open :: string where
  \<open>html_total_open = ''            <div class="stat-card total">
                <h3>Total Issues</h3>
                <div class="number">''\<close>

definition html_high_open :: string where
  \<open>html_high_open = ''</div>
            </div>
            <div class="stat-card high">
                <h3>High Risk</h3>
                <div class="number">''\<close>

definition html_medium_open :: string where
  \<open>html_medium_open = ''</div>
            </div>
            <div class="stat-card medium">
                <h3>Medium Risk</h3>
                <div class="number">''\<close>

definition html_low_open :: string where
  \<open>html_low_open = ''</div>
            </div>
            <div class="stat-card low">
                <h3>Low Risk</h3>
                <div class="number">''\<close>

definition html_info_target :: string where
  \<open>html_info_target = ''</div>
            </div>
        </div>
        
        <!-- Scan Information -->
        <div class="info-section">
            <h2 class="section-title">Scan Information</h2>
            <div class="info-grid">
                <div class="info-item">
                    <label>Target URL:</label>
                    <value>''\<close>

definition html_info_type :: string where
  \<open>html_info_type = ''</value>
                </div>
                <div class="info-item">
                    <label>Scan Type:</label>
                    <value>''\<close>

definition html_info_start :: string where
  \<open>html_info_start = ''</value>
                </div>
                <div class="info-item">
                    <label>Start Time:</label>
                    <value>''\<close>

definition html_info_end :: string where
  \<open>html_info_end = ''</value>
                </div>
                <div class="info-item">
                    <label>End Time:</label>
                    <value>''\<close>

definition html_info_status :: string where
  \<open>html_info_status = ''</value>
                </div>
                <div class="info-item">
                    <label>Status:</label>
                    <value>''\<close>

definition html_info_generated :: string where
  \<open>html_info_generated = ''</value>
                </div>
                <div class="info-item">
                    <label>Report Generated:</label>
                    <value>''\<close>

definition html_findings_open :: string where
  \<open>html_findings_open = ''</value>
                </div>
            </div>
        </div>
        
        <!-- Vulnerabilities -->
        <div class="vulnerabilities">
            <h2 class="section-title">Detailed Findings</h2>
''\<close>

definition card_open :: string where
  \<open>card_open = ''
            <div class="vuln-card ''\<close>

definition card_title :: string where
  \<open>card_title = ''">
                <div class="vuln-header">
                    <div class="vuln-title">''\<close>

definition card_dot :: string where
  \<open>card_dot = ''. ''\<close>

definition card_badge :: string where
  \<open>card_badge = ''</div>
                    <div class="severity-badge ''\<close>

definition card_badge_close :: string where
  \<open>card_badge_close = ''">''\<close>

definition card_description :: string where
  \<open>card_description = ''</div>
                </div>
                <div class="vuln-content">
                    <p><strong>'' @ [CHR 0xEF, CHR 0xA3, CHR 0xBF, CHR 0xC3, CHR 0xBC, CHR 0xC3, CHR 0xAE, CHR 0xC3, CHR 0xA7] @ '' Description:</strong> ''\<close>

definition card_location :: string where
  \<open>card_location = ''</p>
                    <p><strong>'' @ [CHR 0xEF, CHR 0xA3, CHR 0xBF, CHR 0xC3, CHR 0xBC, CHR 0xC3, CHR 0xAC, CHR 0xC3, CHR 0xA7] @ '' Location:</strong> ''\<close>

definition card_confidence :: string where
  \<open>card_confidence = ''</p>
                    <p><strong>'' @ [CHR 0xEF, CHR 0xA3, CHR 0xBF, CHR 0xC3, CHR 0xBC, CHR 0xC3, CHR 0xA9, CHR 0xC3, CHR 0x98] @ '' Confidence:</strong> ''\<close>

definition card_content_end :: string where
  \<open>card_content_end = ''</p>
''\<close>

definition solution_open :: string where
  \<open>solution_open = ''
                    <div class="solution-box">
                        <p><strong>'' @ [CHR 0xEF, CHR 0xA3, CHR 0xBF, CHR 0xC3, CHR 0xBC, CHR 0xC3, CHR 0xAD, CHR 0xC2, CHR 0xB0] @ '' Recommended Solution:</strong></p>
                        <p>''\<close>

definition solution_close :: string where
  \<open>solution_close = ''</p>
                    </div>
''\<close>

definition reference_open :: string where
  \<open>reference_open = ''
                    <p><strong>'' @ [CHR 0xEF, CHR 0xA3, CHR 0xBF, CHR 0xC3, CHR 0xBC, CHR 0xC3, CHR 0xAC, CHR 0xC3, CHR 0xB6] @ '' Reference:</strong> ''\<close>

definition reference_close :: string where
  \<open>reference_close = ''</p>
''\<close>

definition card_close :: string where
  \<open>card_close = ''
                </div>
            </div>
''\<close>

definition html_footer_open :: string where
  \<open>html_footer_open = ''
        </div>
        
        <!-- Action Buttons -->
        <div class="action-buttons">
            <a href="#" onclick="window.print(); return false;" class="btn-3d btn-primary">'' @ [CHR 0xEF, CHR 0xA3, CHR 0xBF, CHR 0xC3, CHR 0xBC, CHR 0xC3, CHR 0xB1, CHR 0xC2, CHR 0xAE, CHR 0xC3, CHR 0x94, CHR 0xE2, CHR 0x88, CHR 0x8F, CHR 0xC3, CHR 0xA8] @ '' Print Report</a>
            <a href="#" onclick="window.location.reload();" class="btn-3d btn-success">'' @ [CHR 0xEF, CHR 0xA3, CHR 0xBF, CHR 0xC3, CHR 0xBC, CHR 0xC3, CHR 0xAE, CHR 0xC3, CHR 0x91] @ '' Refresh</a>
            <a href="#" class="btn-3d btn-danger">'' @ [CHR 0xEF, CHR 0xA3, CHR 0xBF, CHR 0xC3, CHR 0xBC, CHR 0xC3, CHR 0xAC, CHR 0xC3, CHR 0x9F] @ '' Email Report</a>
        </div>
        
        <!-- Footer -->
        <div class="footer">
            <p><strong>Generated by Web Security Scanner v1.0</strong></p>
            <p>Powered by OWASP ZAP | Report ID: ''\<close>

definition html_footer_year :: string where
  \<open>html_footer_year = ''</p>
            <p>'' @ [CHR 0xC2, CHR 0xAC, CHR 0xC2, CHR 0xA9] @ '' ''\<close>

definition html_footer_close :: string where
  \<open>html_footer_close = '' - All Rights Reserved</p>
        </div>
    </div>
    
''\<close>

definition html_script :: string where
  \<open>html_script = ''    <script>
        // Add smooth scroll
        document.querySelectorAll('a[href^="#"]').forEach(anchor => {
            anchor.addEventListener('click', function (e) {
                e.preventDefault();
                document.querySelector(this.getAttribute('href')).scrollIntoView({
                    behavior: 'smooth'' @ [CHR 0x27] @ ''
                });
            });
        });
        
        // Add animation on scroll
        const observerOptions = {
            threshold: 0.1,
            rootMargin: '0px 0px -100px 0px'' @ [CHR 0x27] @ ''
        };
        
        const observer = new IntersectionObserver((entries) => {
            entries.forEach(entry => {
                if (entry.isIntersecting) {
                    entry.target.style.opacity = '1';
                    entry.target.style.transform = 'translateY(0)';
                }
            });
        }, observerOptions);
        
        document.querySelectorAll('.vuln-card').forEach(card => {
            card.style.opacity = '0';
            card.style.transform = 'translateY(30px)';
            card.style.transition = 'all 0.6s ease';
            observer.observe(card);
        });
    </script>
</body>
</html>
''\<close>
text \<open>The f-string that opens the document, up to the heading of the findings.\<close>

definition html_head :: \<open>sys \<Rightarrow> scan_data \<Rightarrow> datetime \<Rightarrow> string\<close> where
  \<open>html_head env data now =
     html_open @ target_url data @ html_style
     @ html_total_open @ str_int (total_alerts data)
     @ html_high_open @ str_int (high_risk data)
     @ html_medium_open @ str_int (medium_risk data)
     @ html_low_open @ str_int (low_risk data)
     @ html_info_target @ target_url data
     @ html_info_type @ str_title env (scan_type data)
     @ html_info_start @ start_time data
     @ html_info_end @ end_time data
     @ html_info_status @ str_title env (status data)
     @ html_info_generated @ strftime now
     @ html_findings_open\<close>

text \<open>One pass of the loop over the findings: what it appends for finding number \<open>idx\<close>.\<close>

definition html_vuln :: \<open>sys \<Rightarrow> nat \<Rightarrow> vuln \<Rightarrow> string \<Rightarrow> string\<close> where
  \<open>html_vuln env idx vuln html =
     (let severity_class = str_lower env (severity vuln);
          html1 = html @ card_open @ severity_class @ card_title @ str_nat idx @ card_dot @ name vuln
                  @ card_badge @ severity_class @ card_badge_close @ severity vuln
                  @ card_description @ description vuln
                  @ card_location @ url vuln
                  @ card_confidence @ confidence vuln @ card_content_end;
          html2 = (if truthy (solution vuln)
                   then html1 @ solution_open @ fmt_opt (solution vuln) @ solution_close
                   else html1);
          html3 = (if truthy (reference vuln)
                   then html2 @ reference_open @ fmt_opt (reference vuln) @ reference_close
                   else html2)
      in html3 @ card_close)\<close>

text \<open>\<open>for idx, vuln in enumerate(data['vulnerabilities'], 1)\<close>, from index \<open>idx\<close> on.\<close>

fun html_vulns :: \<open>sys \<Rightarrow> nat \<Rightarrow> vuln list \<Rightarrow> string \<Rightarrow> string\<close> where
  \<open>html_vulns env idx [] html = html\<close>
| \<open>html_vulns env idx (vuln # rest) html = html_vulns env (Suc idx) rest (html_vuln env idx vuln html)\<close>

definition html_tail :: \<open>int \<Rightarrow> datetime \<Rightarrow> string\<close> where
  \<open>html_tail scan_id now =
     html_footer_open @ str_int scan_id @ html_footer_year @ str_nat (year now)
     @ html_footer_close @ html_script\<close>

definition not_found :: \<open>int \<Rightarrow> string\<close> where
  \<open>not_found scan_id = ''[!] Scan '' @ str_int scan_id @ '' not found''\<close>

text \<open>
  An exception of \<open>get_scan_data\<close> leaves the renderer as it is: no renderer has a \<open>try\<close>.
\<close>

definition generate_html_report :: \<open>sys \<Rightarrow> int \<Rightarrow> string \<Rightarrow> state \<Rightarrow> (exn + bool) \<times> state\<close> where
  \<open>generate_html_report env scan_id output_file st =
     (case get_scan_data env scan_id st of
        (Inl e, st1) \<Rightarrow> (Inl e, st1)
      | (Inr None, st1) \<Rightarrow> (Inr False, print (not_found scan_id) st1)
      | (Inr (Some data), st1) \<Rightarrow>
          if not_data (Some data) then (Inr False, print (not_found scan_id) st1) else
          (let (now1, st2) = datetime_now env st1;
               html = html_head env data now1;
               html = html_vulns env 1 (vulnerabilities data) html;
               (now2, st3) = datetime_now env st2;
               html = html @ html_tail scan_id now2
           in case write_file env output_file (HtmlFile html) st3 of
                Inl e \<Rightarrow> (Inl e, st3)
              | Inr st4 \<Rightarrow> (Inr True, print (''[+] VIP HTML Report generated: '' @ output_file) st4)))\<close>

section \<open>The PDF report\<close>

text \<open>
  The story handed to \<open>doc.build\<close>. A paragraph carries its markup text and the name of
  its style, a table its rows of cell text and its column widths in inches.

  \<open>Paragraph(...)\<close> parses its text when it is called and raises \<open>ValueError\<close> on text that
  is not well formed; the text of a table cell is not parsed. Nothing that can be
  observed happens between the calls, so the model builds the story and then raises for
  the first paragraph, in the order of the calls, whose text is not accepted. The file is
  written by \<open>doc.build\<close> only.
\<close>

fun paragraph_texts :: \<open>flowable list \<Rightarrow> string list\<close> where
  \<open>paragraph_texts [] = []\<close>
| \<open>paragraph_texts (Paragraph text style # story) = text # paragraph_texts story\<close>
| \<open>paragraph_texts (Spacer w h # story) = paragraph_texts story\<close>
| \<open>paragraph_texts (Table rows widths # story) = paragraph_texts story\<close>
| \<open>paragraph_texts (PageBreak # story) = paragraph_texts story\<close>

definition pdf_front :: \<open>sys \<Rightarrow> scan_data \<Rightarrow> flowable list\<close> where
  \<open>pdf_front env data =
     [Paragraph ([CHR 0xEF, CHR 0xA3, CHR 0xBF, CHR 0xC3, CHR 0xBC, CHR 0xC3, CHR 0xB5, CHR 0xC2,
                  CHR 0xB0, CHR 0xC3, CHR 0x94, CHR 0xE2, CHR 0x88, CHR 0x8F, CHR 0xC3, CHR 0xA8]
                 @ '' SECURITY SCAN REPORT'') ''CustomTitle'',
      Spacer 1 20,
      Table [[''Metric'', ''Count''],
             [''Total Issues'', str_int (total_alerts data)],
             [''High Risk'', str_int (high_risk data)],
             [''Medium Risk'', str_int (medium_risk data)],
             [''Low Risk'', str_int (low_risk data)]] [3, 2],
      Spacer 1 30,
      Paragraph ''Scan Information'' ''CustomHeading'',
      Table [[''Target URL:'', target_url data],
             [''Scan Type:'', str_title env (scan_type data)],
             [''Start Time:'', start_time data],
             [''End Time:'', end_time data],
             [''Status:'', str_title env (status data)]] [2, 4],
      PageBreak,
      Paragraph ''Detailed Findings'' ''CustomHeading'',
      Spacer 1 20]\<close>

definition pdf_vuln :: \<open>nat \<Rightarrow> vuln \<Rightarrow> flowable list \<Rightarrow> flowable list\<close> where
  \<open>pdf_vuln idx vuln story =
     (let story1 = story
            @ [Paragraph (''<b>'' @ str_nat idx @ ''. '' @ name vuln @ ''</b> ['' @ severity vuln @ '']'') ''Heading3'']
            @ [Paragraph (''<b>Description:</b> '' @ description vuln) ''Normal'']
            @ [Paragraph (''<b>Location:</b> '' @ url vuln) ''Normal''];
          story2 = (if truthy (solution vuln)
                    then story1 @ [Paragraph (''<b>Solution:</b> '' @ fmt_opt (solution vuln)) ''Normal'']
                    else story1)
      in story2 @ [Spacer 1 20])\<close>

fun pdf_vulns :: \<open>nat \<Rightarrow> vuln list \<Rightarrow> flowable list \<Rightarrow> flowable list\<close> where
  \<open>pdf_vulns idx [] story = story\<close>
| \<open>pdf_vulns idx (vuln # rest) story = pdf_vulns (Suc idx) rest (pdf_vuln idx vuln story)\<close>

definition generate_pdf_report :: \<open>sys \<Rightarrow> int \<Rightarrow> string \<Rightarrow> state \<Rightarrow> (exn + bool) \<times> state\<close> where
  \<open>generate_pdf_report env scan_id output_file st =
     (if \<not> PDF_AVAILABLE env
      then (Inr False, print ''[!] PDF generation not available. Install: pip install reportlab'' st)
      else case get_scan_data env scan_id st of
        (Inl e, st1) \<Rightarrow> (Inl e, st1)
      | (Inr None, st1) \<Rightarrow> (Inr False, print (not_found scan_id) st1)
      | (Inr (Some data), st1) \<Rightarrow>
          if not_data (Some data) then (Inr False, print (not_found scan_id) st1) else
          (let story = pdf_front env data;
               story = pdf_vulns 1 (vulnerabilities data) story
           in case find (\<lambda>text. \<not> paragraph_ok env text) (paragraph_texts story) of
                Some text \<Rightarrow> (Inl (ValueError text), st1)
              | None \<Rightarrow>
                  (let (now, st2) = datetime_now env st1
                   in case write_file env output_file (PdfFile story (pdf_stamp env now)) st2 of
                        Inl e \<Rightarrow> (Inl e, st2)
                      | Inr st3 \<Rightarrow> (Inr True, print (''[+] PDF Report generated: '' @ output_file) st3))))\<close>

section \<open>The JSON report\<close>

text \<open>The value \<open>json.dump\<close> is given: the dictionary of \<open>get_scan_data\<close>, keys in insertion order.\<close>

fun json_opt :: \<open>string option \<Rightarrow> json\<close> where
  \<open>json_opt None = JNull\<close>
| \<open>json_opt (Some s) = JStr s\<close>

definition json_vuln :: \<open>vuln \<Rightarrow> json\<close> where
  \<open>json_vuln vuln =
     JObj [(''id'', JInt (vuln_id vuln)),
           (''name'', JStr (name vuln)),
           (''severity'', JStr (severity vuln)),
           (''confidence'', JStr (confidence vuln)),
           (''url'', JStr (url vuln)),
           (''description'', JStr (description vuln)),
           (''solution'', json_opt (solution vuln)),
           (''reference'', json_opt (reference vuln))]\<close>

definition json_data :: \<open>scan_data \<Rightarrow> json\<close> where
  \<open>json_data data =
     JObj [(''scan_id'', JInt (data_scan_id data)),
           (''target_url'', JStr (target_url data)),
           (''scan_type'', JStr (scan_type data)),
           (''start_time'', JStr (start_time data)),
           (''end_time'', JStr (end_time data)),
           (''total_alerts'', JInt (total_alerts data)),
           (''high_risk'', JInt (high_risk data)),
           (''medium_risk'', JInt (medium_risk data)),
           (''low_risk'', JInt (low_risk data)),
           (''status'', JStr (status data)),
           (''vulnerabilities'', JArr (map json_vuln (vulnerabilities data)))]\<close>

definition generate_json_report :: \<open>sys \<Rightarrow> int \<Rightarrow> string \<Rightarrow> state \<Rightarrow> (exn + bool) \<times> state\<close> where
  \<open>generate_json_report env scan_id output_file st =
     (case get_scan_data env scan_id st of
        (Inl e, st1) \<Rightarrow> (Inl e, st1)
      | (Inr None, st1) \<Rightarrow> (Inr False, print (not_found scan_id) st1)
      | (Inr (Some data), st1) \<Rightarrow>
          if not_data (Some data) then (Inr False, print (not_found scan_id) st1) else
          (case write_file env output_file (JsonFile (json_data data)) st1 of
             Inl e \<Rightarrow> (Inl e, st1)
           | Inr st2 \<Rightarrow> (Inr True, print (''[+] JSON Report generated: '' @ output_file) st2)))\<close>

section \<open>The CSV report\<close>

text \<open>A field as \<open>csv.writer\<close> writes it: \<open>None\<close> as the empty field, other values by \<open>str\<close>.\<close>

fun csv_field :: \<open>pyval \<Rightarrow> string\<close> where
  \<open>csv_field PNone = []\<close>
| \<open>csv_field (PInt i) = str_int i\<close>
| \<open>csv_field (PStr s) = s\<close>

definition writerow :: \<open>pyval list \<Rightarrow> string list list \<Rightarrow> string list list\<close> where
  \<open>writerow row rows = rows @ [map csv_field row]\<close>

fun csv_vulns :: \<open>vuln list \<Rightarrow> string list list \<Rightarrow> string list list\<close> where
  \<open>csv_vulns [] rows = rows\<close>
| \<open>csv_vulns (vuln # rest) rows =
     csv_vulns rest
       (writerow [PStr (name vuln), PStr (severity vuln), PStr (confidence vuln), PStr (url vuln),
                  PStr (description vuln), val_opt (solution vuln)] rows)\<close>

definition csv_document :: \<open>scan_data \<Rightarrow> string list list\<close> where
  \<open>csv_document data =
     csv_vulns (vulnerabilities data)
       (writerow [PStr ''Vulnerability Name'', PStr ''Severity'', PStr ''Confidence'', PStr ''URL'',
                  PStr ''Description'', PStr ''Solution''] [])\<close>

definition generate_csv_report :: \<open>sys \<Rightarrow> int \<Rightarrow> string \<Rightarrow> state \<Rightarrow> (exn + bool) \<times> state\<close> where
  \<open>generate_csv_report env scan_id output_file st =
     (case get_scan_data env scan_id st of
        (Inl e, st1) \<Rightarrow> (Inl e, st1)
      | (Inr None, st1) \<Rightarrow> (Inr False, print (not_found scan_id) st1)
      | (Inr (Some data), st1) \<Rightarrow>
          if not_data (Some data) then (Inr False, print (not_found scan_id) st1) else
          (case write_file env output_file (CsvFile (csv_document data)) st1 of
             Inl e \<Rightarrow> (Inl e, st1)
           | Inr st2 \<Rightarrow> (Inr True, print (''[+] CSV Report generated: '' @ output_file) st2)))\<close>

section \<open>The DOCX report\<close>

text \<open>
  The blocks added to the document, in order. The summary table has five rows and two
  columns, and every cell is assigned once, row by row.

  python-docx raises \<open>ValueError\<close> when it is handed a text it cannot store (a heading, a
  paragraph or the text of a cell with a control character). As for the PDF report, the
  model builds the document and then raises for the first text, in the order of the
  calls, that is not accepted. The file is written by \<open>doc.save\<close> only.
\<close>

fun block_texts :: \<open>block list \<Rightarrow> string list\<close> where
  \<open>block_texts [] = []\<close>
| \<open>block_texts (Heading text level # doc) = text # block_texts doc\<close>
| \<open>block_texts (DocTable style rows # doc) = concat rows @ block_texts doc\<close>
| \<open>block_texts (DocParagraph text # doc) = text # block_texts doc\<close>
| \<open>block_texts (DocPageBreak # doc) = block_texts doc\<close>

definition docx_front :: \<open>scan_data \<Rightarrow> block list\<close> where
  \<open>docx_front data =
     [Heading ''SECURITY SCAN REPORT'' 0,
      Heading ''Summary'' 1,
      DocTable ''Light Grid Accent 1''
        [[''Total Issues'', str_int (total_alerts data)],
         [''High Risk'', str_int (high_risk data)],
         [''Medium Risk'', str_int (medium_risk data)],
         [''Low Risk'', str_int (low_risk data)],
         [''Target URL'', target_url data]],
      DocPageBreak,
      Heading ''Detailed Findings'' 1]\<close>

definition docx_vuln :: \<open>nat \<Rightarrow> vuln \<Rightarrow> block list \<Rightarrow> block list\<close> where
  \<open>docx_vuln idx vuln doc =
     (let doc1 = doc
            @ [Heading (str_nat idx @ ''. '' @ name vuln) 2]
            @ [DocParagraph (''Severity: '' @ severity vuln)]
            @ [DocParagraph (''Description: '' @ description vuln)]
            @ [DocParagraph (''Location: '' @ url vuln)];
          doc2 = (if truthy (solution vuln)
                  then doc1 @ [DocParagraph (''Solution: '' @ fmt_opt (solution vuln))]
                  else doc1)
      in doc2 @ [DocParagraph []])\<close>

fun docx_vulns :: \<open>nat \<Rightarrow> vuln list \<Rightarrow> block list \<Rightarrow> block list\<close> where
  \<open>docx_vulns idx [] doc = doc\<close>
| \<open>docx_vulns idx (vuln # rest) doc = docx_vulns (Suc idx) rest (docx_vuln idx vuln doc)\<close>

definition generate_docx_report :: \<open>sys \<Rightarrow> int \<Rightarrow> string \<Rightarrow> state \<Rightarrow> (exn + bool) \<times> state\<close> where
  \<open>generate_docx_report env scan_id output_file st =
     (if \<not> DOCX_AVAILABLE env
      then (Inr False, print ''[!] DOCX generation not available. Install: pip install python-docx'' st)
      else case get_scan_data env scan_id st of
        (Inl e, st1) \<Rightarrow> (Inl e, st1)
      | (Inr None, st1) \<Rightarrow> (Inr False, print (not_found scan_id) st1)
      | (Inr (Some data), st1) \<Rightarrow>
          if not_data (Some data) then (Inr False, print (not_found scan_id) st1) else
          (let doc = docx_front data;
               doc = docx_vulns 1 (vulnerabilities data) doc
           in case find (\<lambda>text. \<not> docx_ok env text) (block_texts doc) of
                Some text \<Rightarrow> (Inl (ValueError text), st1)
              | None \<Rightarrow>
                  (let (now, st2) = datetime_now env st1
                   in case write_file env output_file (DocxFile doc (docx_stamp env now)) st2 of
                        Inl e \<Rightarrow> (Inl e, st2)
                      | Inr st3 \<Rightarrow> (Inr True, print (''[+] DOCX Report generated: '' @ output_file) st3))))\<close>

section \<open>The Excel report\<close>

text \<open>
  The cells assigned on the sheet \<open>Summary\<close> and the rows appended to the sheet
  \<open>Vulnerabilities\<close>.

  openpyxl raises \<open>IllegalCharacterError\<close> when a cell is given a text with a control
  character; numbers and \<open>None\<close> are taken as they are. The model builds both sheets and
  then raises for the first text, in the order of the assignments, that is not accepted.
  The file is written by \<open>wb.save\<close> only.
\<close>

fun cell_texts :: \<open>pyval list \<Rightarrow> string list\<close> where
  \<open>cell_texts [] = []\<close>
| \<open>cell_texts (PStr text # cells) = text # cell_texts cells\<close>
| \<open>cell_texts (PInt i # cells) = cell_texts cells\<close>
| \<open>cell_texts (PNone # cells) = cell_texts cells\<close>

definition xlsx_summary :: \<open>scan_data \<Rightarrow> (string \<times> pyval) list\<close> where
  \<open>xlsx_summary data =
     [(''A1'', PStr ''SECURITY SCAN REPORT''),
      (''A3'', PStr ''Target URL''), (''B3'', PStr (target_url data)),
      (''A4'', PStr ''Scan Type''), (''B4'', PStr (scan_type data)),
      (''A5'', PStr ''Total Issues''), (''B5'', PInt (total_alerts data)),
      (''A6'', PStr ''High Risk''), (''B6'', PInt (high_risk data)),
      (''A7'', PStr ''Medium Risk''), (''B7'', PInt (medium_risk data)),
      (''A8'', PStr ''Low Risk''), (''B8'', PInt (low_risk data))]\<close>

definition xlsx_headers :: \<open>pyval list\<close> where
  \<open>xlsx_headers = [PStr ''#'', PStr ''Name'', PStr ''Severity'', PStr ''Confidence'', PStr ''URL'',
                    PStr ''Description'', PStr ''Solution'']\<close>

fun xlsx_vulns :: \<open>nat \<Rightarrow> vuln list \<Rightarrow> pyval list list \<Rightarrow> pyval list list\<close> where
  \<open>xlsx_vulns idx [] ws_vulns = ws_vulns\<close>
| \<open>xlsx_vulns idx (vuln # rest) ws_vulns =
     xlsx_vulns (Suc idx) rest
       (ws_vulns @ [[PInt (int idx), PStr (name vuln), PStr (severity vuln), PStr (confidence vuln),
                     PStr (url vuln), PStr (description vuln), val_opt (solution vuln)]])\<close>

definition generate_excel_report :: \<open>sys \<Rightarrow> int \<Rightarrow> string \<Rightarrow> state \<Rightarrow> (exn + bool) \<times> state\<close> where
  \<open>generate_excel_report env scan_id output_file st =
     (if \<not> EXCEL_AVAILABLE env
      then (Inr False, print ''[!] Excel generation not available. Install: pip install openpyxl'' st)
      else case get_scan_data env scan_id st of
        (Inl e, st1) \<Rightarrow> (Inl e, st1)
      | (Inr None, st1) \<Rightarrow> (Inr False, print (not_found scan_id) st1)
      | (Inr (Some data), st1) \<Rightarrow>
          if not_data (Some data) then (Inr False, print (not_found scan_id) st1) else
          (let ws_summary = xlsx_summary data;
               ws_vulns = xlsx_vulns 1 (vulnerabilities data) [xlsx_headers]
           in case find (\<lambda>text. \<not> xlsx_ok env text) (cell_texts (map snd ws_summary @ concat ws_vulns)) of
                Some text \<Rightarrow> (Inl (IllegalCharacterError text), st1)
              | None \<Rightarrow>
                  (let (now, st2) = datetime_now env st1
                   in case write_file env output_file (XlsxFile ws_summary ws_vulns (xlsx_stamp env now)) st2 of
                        Inl e \<Rightarrow> (Inl e, st2)
                      | Inr st3 \<Rightarrow> (Inr True, print (''[+] Excel Report generated: '' @ output_file) st3))))\<close>

section \<open>All formats\<close>

type_synonym renderer = \<open>int \<Rightarrow> string \<Rightarrow> state \<Rightarrow> (exn + bool) \<times> state\<close>

text \<open>
  The dictionary \<open>formats\<close>, in insertion order: the three formats that are always there,
  then each optional one whose flag is set.
\<close>

definition available_formats :: \<open>sys \<Rightarrow> string \<Rightarrow> (string \<times> renderer \<times> string) list\<close> where
  \<open>available_formats env base_name =
     (let formats = [(''HTML'', generate_html_report env, base_name @ ''.html''),
                     (''JSON'', generate_json_report env, base_name @ ''.json''),
                     (''CSV'', generate_csv_report env, base_name @ ''.csv'')];
          formats = (if PDF_AVAILABLE env
                     then AList.update ''PDF'' (generate_pdf_report env, base_name @ ''.pdf'') formats
                     else formats);
          formats = (if DOCX_AVAILABLE env
                     then AList.update ''DOCX'' (generate_docx_report env, base_name @ ''.docx'') formats
                     else formats);
          formats = (if EXCEL_AVAILABLE env
                     then AList.update ''Excel'' (generate_excel_report env, base_name @ ''.xlsx'') formats
                     else formats)
      in formats)\<close>

text \<open>
  The loop that runs the renderers. A renderer that raises ends the loop: the call is
  not inside a \<open>try\<close>.
\<close>

fun run_formats ::
  \<open>int \<Rightarrow> (string \<times> renderer \<times> string) list \<Rightarrow> (string \<times> bool) list \<Rightarrow> state
     \<Rightarrow> (exn + (string \<times> bool) list) \<times> state\<close> where
  \<open>run_formats scan_id [] results st = (Inr results, st)\<close>
| \<open>run_formats scan_id ((format_name, func, filename) # rest) results st =
     (let st1 = print ([CHR 0x0A] @ ''[*] Generating '' @ format_name @ '' report...'') st in
      case func scan_id filename st1 of
        (Inl e, st2) \<Rightarrow> (Inl e, st2)
      | (Inr success, st2) \<Rightarrow>
          run_formats scan_id rest (AList.update format_name success results) st2)\<close>

definition rule60 :: string where
  \<open>rule60 = replicate 60 CHR ''=''\<close>

fun print_summary :: \<open>(string \<times> bool) list \<Rightarrow> state \<Rightarrow> state\<close> where
  \<open>print_summary [] st = st\<close>
| \<open>print_summary ((format_name, success) # rest) st =
     (let status = (if success
                    then [CHR 0xE2, CHR 0x80, CHR 0x9A, CHR 0xC3, CHR 0xBA, CHR 0xC3, CHR 0x96] @ '' SUCCESS''
                    else [CHR 0xE2, CHR 0x80, CHR 0x9A, CHR 0xC3, CHR 0xB9, CHR 0xC3, CHR 0xA5] @ '' FAILED'')
      in print_summary rest (print (ljust 12 format_name @ '' : '' @ status) st))\<close>

definition generate_all_formats ::
  \<open>sys \<Rightarrow> int \<Rightarrow> string \<Rightarrow> state \<Rightarrow> (exn + (string \<times> bool) list) \<times> state\<close> where
  \<open>generate_all_formats env scan_id base_name st =
     (let st1 = print ([CHR 0x0A] @ rule60) st;
          st2 = print ''GENERATING REPORTS IN ALL FORMATS'' st1;
          st3 = print rule60 st2
      in case run_formats scan_id (available_formats env base_name) [] st3 of
           (Inl e, st4) \<Rightarrow> (Inl e, st4)
         | (Inr results, st4) \<Rightarrow>
             (let st5 = print ([CHR 0x0A] @ rule60) st4;
                  st6 = print ''REPORT GENERATION SUMMARY'' st5;
                  st7 = print rule60 st6;
                  st8 = print_summary results st7;
                  st9 = print (rule60 @ [CHR 0x0A]) st8
              in (Inr results, st9)))\<close>

section \<open>Notions used in the statements\<close>

subsection \<open>The store\<close>

text \<open>The identifier fits the 64-bit integer of SQLite.\<close>

definition fits :: \<open>int \<Rightarrow> bool\<close> where
  \<open>fits scan_id = (- (2 ^ 63) \<le> scan_id \<and> scan_id < 2 ^ 63)\<close>

text \<open>The store holds both tables.\<close>

definition has_tables :: \<open>store \<Rightarrow> bool\<close> where
  \<open>has_tables d = (scans d \<noteq> None \<and> vulnerabilities_table d \<noteq> None)\<close>

text \<open>
  The scan stored under an identifier: the first row of the table with that identifier,
  if the table is there and has one.
\<close>

definition stored_scan :: \<open>store \<Rightarrow> int \<Rightarrow> scan_row option\<close> where
  \<open>stored_scan d scan_id =
     (case scans d of None \<Rightarrow> None | Some rows \<Rightarrow> find (\<lambda>row. fst row = scan_id) rows)\<close>

text \<open>A scan with the given identifier is in the store.\<close>

definition has_scan :: \<open>store \<Rightarrow> int \<Rightarrow> bool\<close> where
  \<open>has_scan d scan_id =
     (case scans d of None \<Rightarrow> False | Some rows \<Rightarrow> list_ex (\<lambda>row. fst row = scan_id) rows)\<close>

text \<open>
  The data model of the specification: the finding a row of the vulnerabilities table
  stands for, the findings stored for a scan, in table order, and the aggregate of a
  scan row and a list of findings.
\<close>

fun finding :: \<open>vuln_row \<Rightarrow> vuln\<close> where
  \<open>finding (v0, v1, v2, v3, v4, v5, v6, v7, v8) =
     \<lparr>vuln_id = v0, name = v2, severity = v3, confidence = v4, url = v5, description = v6,
      solution = v7, reference = v8\<rparr>\<close>

definition stored_findings :: \<open>store \<Rightarrow> int \<Rightarrow> vuln list\<close> where
  \<open>stored_findings d scan_id =
     (case vulnerabilities_table d of
        None \<Rightarrow> []
      | Some rows \<Rightarrow> map finding (filter (\<lambda>row. fst (snd row) = scan_id) rows))\<close>

fun aggregate :: \<open>scan_row \<Rightarrow> vuln list \<Rightarrow> scan_data\<close> where
  \<open>aggregate (s0, s1, s2, s3, s4, s5, s6, s7, s8, s9) findings =
     \<lparr>data_scan_id = s0, target_url = s1, scan_type = s2, start_time = s3, end_time = s4,
      total_alerts = s5, high_risk = s6, medium_risk = s7, low_risk = s8, status = s9,
      vulnerabilities = findings\<rparr>\<close>

text \<open>
  What a read leaves behind: a connection opened and closed again when it returns, a
  connection opened and left open when it raises.
\<close>

definition after_read :: \<open>state \<Rightarrow> state\<close> where
  \<open>after_read st =
     st\<lparr>conn_log := conn_log st @ [Connect (length (conn_log st)), Close (length (conn_log st))]\<rparr>\<close>

definition left_open :: \<open>state \<Rightarrow> state\<close> where
  \<open>left_open st = st\<lparr>conn_log := conn_log st @ [Connect (length (conn_log st))]\<rparr>\<close>

text \<open>The result of a read, as a function of the store alone.\<close>

definition read_scan :: \<open>store \<Rightarrow> int \<Rightarrow> exn + scan_data option\<close> where
  \<open>read_scan d scan_id =
     (case select_scan d scan_id of
        Inl e \<Rightarrow> Inl e
      | Inr None \<Rightarrow> Inr None
      | Inr (Some scan) \<Rightarrow>
          (case select_vulns d scan_id of
             Inl e \<Rightarrow> Inl e
           | Inr vulns \<Rightarrow> Inr (Some (append_vulns vulns (scan_dict scan)))))\<close>

subsection \<open>The documents\<close>

text \<open>
  The entry of finding number \<open>k\<close> in the HTML report: the card with its fixed fields,
  then the solution box only for a remediation text that is there and not empty, then
  the reference line only for a reference that is there and not empty.
\<close>

definition finding_card :: \<open>sys \<Rightarrow> nat \<Rightarrow> vuln \<Rightarrow> string\<close> where
  \<open>finding_card env k v =
     card_open @ str_lower env (severity v) @ card_title @ str_nat k @ card_dot @ name v
     @ card_badge @ str_lower env (severity v) @ card_badge_close @ severity v
     @ card_description @ description v
     @ card_location @ url v
     @ card_confidence @ confidence v @ card_content_end
     @ (case solution v of
          None \<Rightarrow> []
        | Some s \<Rightarrow> if s = [] then [] else solution_open @ s @ solution_close)
     @ (case reference v of
          None \<Rightarrow> []
        | Some r \<Rightarrow> if r = [] then [] else reference_open @ r @ reference_close)
     @ card_close\<close>

text \<open>
  The HTML report of an aggregate: the head, one card for each finding, numbered from 1,
  and the tail. The head carries the first reading of the clock, the tail the second.
\<close>

definition html_text :: \<open>sys \<Rightarrow> scan_data \<Rightarrow> int \<Rightarrow> datetime \<Rightarrow> datetime \<Rightarrow> string\<close> where
  \<open>html_text env data scan_id now1 now2 =
     html_head env data now1
     @ concat (map (\<lambda>(k, v). finding_card env k v) (enumerate 1 (vulnerabilities data)))
     @ html_tail scan_id now2\<close>

text \<open>The entry of finding number \<open>k\<close> in the PDF story, and the story of an aggregate.\<close>

definition pdf_finding :: \<open>nat \<Rightarrow> vuln \<Rightarrow> flowable list\<close> where
  \<open>pdf_finding k v =
     [Paragraph (''<b>'' @ str_nat k @ ''. '' @ name v @ ''</b> ['' @ severity v @ '']'') ''Heading3'',
      Paragraph (''<b>Description:</b> '' @ description v) ''Normal'',
      Paragraph (''<b>Location:</b> '' @ url v) ''Normal'']
     @ (case solution v of
          None \<Rightarrow> []
        | Some s \<Rightarrow> if s = [] then [] else [Paragraph (''<b>Solution:</b> '' @ s) ''Normal''])
     @ [Spacer 1 20]\<close>

definition pdf_story :: \<open>sys \<Rightarrow> scan_data \<Rightarrow> flowable list\<close> where
  \<open>pdf_story env data =
     pdf_front env data
     @ concat (map (\<lambda>(k, v). pdf_finding k v) (enumerate 1 (vulnerabilities data)))\<close>

text \<open>The entry of finding number \<open>k\<close> in the DOCX document, and the document of an aggregate.\<close>

definition docx_finding :: \<open>nat \<Rightarrow> vuln \<Rightarrow> block list\<close> where
  \<open>docx_finding k v =
     [Heading (str_nat k @ ''. '' @ name v) 2,
      DocParagraph (''Severity: '' @ severity v),
      DocParagraph (''Description: '' @ description v),
      DocParagraph (''Location: '' @ url v)]
     @ (case solution v of
          None \<Rightarrow> []
        | Some s \<Rightarrow> if s = [] then [] else [DocParagraph (''Solution: '' @ s)])
     @ [DocParagraph []]\<close>

definition docx_blocks :: \<open>scan_data \<Rightarrow> block list\<close> where
  \<open>docx_blocks data =
     docx_front data
     @ concat (map (\<lambda>(k, v). docx_finding k v) (enumerate 1 (vulnerabilities data)))\<close>

text \<open>
  The row of finding number \<open>k\<close> on the sheet of findings, and the rows of the sheet for
  an aggregate: the headers and one row for each finding.
\<close>

definition xlsx_row :: \<open>nat \<Rightarrow> vuln \<Rightarrow> pyval list\<close> where
  \<open>xlsx_row k v =
     [PInt (int k), PStr (name v), PStr (severity v), PStr (confidence v), PStr (url v),
      PStr (description v), (case solution v of None \<Rightarrow> PNone | Some s \<Rightarrow> PStr s)]\<close>

definition xlsx_rows :: \<open>scan_data \<Rightarrow> pyval list list\<close> where
  \<open>xlsx_rows data =
     [PStr ''#'', PStr ''Name'', PStr ''Severity'', PStr ''Confidence'', PStr ''URL'',
      PStr ''Description'', PStr ''Solution'']
     # map (\<lambda>(k, v). xlsx_row k v) (enumerate 1 (vulnerabilities data))\<close>

text \<open>
  The rows of the CSV report of an aggregate: the header and one row of six fields for
  each finding, an absent remediation text as the empty field.
\<close>

definition csv_header :: \<open>string list\<close> where
  \<open>csv_header = [''Vulnerability Name'', ''Severity'', ''Confidence'', ''URL'', ''Description'', ''Solution'']\<close>

definition csv_row :: \<open>vuln \<Rightarrow> string list\<close> where
  \<open>csv_row v =
     [name v, severity v, confidence v, url v, description v,
      (case solution v of None \<Rightarrow> [] | Some s \<Rightarrow> s)]\<close>

definition csv_rows :: \<open>scan_data \<Rightarrow> string list list\<close> where
  \<open>csv_rows data = csv_header # map csv_row (vulnerabilities data)\<close>

subsection \<open>The renderers\<close>

text \<open>Writing the finished document and reporting it, or leaving with the exception.\<close>

definition emit :: \<open>sys \<Rightarrow> string \<Rightarrow> content \<Rightarrow> string \<Rightarrow> state \<Rightarrow> (exn + bool) \<times> state\<close> where
  \<open>emit env output_file doc label st =
     (if writable env output_file
      then (Inr True, print (label @ output_file) (st\<lparr>files := (files st)(output_file \<mapsto> doc)\<rparr>))
      else (Inl (OSError output_file), st))\<close>

text \<open>
  The shape the renderers share. The read raises, or finds no scan, or gives the
  aggregate; then the encoder may reject a text of the document; else the document is
  written, after \<open>reads\<close> readings of the clock, the first of them at the tick given to \<open>doc\<close>.
\<close>

definition perform ::
  \<open>sys \<Rightarrow> int \<Rightarrow> string \<Rightarrow> (scan_data \<Rightarrow> exn option) \<Rightarrow> nat \<Rightarrow> (scan_data \<Rightarrow> nat \<Rightarrow> content)
     \<Rightarrow> string \<Rightarrow> state \<Rightarrow> (exn + bool) \<times> state\<close> where
  \<open>perform env scan_id output_file rejected reads doc label st =
     (case read_scan (db env) scan_id of
        Inl e \<Rightarrow> (Inl e, left_open st)
      | Inr None \<Rightarrow> (Inr False, print (not_found scan_id) (after_read st))
      | Inr (Some data) \<Rightarrow>
          (case rejected data of
             Some e \<Rightarrow> (Inl e, after_read st)
           | None \<Rightarrow>
               emit env output_file (doc data (ticks st)) label
                 ((after_read st)\<lparr>ticks := ticks st + reads\<rparr>)))\<close>

text \<open>The first text of a document that its encoder rejects, as the exception raised for it.\<close>

definition pdf_rejected :: \<open>sys \<Rightarrow> scan_data \<Rightarrow> exn option\<close> where
  \<open>pdf_rejected env data =
     map_option ValueError (find (\<lambda>text. \<not> paragraph_ok env text) (paragraph_texts (pdf_story env data)))\<close>

definition docx_rejected :: \<open>sys \<Rightarrow> scan_data \<Rightarrow> exn option\<close> where
  \<open>docx_rejected env data =
     map_option ValueError (find (\<lambda>text. \<not> docx_ok env text) (block_texts (docx_blocks data)))\<close>

definition xlsx_rejected :: \<open>sys \<Rightarrow> scan_data \<Rightarrow> exn option\<close> where
  \<open>xlsx_rejected env data =
     map_option IllegalCharacterError
       (find (\<lambda>text. \<not> xlsx_ok env text)
          (cell_texts (map snd (xlsx_summary data) @ concat (xlsx_rows data))))\<close>

subsection \<open>Empty and absent texts\<close>

text \<open>
  An empty text read as no text: in the remediation column of a row, in both nullable
  columns of a row, and in every row of the table of findings.
\<close>

fun blank_to_none :: \<open>string option \<Rightarrow> string option\<close> where
  \<open>blank_to_none None = None\<close>
| \<open>blank_to_none (Some s) = (if s = [] then None else Some s)\<close>




subsection \<open>Reading a JSON value\<close>

text \<open>
  Reading a written JSON value back: a member of an object, a number, a text, a text
  that may be null, a finding with its eight members, and the findings of a report.
\<close>

fun json_field :: \<open>string \<Rightarrow> json \<Rightarrow> json option\<close> where
  \<open>json_field k (JObj members) = map_of members k\<close>
| \<open>json_field k j = None\<close>

fun json_int :: \<open>json \<Rightarrow> int option\<close> where
  \<open>json_int (JInt i) = Some i\<close>
| \<open>json_int j = None\<close>

fun json_text :: \<open>json \<Rightarrow> string option\<close> where
  \<open>json_text (JStr s) = Some s\<close>
| \<open>json_text j = None\<close>

fun json_nullable :: \<open>json \<Rightarrow> string option option\<close> where
  \<open>json_nullable JNull = Some None\<close>
| \<open>json_nullable (JStr s) = Some (Some s)\<close>
| \<open>json_nullable j = None\<close>

definition vuln_of_json :: \<open>json \<Rightarrow> vuln option\<close> where
  \<open>vuln_of_json j =
     Option.bind (Option.bind (json_field ''id'' j) json_int) (\<lambda>v0.
     Option.bind (Option.bind (json_field ''name'' j) json_text) (\<lambda>v2.
     Option.bind (Option.bind (json_field ''severity'' j) json_text) (\<lambda>v3.
     Option.bind (Option.bind (json_field ''confidence'' j) json_text) (\<lambda>v4.
     Option.bind (Option.bind (json_field ''url'' j) json_text) (\<lambda>v5.
     Option.bind (Option.bind (json_field ''description'' j) json_text) (\<lambda>v6.
     Option.bind (Option.bind (json_field ''solution'' j) json_nullable) (\<lambda>v7.
     Option.bind (Option.bind (json_field ''reference'' j) json_nullable) (\<lambda>v8.
       Some \<lparr>vuln_id = v0, name = v2, severity = v3, confidence = v4, url = v5,
             description = v6, solution = v7, reference = v8\<rparr>))))))))\<close>

fun json_items :: \<open>json \<Rightarrow> json list option\<close> where
  \<open>json_items (JArr js) = Some js\<close>
| \<open>json_items j = None\<close>

definition findings_of_json :: \<open>json \<Rightarrow> vuln list option\<close> where
  \<open>findings_of_json j =
     Option.bind (Option.bind (json_field ''vulnerabilities'' j) json_items)
       (\<lambda>js. those (map vuln_of_json js))\<close>

section \<open>Examples\<close>

text \<open>
  What \<open>str.lower\<close> and \<open>str.title\<close> do on ASCII text, which is all the examples hold: every
  letter is lowered; a letter that follows a letter is lowered and any other letter is
  raised.
\<close>

definition is_upper :: \<open>char \<Rightarrow> bool\<close> where
  \<open>is_upper c = (65 \<le> (of_char c :: nat) \<and> (of_char c :: nat) \<le> 90)\<close>

definition is_lower :: \<open>char \<Rightarrow> bool\<close> where
  \<open>is_lower c = (97 \<le> (of_char c :: nat) \<and> (of_char c :: nat) \<le> 122)\<close>

definition to_lower :: \<open>char \<Rightarrow> char\<close> where
  \<open>to_lower c = (if is_upper c then char_of ((of_char c :: nat) + 32) else c)\<close>

definition to_upper :: \<open>char \<Rightarrow> char\<close> where
  \<open>to_upper c = (if is_lower c then char_of ((of_char c :: nat) - 32) else c)\<close>

definition ascii_lower :: \<open>string \<Rightarrow> string\<close> where
  \<open>ascii_lower s = map to_lower s\<close>

fun title_from :: \<open>bool \<Rightarrow> string \<Rightarrow> string\<close> where
  \<open>title_from previous_is_cased [] = []\<close>
| \<open>title_from previous_is_cased (c # cs) =
     (if is_lower c then (if previous_is_cased then c else to_upper c) # title_from True cs
      else if is_upper c then (if previous_is_cased then to_lower c else c) # title_from True cs
      else c # title_from False cs)\<close>

definition ascii_title :: \<open>string \<Rightarrow> string\<close> where
  \<open>ascii_title s = title_from False s\<close>

text \<open>
  The encoders of the examples. The paragraph parser accepts text without control
  characters whose only markup is bold text, opened and closed in turn; the other two
  encoders accept text without control characters. Each encoder stamps its file with the
  reading of the clock, to the second.
\<close>

fun bold_markup :: \<open>bool \<Rightarrow> string \<Rightarrow> bool\<close> where
  \<open>bold_markup bold [] = (\<not> bold)\<close>
| \<open>bold_markup bold (c # cs) =
     (if c = CHR ''<'' then
        (if \<not> bold \<and> take 2 cs = ''b>'' then bold_markup True (drop 2 cs)
         else if bold \<and> take 3 cs = ''/b>'' then bold_markup False (drop 3 cs)
         else False)
      else 32 \<le> (of_char c :: nat) \<and> bold_markup bold cs)\<close>

definition no_control :: \<open>string \<Rightarrow> bool\<close> where
  \<open>no_control s = list_all (\<lambda>c. 32 \<le> (of_char c :: nat)) s\<close>

text \<open>
  Scan 42 has three findings, scan 50 has none, scan 60 stores counts that do not match
  its single finding, and no scan has the identifier 99. One finding of scan 42 has an
  empty remediation text and one has none.
\<close>

definition example_store :: store where
  \<open>example_store =
     \<lparr>scans = Some
        [(42, ''http://shop.test'', ''quick'', ''2024-03-01 10:00:00'', ''2024-03-01 10:05:00'',
          3, 1, 1, 1, ''completed''),
         (50, ''http://blog.test'', ''full'', ''2024-03-02 08:00:00'', ''2024-03-02 09:00:00'',
          0, 0, 0, 0, ''completed''),
         (60, ''http://wiki.test'', ''quick'', ''2024-03-03 08:00:00'', ''2024-03-03 08:01:00'',
          5, 2, 2, 1, ''completed'')],
      vulnerabilities_table = Some
        [(1, 42, ''SQL Injection'', ''High'', ''Medium'', ''http://shop.test/item'',
          ''Query built from input'', Some ''Use parameters'', Some ''https://owasp.test/sqli''),
         (2, 60, ''Open Redirect'', ''Low'', ''Low'', ''http://wiki.test/go'',
          ''Unchecked target'', None, None),
         (3, 42, ''Reflected XSS'', ''Medium'', ''High'', ''http://shop.test/search'',
          ''Input echoed'', Some [], None),
         (4, 42, ''Missing Security Header'', ''Low'', ''Low'', ''http://shop.test/'',
          ''No CSP header'', None, Some ''https://owasp.test/headers'')]\<rparr>\<close>

definition noon :: datetime where
  \<open>noon = \<lparr>year = 2024, month = 3, day = 4, hour = 12, minute = 0, second = 0\<rparr>\<close>

definition example_sys :: sys where
  \<open>example_sys =
     \<lparr>db = example_store, PDF_AVAILABLE = True, DOCX_AVAILABLE = True, EXCEL_AVAILABLE = True,
      clock = (\<lambda>n. noon), writable = (\<lambda>path. True),
      str_lower = ascii_lower, str_title = ascii_title,
      paragraph_ok = bold_markup False, docx_ok = no_control, xlsx_ok = no_control,
      pdf_stamp = strftime, docx_stamp = strftime, xlsx_stamp = strftime\<rparr>\<close>

text \<open>
  The least identifier beyond the 64-bit integers. The command line accepts it like any
  other string of digits.
\<close>

definition large_id :: int where
  \<open>large_id = 2 ^ 63\<close>

definition initial_state :: state where
  \<open>initial_state = \<lparr>files = Map.empty, stdout = [], conn_log = [], ticks = 0\<rparr>\<close>



definition example_store_reference :: store where
  \<open>example_store_reference =
     example_store\<lparr>vulnerabilities_table := Some
        [(1, 42, ''SQL Injection'', ''High'', ''Medium'', ''http://shop.test/item'',
          ''Query built from input'', Some ''Use parameters'', Some ''https://owasp.test/other''),
         (2, 60, ''Open Redirect'', ''Low'', ''Low'', ''http://wiki.test/go'',
          ''Unchecked target'', None, None),
         (3, 42, ''Reflected XSS'', ''Medium'', ''High'', ''http://shop.test/search'',
          ''Input echoed'', Some [], None),
         (4, 42, ''Missing Security Header'', ''Low'', ''Low'', ''http://shop.test/'',
          ''No CSP header'', None, Some ''https://owasp.test/headers'')]\<rparr>\<close>


text \<open>
  A clock that shows the last second of a year at its first three readings and the
  first second of the next year from then on.
\<close>

definition new_year_clock :: \<open>nat \<Rightarrow> datetime\<close> where
  \<open>new_year_clock n =
     (if n < 3 then \<lparr>year = 2024, month = 12, day = 31, hour = 23, minute = 59, second = 59\<rparr>
      else \<lparr>year = 2025, month = 1, day = 1, hour = 0, minute = 0, second = 0\<rparr>)\<close>

text \<open>The aggregate of scan 42 of the example store.\<close>

definition example_data_42 :: scan_data where
  \<open>example_data_42 =
     \<lparr>data_scan_id = 42, target_url = ''http://shop.test'', scan_type = ''quick'',
      start_time = ''2024-03-01 10:00:00'', end_time = ''2024-03-01 10:05:00'',
      total_alerts = 3, high_risk = 1, medium_risk = 1, low_risk = 1, status = ''completed'',
      vulnerabilities =
        [\<lparr>vuln_id = 1, name = ''SQL Injection'', severity = ''High'', confidence = ''Medium'',
          url = ''http://shop.test/item'', description = ''Query built from input'',
          solution = Some ''Use parameters'', reference = Some ''https://owasp.test/sqli''\<rparr>,
         \<lparr>vuln_id = 3, name = ''Reflected XSS'', severity = ''Medium'', confidence = ''High'',
          url = ''http://shop.test/search'', description = ''Input echoed'',
          solution = Some [], reference = None\<rparr>,
         \<lparr>vuln_id = 4, name = ''Missing Security Header'', severity = ''Low'', confidence = ''Low'',
          url = ''http://shop.test/'', description = ''No CSP header'',
          solution = None, reference = Some ''https://owasp.test/headers''\<rparr>]\<rparr>\<close>

section \<open>Properties of the reader\<close>

lemma data_keys_not_empty [simp]: \<open>data_keys data \<noteq> []\<close>
  by (simp add: data_keys_def)

lemma vuln_dict_finding: \<open>vuln_dict row = finding row\<close>
  by (cases row rule: finding.cases) simp

lemma append_vulns_eq:
  \<open>append_vulns vs data = data\<lparr>vulnerabilities := vulnerabilities data @ map finding vs\<rparr>\<close>
  by (induction vs arbitrary: data) (simp_all add: vuln_dict_finding)

lemma scan_dict_aggregate:
  \<open>(scan_dict row)\<lparr>vulnerabilities := findings\<rparr> = aggregate row findings\<close>
  by (cases row rule: scan_dict.cases) simp

lemma vulnerabilities_scan_dict [simp]: \<open>vulnerabilities (scan_dict row) = []\<close>
  by (cases row rule: scan_dict.cases) simp

lemma vulnerabilities_aggregate [simp]: \<open>vulnerabilities (aggregate row findings) = findings\<close>
  by (cases row rule: scan_dict.cases) simp

lemma after_read_simps [simp]:
  \<open>files (after_read st) = files st\<close>
  \<open>stdout (after_read st) = stdout st\<close>
  \<open>ticks (after_read st) = ticks st\<close>
  \<open>conn_log (after_read st) = conn_log st @ [Connect (length (conn_log st)), Close (length (conn_log st))]\<close>
  by (simp_all add: after_read_def)

lemma left_open_simps [simp]:
  \<open>files (left_open st) = files st\<close>
  \<open>stdout (left_open st) = stdout st\<close>
  \<open>ticks (left_open st) = ticks st\<close>
  \<open>conn_log (left_open st) = conn_log st @ [Connect (length (conn_log st))]\<close>
  by (simp_all add: left_open_def)

lemma print_simps [simp]:
  \<open>files (print line st) = files st\<close>
  \<open>stdout (print line st) = stdout st @ [line]\<close>
  \<open>ticks (print line st) = ticks st\<close>
  \<open>conn_log (print line st) = conn_log st\<close>
  by (simp_all add: print_def)

lemma bind_int_fits: \<open>bind_int i = (if fits i then Inr i else Inl OverflowError)\<close>
  by (simp add: bind_int_def fits_def)

text \<open>The read of the code in terms of the store: state and result part.\<close>

lemma get_scan_data_eq:
  \<open>get_scan_data env scan_id st
     = (read_scan (db env) scan_id,
        case read_scan (db env) scan_id of Inl e \<Rightarrow> left_open st | Inr r \<Rightarrow> after_read st)\<close>
  by (simp add: get_scan_data_def read_scan_def after_read_def left_open_def connect_def close_def
      split: option.split sum.split)

text \<open>The five cases of a read.\<close>

lemma read_scan_no_scans:
  \<open>scans d = None \<Longrightarrow> read_scan d scan_id = Inl (OperationalError ''no such table: scans'')\<close>
  by (simp add: read_scan_def select_scan_def)

lemma read_scan_overflow:
  \<open>scans d = Some rows \<Longrightarrow> \<not> fits scan_id \<Longrightarrow> read_scan d scan_id = Inl OverflowError\<close>
  by (simp add: read_scan_def select_scan_def bind_int_fits)

lemma find_None_list_ex: \<open>find P xs = None \<longleftrightarrow> \<not> list_ex P xs\<close>
  by (induction xs) simp_all

lemma find_Some_holds: \<open>find P xs = Some x \<Longrightarrow> P x\<close>
  by (induction xs) (simp_all split: if_splits)

lemma stored_scan_None: \<open>stored_scan d scan_id = None \<longleftrightarrow> \<not> has_scan d scan_id\<close>
  by (cases \<open>scans d\<close>) (simp_all add: has_scan_def stored_scan_def find_None_list_ex)

lemma stored_scan_has_scan: \<open>stored_scan d scan_id = Some row \<Longrightarrow> has_scan d scan_id\<close>
  using stored_scan_None [of d scan_id] by (cases \<open>has_scan d scan_id\<close>) simp_all

lemma stored_scan_id: \<open>stored_scan d scan_id = Some row \<Longrightarrow> fst row = scan_id\<close>
  unfolding stored_scan_def
  by (cases \<open>scans d\<close>) (auto dest: find_Some_holds [where P = \<open>\<lambda>row. fst row = scan_id\<close>])

lemma select_scan_stored:
  \<open>scans d = Some rows \<Longrightarrow> fits scan_id \<Longrightarrow> select_scan d scan_id = Inr (stored_scan d scan_id)\<close>
  by (simp add: select_scan_def stored_scan_def bind_int_fits)

lemma read_scan_absent:
  assumes \<open>scans d = Some rows\<close> \<open>fits scan_id\<close> \<open>\<not> has_scan d scan_id\<close>
  shows \<open>read_scan d scan_id = Inr None\<close>
proof -
  from assms(3) have \<open>stored_scan d scan_id = None\<close>
    by (simp add: stored_scan_None)
  with assms(1,2) show ?thesis
    by (simp add: read_scan_def select_scan_stored)
qed

lemma read_scan_no_vulnerabilities:
  assumes \<open>fits scan_id\<close> \<open>has_scan d scan_id\<close> \<open>vulnerabilities_table d = None\<close>
  shows \<open>read_scan d scan_id = Inl (OperationalError ''no such table: vulnerabilities'')\<close>
proof -
  from assms(2) obtain rows where rows: \<open>scans d = Some rows\<close>
    by (cases \<open>scans d\<close>) (simp_all add: has_scan_def)
  from assms(2) obtain row where \<open>stored_scan d scan_id = Some row\<close>
    using stored_scan_None [of d scan_id] by (cases \<open>stored_scan d scan_id\<close>) simp_all
  with rows assms(1,3) show ?thesis
    by (simp add: read_scan_def select_scan_stored select_vulns_def)
qed

lemma read_scan_found:
  assumes \<open>fits scan_id\<close> \<open>stored_scan d scan_id = Some row\<close> \<open>vulnerabilities_table d = Some vrows\<close>
  shows \<open>read_scan d scan_id = Inr (Some (aggregate row (stored_findings d scan_id)))\<close>
proof -
  from assms(2) obtain rows where rows: \<open>scans d = Some rows\<close>
    by (cases \<open>scans d\<close>) (simp_all add: stored_scan_def)
  have \<open>select_vulns d scan_id = Inr (filter (\<lambda>row. fst (snd row) = scan_id) vrows)\<close>
    using assms(1,3) by (simp add: select_vulns_def bind_int_fits)
  moreover have \<open>stored_findings d scan_id = map finding (filter (\<lambda>row. fst (snd row) = scan_id) vrows)\<close>
    using assms(3) by (simp add: stored_findings_def)
  ultimately show ?thesis
    using rows assms(1,2)
    by (simp add: read_scan_def select_scan_stored append_vulns_eq scan_dict_aggregate)
qed

lemma read_scan_cases:
  obtains (no_scans) \<open>scans d = None\<close> \<open>read_scan d scan_id = Inl (OperationalError ''no such table: scans'')\<close>
  | (overflow) \<open>scans d \<noteq> None\<close> \<open>\<not> fits scan_id\<close> \<open>read_scan d scan_id = Inl OverflowError\<close>
  | (absent) \<open>scans d \<noteq> None\<close> \<open>fits scan_id\<close> \<open>\<not> has_scan d scan_id\<close> \<open>read_scan d scan_id = Inr None\<close>
  | (no_vulnerabilities) \<open>scans d \<noteq> None\<close> \<open>fits scan_id\<close> \<open>has_scan d scan_id\<close>
      \<open>vulnerabilities_table d = None\<close>
      \<open>read_scan d scan_id = Inl (OperationalError ''no such table: vulnerabilities'')\<close>
  | (found) row where \<open>scans d \<noteq> None\<close> \<open>has_tables d\<close> \<open>fits scan_id\<close> \<open>has_scan d scan_id\<close>
      \<open>stored_scan d scan_id = Some row\<close>
      \<open>read_scan d scan_id = Inr (Some (aggregate row (stored_findings d scan_id)))\<close>
proof (cases \<open>scans d\<close>)
  case None
  then show thesis using no_scans read_scan_no_scans by blast
next
  case (Some rows)
  then have tab: \<open>scans d \<noteq> None\<close> by simp
  show thesis
  proof (cases \<open>fits scan_id\<close>)
    case False
    with Some tab show thesis using overflow read_scan_overflow by blast
  next
    case True
    show thesis
    proof (cases \<open>stored_scan d scan_id\<close>)
      case None
      then have \<open>\<not> has_scan d scan_id\<close> by (simp add: stored_scan_None)
      with Some tab True show thesis using absent read_scan_absent by blast
    next
      case row: (Some row)
      then have has: \<open>has_scan d scan_id\<close> by (rule stored_scan_has_scan)
      show thesis
      proof (cases \<open>vulnerabilities_table d\<close>)
        case None
        with tab True has show thesis
          using no_vulnerabilities read_scan_no_vulnerabilities by blast
      next
        case vrows: (Some vrows)
        with tab have \<open>has_tables d\<close> by (simp add: has_tables_def)
        with tab True has row vrows show thesis
          using found read_scan_found by blast
      qed
    qed
  qed
qed

lemma read_scan_Some_iff:
  \<open>(\<exists>data. read_scan d scan_id = Inr (Some data)) \<longleftrightarrow> has_tables d \<and> fits scan_id \<and> has_scan d scan_id\<close>
  by (rule read_scan_cases [of d scan_id]) (simp_all add: has_tables_def)

lemma read_scan_stored:
  assumes \<open>has_tables d\<close> \<open>fits scan_id\<close> \<open>has_scan d scan_id\<close>
  obtains row where \<open>stored_scan d scan_id = Some row\<close>
    and \<open>read_scan d scan_id = Inr (Some (aggregate row (stored_findings d scan_id)))\<close>
  using assms by (cases rule: read_scan_cases [of d scan_id]) (simp_all add: has_tables_def)

section \<open>The documents the renderers build\<close>

lemma html_vuln_card: \<open>html_vuln env idx v html = html @ finding_card env idx v\<close>
  by (cases \<open>solution v\<close>; cases \<open>reference v\<close>) (simp_all add: html_vuln_def finding_card_def Let_def)

lemma html_vulns_eq:
  \<open>html_vulns env idx vs html = html @ concat (map (\<lambda>(k, v). finding_card env k v) (enumerate idx vs))\<close>
  by (induction vs arbitrary: idx html) (simp_all add: html_vuln_card)

lemma pdf_vuln_entry: \<open>pdf_vuln idx v story = story @ pdf_finding idx v\<close>
  by (cases \<open>solution v\<close>) (simp_all add: pdf_vuln_def pdf_finding_def Let_def)

lemma pdf_vulns_eq:
  \<open>pdf_vulns idx vs story = story @ concat (map (\<lambda>(k, v). pdf_finding k v) (enumerate idx vs))\<close>
  by (induction vs arbitrary: idx story) (simp_all add: pdf_vuln_entry)

lemma docx_vuln_entry: \<open>docx_vuln idx v doc = doc @ docx_finding idx v\<close>
  by (cases \<open>solution v\<close>) (simp_all add: docx_vuln_def docx_finding_def Let_def)

lemma docx_vulns_eq:
  \<open>docx_vulns idx vs doc = doc @ concat (map (\<lambda>(k, v). docx_finding k v) (enumerate idx vs))\<close>
  by (induction vs arbitrary: idx doc) (simp_all add: docx_vuln_entry)

lemma xlsx_vulns_eq:
  \<open>xlsx_vulns idx vs ws = ws @ map (\<lambda>(k, v). xlsx_row k v) (enumerate idx vs)\<close>
proof (induction vs arbitrary: idx ws)
  case Nil
  then show ?case by simp
next
  case (Cons v vs)
  have \<open>val_opt (solution v) = (case solution v of None \<Rightarrow> PNone | Some s \<Rightarrow> PStr s)\<close>
    by (cases \<open>solution v\<close>) simp_all
  with Cons show ?case by (simp add: xlsx_row_def)
qed

lemma csv_vulns_eq: \<open>csv_vulns vs rows = rows @ map csv_row vs\<close>
proof (induction vs arbitrary: rows)
  case Nil
  then show ?case by simp
next
  case (Cons v vs)
  have \<open>csv_field (val_opt (solution v)) = (case solution v of None \<Rightarrow> [] | Some s \<Rightarrow> s)\<close>
    by (cases \<open>solution v\<close>) simp_all
  with Cons show ?case by (simp add: writerow_def csv_row_def)
qed

lemma csv_document_eq: \<open>csv_document data = csv_rows data\<close>
  by (simp add: csv_document_def csv_vulns_eq csv_rows_def csv_header_def writerow_def)

lemma html_document_eq:
  \<open>html_vulns env 1 (vulnerabilities data) (html_head env data now1) @ html_tail scan_id now2
     = html_text env data scan_id now1 now2\<close>
  by (simp add: html_vulns_eq html_text_def)

lemma pdf_document_eq: \<open>pdf_vulns 1 (vulnerabilities data) (pdf_front env data) = pdf_story env data\<close>
  by (simp add: pdf_vulns_eq pdf_story_def)

lemma docx_document_eq: \<open>docx_vulns 1 (vulnerabilities data) (docx_front data) = docx_blocks data\<close>
  by (simp add: docx_vulns_eq docx_blocks_def)

lemma xlsx_document_eq: \<open>xlsx_vulns 1 (vulnerabilities data) [xlsx_headers] = xlsx_rows data\<close>
  by (simp add: xlsx_vulns_eq xlsx_rows_def xlsx_headers_def)

section \<open>The renderers in their common shape\<close>

lemma generate_html_report_eq:
  \<open>generate_html_report env scan_id output_file st =
     perform env scan_id output_file (\<lambda>data. None) 2
       (\<lambda>data t. HtmlFile (html_text env data scan_id (clock env t) (clock env (Suc t))))
       ''[+] VIP HTML Report generated: '' st\<close>
  by (simp add: generate_html_report_def get_scan_data_eq datetime_now_def write_file_def
      emit_def perform_def html_vulns_eq html_text_def split: option.split sum.split)

lemma generate_json_report_eq:
  \<open>generate_json_report env scan_id output_file st =
     perform env scan_id output_file (\<lambda>data. None) 0 (\<lambda>data t. JsonFile (json_data data))
       ''[+] JSON Report generated: '' st\<close>
  by (simp add: generate_json_report_def get_scan_data_eq write_file_def emit_def perform_def
      split: option.split sum.split)

lemma generate_csv_report_eq:
  \<open>generate_csv_report env scan_id output_file st =
     perform env scan_id output_file (\<lambda>data. None) 0 (\<lambda>data t. CsvFile (csv_rows data))
       ''[+] CSV Report generated: '' st\<close>
  by (simp add: generate_csv_report_def get_scan_data_eq write_file_def emit_def perform_def
      csv_document_eq split: option.split sum.split)

lemma generate_pdf_report_eq:
  \<open>generate_pdf_report env scan_id output_file st =
     (if PDF_AVAILABLE env
      then perform env scan_id output_file (pdf_rejected env) 1
             (\<lambda>data t. PdfFile (pdf_story env data) (pdf_stamp env (clock env t)))
             ''[+] PDF Report generated: '' st
      else (Inr False, print ''[!] PDF generation not available. Install: pip install reportlab'' st))\<close>
  by (simp add: generate_pdf_report_def get_scan_data_eq datetime_now_def write_file_def emit_def
      perform_def pdf_vulns_eq pdf_story_def pdf_rejected_def split: option.split sum.split)

lemma generate_docx_report_eq:
  \<open>generate_docx_report env scan_id output_file st =
     (if DOCX_AVAILABLE env
      then perform env scan_id output_file (docx_rejected env) 1
             (\<lambda>data t. DocxFile (docx_blocks data) (docx_stamp env (clock env t)))
             ''[+] DOCX Report generated: '' st
      else (Inr False, print ''[!] DOCX generation not available. Install: pip install python-docx'' st))\<close>
  by (simp add: generate_docx_report_def get_scan_data_eq datetime_now_def write_file_def emit_def
      perform_def docx_vulns_eq docx_blocks_def docx_rejected_def split: option.split sum.split)

lemma generate_excel_report_eq:
  \<open>generate_excel_report env scan_id output_file st =
     (if EXCEL_AVAILABLE env
      then perform env scan_id output_file (xlsx_rejected env) 1
             (\<lambda>data t. XlsxFile (xlsx_summary data) (xlsx_rows data) (xlsx_stamp env (clock env t)))
             ''[+] Excel Report generated: '' st
      else (Inr False, print ''[!] Excel generation not available. Install: pip install openpyxl'' st))\<close>
  by (simp add: generate_excel_report_def get_scan_data_eq datetime_now_def write_file_def emit_def
      perform_def xlsx_vulns_eq xlsx_rows_def xlsx_headers_def xlsx_rejected_def split: option.split sum.split)

text \<open>The documents do not depend on the store but through the aggregate.\<close>

lemma db_update_documents [simp]:
  \<open>html_text (env\<lparr>db := d\<rparr>) = html_text env\<close>
  \<open>pdf_story (env\<lparr>db := d\<rparr>) = pdf_story env\<close>
  \<open>pdf_rejected (env\<lparr>db := d\<rparr>) = pdf_rejected env\<close>
  \<open>docx_rejected (env\<lparr>db := d\<rparr>) = docx_rejected env\<close>
  \<open>xlsx_rejected (env\<lparr>db := d\<rparr>) = xlsx_rejected env\<close>
  by (intro ext, simp add: html_text_def html_head_def finding_card_def pdf_story_def pdf_front_def
      pdf_rejected_def docx_rejected_def xlsx_rejected_def)+

text \<open>What a renderer of this shape returns does not depend on the state.\<close>

lemma perform_result:
  \<open>fst (perform env scan_id p rejected reads doc label st)
     = (case read_scan (db env) scan_id of
          Inl e \<Rightarrow> Inl e
        | Inr None \<Rightarrow> Inr False
        | Inr (Some data) \<Rightarrow>
            (case rejected data of
               Some e \<Rightarrow> Inl e
             | None \<Rightarrow> if writable env p then Inr True else Inl (OSError p)))\<close>
  by (simp add: perform_def emit_def split: option.split sum.split)

lemma perform_conn_log:
  \<open>conn_log (snd (perform env scan_id p rejected reads doc label st))
     = conn_log st @
       (case read_scan (db env) scan_id of
          Inl e \<Rightarrow> [Connect (length (conn_log st))]
        | Inr r \<Rightarrow> [Connect (length (conn_log st)), Close (length (conn_log st))])\<close>
  by (simp add: perform_def emit_def split: option.split sum.split)

lemma perform_files:
  \<open>files (snd (perform env scan_id p rejected reads doc label st))
     = (case read_scan (db env) scan_id of
          Inr (Some data) \<Rightarrow>
            if rejected data = None \<and> writable env p then (files st)(p \<mapsto> doc data (ticks st))
            else files st
        | _ \<Rightarrow> files st)\<close>
  by (simp add: perform_def emit_def split: option.split sum.split)

lemma perform_ticks:
  \<open>ticks (snd (perform env scan_id p rejected reads doc label st))
     = (case read_scan (db env) scan_id of
          Inr (Some data) \<Rightarrow>
            if rejected data = None then ticks st + reads else ticks st
        | _ \<Rightarrow> ticks st)\<close>
  by (simp add: perform_def emit_def split: option.split sum.split)

lemma perform_found:
  assumes \<open>read_scan (db env) scan_id = Inr (Some data)\<close> \<open>rejected data = None\<close> \<open>writable env p\<close>
  shows \<open>perform env scan_id p rejected reads doc label st
     = (Inr True, print (label @ p)
          ((after_read st)\<lparr>ticks := ticks st + reads, files := (files st)(p \<mapsto> doc data (ticks st))\<rparr>))\<close>
  using assms by (simp add: perform_def emit_def)

lemma perform_absent:
  assumes \<open>read_scan (db env) scan_id = Inr None\<close>
  shows \<open>perform env scan_id p rejected reads doc label st
     = (Inr False, print (not_found scan_id) (after_read st))\<close>
  using assms by (simp add: perform_def)

lemma perform_raise:
  assumes \<open>read_scan (db env) scan_id = Inl e\<close>
  shows \<open>perform env scan_id p rejected reads doc label st = (Inl e, left_open st)\<close>
  using assms by (simp add: perform_def)

section \<open>The example store\<close>

lemma fits_examples: \<open>fits 42\<close> \<open>fits 50\<close> \<open>fits 60\<close> \<open>fits 99\<close> \<open>\<not> fits large_id\<close>
  unfolding fits_def large_id_def by simp_all

lemma example_sys_simps:
  \<open>db example_sys = example_store\<close>
  \<open>PDF_AVAILABLE example_sys\<close> \<open>DOCX_AVAILABLE example_sys\<close> \<open>EXCEL_AVAILABLE example_sys\<close>
  \<open>clock example_sys = (\<lambda>n. noon)\<close> \<open>writable example_sys = (\<lambda>path. True)\<close>
  \<open>str_lower example_sys = ascii_lower\<close> \<open>str_title example_sys = ascii_title\<close>
  \<open>paragraph_ok example_sys = bold_markup False\<close>
  \<open>docx_ok example_sys = no_control\<close> \<open>xlsx_ok example_sys = no_control\<close>
  \<open>pdf_stamp example_sys = strftime\<close> \<open>docx_stamp example_sys = strftime\<close>
  \<open>xlsx_stamp example_sys = strftime\<close>
  by (simp_all add: example_sys_def)

lemma initial_state_simps:
  \<open>files initial_state = Map.empty\<close> \<open>stdout initial_state = []\<close>
  \<open>conn_log initial_state = []\<close> \<open>ticks initial_state = 0\<close>
  by (simp_all add: initial_state_def)

lemma example_store_tables:
  \<open>has_tables example_store\<close> \<open>scans example_store \<noteq> None\<close>
  \<open>vulnerabilities_table example_store \<noteq> None\<close>
  by (simp_all add: has_tables_def example_store_def)

lemma example_store_has_scan:
  \<open>has_scan example_store 42\<close> \<open>has_scan example_store 50\<close> \<open>has_scan example_store 60\<close>
  \<open>\<not> has_scan example_store 99\<close> \<open>\<not> has_scan example_store large_id\<close>
  by (simp_all add: has_scan_def example_store_def large_id_def)

lemma example_scans: \<open>scans example_store = Some (the (scans example_store))\<close>
  by (simp add: example_store_def)

lemma example_read_overflow: \<open>read_scan example_store large_id = Inl OverflowError\<close>
  using example_scans fits_examples(5) by (rule read_scan_overflow)

lemma example_read_absent: \<open>read_scan example_store 99 = Inr None\<close>
  using example_scans fits_examples(4) example_store_has_scan(4) by (rule read_scan_absent)

section \<open>What the documents show\<close>

lemma sublist_between:
  assumes \<open>suffix a A\<close> and \<open>prefix b B\<close>
  shows \<open>sublist (a @ m @ b) (P @ A @ m @ B @ S)\<close>
proof -
  from assms obtain A' B' where \<open>A = A' @ a\<close> and \<open>B = b @ B'\<close>
    by (auto simp: suffix_def prefix_def)
  then have \<open>P @ A @ m @ B @ S = (P @ A') @ (a @ m @ b) @ (B' @ S)\<close>
    by simp
  then show ?thesis
    by (metis sublist_appendI)
qed

lemma sublist_head: \<open>sublist a h \<Longrightarrow> sublist a (h @ r)\<close>
proof -
  assume \<open>sublist a h\<close>
  then obtain ps ss where \<open>h = ps @ a @ ss\<close>
    by (auto simp: sublist_def)
  then have \<open>h @ r = ps @ a @ (ss @ r)\<close>
    by simp
  then show \<open>sublist a (h @ r)\<close>
    by (metis sublist_appendI)
qed

lemma sublist_middle: \<open>sublist a m \<Longrightarrow> sublist a (h @ m @ r)\<close>
proof -
  assume \<open>sublist a m\<close>
  then obtain ps ss where \<open>m = ps @ a @ ss\<close>
    by (auto simp: sublist_def)
  then have \<open>h @ m @ r = (h @ ps) @ a @ (ss @ r)\<close>
    by simp
  then show \<open>sublist a (h @ m @ r)\<close>
    by (metis sublist_appendI)
qed

lemma sublist_concat: \<open>x \<in> set xs \<Longrightarrow> sublist (f x) (concat (map f xs))\<close>
proof -
  assume \<open>x \<in> set xs\<close>
  then obtain ys zs where \<open>xs = ys @ x # zs\<close>
    by (auto simp: in_set_conv_decomp)
  then have \<open>concat (map f xs) = concat (map f ys) @ f x @ concat (map f zs)\<close>
    by simp
  then show ?thesis
    by (metis sublist_appendI)
qed

text \<open>The four summary cards of the HTML report show the counts of the aggregate.\<close>

lemma html_head_counts:
  \<open>sublist (''<h3>Total Issues</h3>\<newline>                <div class="number">''
            @ str_int (total_alerts data) @ ''</div>'') (html_head env data now)\<close>
  \<open>sublist (''<h3>High Risk</h3>\<newline>                <div class="number">''
            @ str_int (high_risk data) @ ''</div>'') (html_head env data now)\<close>
  \<open>sublist (''<h3>Medium Risk</h3>\<newline>                <div class="number">''
            @ str_int (medium_risk data) @ ''</div>'') (html_head env data now)\<close>
  \<open>sublist (''<h3>Low Risk</h3>\<newline>                <div class="number">''
            @ str_int (low_risk data) @ ''</div>'') (html_head env data now)\<close>
proof -
  have s: \<open>suffix ''<h3>Total Issues</h3>\<newline>                <div class="number">'' html_total_open\<close>
    \<open>suffix ''<h3>High Risk</h3>\<newline>                <div class="number">'' html_high_open\<close>
    \<open>suffix ''<h3>Medium Risk</h3>\<newline>                <div class="number">'' html_medium_open\<close>
    \<open>suffix ''<h3>Low Risk</h3>\<newline>                <div class="number">'' html_low_open\<close>
    by (simp_all add: html_total_open_def html_high_open_def html_medium_open_def
        html_low_open_def suffix_to_prefix)
  have p: \<open>prefix ''</div>'' html_high_open\<close> \<open>prefix ''</div>'' html_medium_open\<close>
    \<open>prefix ''</div>'' html_low_open\<close> \<open>prefix ''</div>'' html_info_target\<close>
    by (simp_all add: html_high_open_def html_medium_open_def html_low_open_def
        html_info_target_def)
  define tail where \<open>tail = target_url data
     @ html_info_type @ str_title env (scan_type data)
     @ html_info_start @ start_time data
     @ html_info_end @ end_time data
     @ html_info_status @ str_title env (status data)
     @ html_info_generated @ strftime now
     @ html_findings_open\<close>
  have h1: \<open>html_head env data now
      = (html_open @ target_url data @ html_style) @ html_total_open @ str_int (total_alerts data)
        @ html_high_open
        @ (str_int (high_risk data) @ html_medium_open @ str_int (medium_risk data)
           @ html_low_open @ str_int (low_risk data) @ html_info_target @ tail)\<close>
    by (simp add: html_head_def tail_def)
  have h2: \<open>html_head env data now
      = (html_open @ target_url data @ html_style @ html_total_open @ str_int (total_alerts data))
        @ html_high_open @ str_int (high_risk data) @ html_medium_open
        @ (str_int (medium_risk data) @ html_low_open @ str_int (low_risk data)
           @ html_info_target @ tail)\<close>
    by (simp add: html_head_def tail_def)
  have h3: \<open>html_head env data now
      = (html_open @ target_url data @ html_style @ html_total_open @ str_int (total_alerts data)
         @ html_high_open @ str_int (high_risk data))
        @ html_medium_open @ str_int (medium_risk data) @ html_low_open
        @ (str_int (low_risk data) @ html_info_target @ tail)\<close>
    by (simp add: html_head_def tail_def)
  have h4: \<open>html_head env data now
      = (html_open @ target_url data @ html_style @ html_total_open @ str_int (total_alerts data)
         @ html_high_open @ str_int (high_risk data) @ html_medium_open
         @ str_int (medium_risk data))
        @ html_low_open @ str_int (low_risk data) @ html_info_target @ tail\<close>
    by (simp add: html_head_def tail_def)
  show \<open>sublist (''<h3>Total Issues</h3>\<newline>                <div class="number">''
            @ str_int (total_alerts data) @ ''</div>'') (html_head env data now)\<close>
    unfolding h1 by (rule sublist_between [OF s(1) p(1)])
  show \<open>sublist (''<h3>High Risk</h3>\<newline>                <div class="number">''
            @ str_int (high_risk data) @ ''</div>'') (html_head env data now)\<close>
    unfolding h2 by (rule sublist_between [OF s(2) p(2)])
  show \<open>sublist (''<h3>Medium Risk</h3>\<newline>                <div class="number">''
            @ str_int (medium_risk data) @ ''</div>'') (html_head env data now)\<close>
    unfolding h3 by (rule sublist_between [OF s(3) p(3)])
  show \<open>sublist (''<h3>Low Risk</h3>\<newline>                <div class="number">''
            @ str_int (low_risk data) @ ''</div>'') (html_head env data now)\<close>
    unfolding h4 by (rule sublist_between [OF s(4) p(4)])
qed

lemma html_text_counts:
  \<open>sublist (''<h3>Total Issues</h3>\<newline>                <div class="number">''
            @ str_int (total_alerts data) @ ''</div>'') (html_text env data scan_id now1 now2)\<close>
  \<open>sublist (''<h3>High Risk</h3>\<newline>                <div class="number">''
            @ str_int (high_risk data) @ ''</div>'') (html_text env data scan_id now1 now2)\<close>
  \<open>sublist (''<h3>Medium Risk</h3>\<newline>                <div class="number">''
            @ str_int (medium_risk data) @ ''</div>'') (html_text env data scan_id now1 now2)\<close>
  \<open>sublist (''<h3>Low Risk</h3>\<newline>                <div class="number">''
            @ str_int (low_risk data) @ ''</div>'') (html_text env data scan_id now1 now2)\<close>
  unfolding html_text_def by (rule sublist_head, rule html_head_counts)+

text \<open>The card of a finding shows its number and name in the title of the card.\<close>

lemma finding_card_title:
  \<open>sublist (''<div class="vuln-title">'' @ str_nat k @ ''. '' @ name v @ ''</div>'') (finding_card env k v)\<close>
proof -
  have s: \<open>suffix ''<div class="vuln-title">'' card_title\<close>
    by (simp add: card_title_def suffix_to_prefix)
  have p: \<open>prefix ''</div>'' card_badge\<close>
    by (simp add: card_badge_def)
  obtain rest where \<open>finding_card env k v
      = (card_open @ str_lower env (severity v)) @ card_title @ (str_nat k @ ''. '' @ name v)
        @ card_badge @ rest\<close>
    by (simp add: finding_card_def card_dot_def)
  moreover have \<open>sublist (''<div class="vuln-title">'' @ (str_nat k @ ''. '' @ name v) @ ''</div>'')
      ((card_open @ str_lower env (severity v)) @ card_title @ (str_nat k @ ''. '' @ name v)
        @ card_badge @ rest)\<close>
    by (rule sublist_between [OF s p])
  ultimately show ?thesis by simp
qed

lemma html_text_titles:
  \<open>list_all (\<lambda>(k, v). sublist (''<div class="vuln-title">'' @ str_nat k @ ''. '' @ name v @ ''</div>'')
       (html_text env data scan_id now1 now2)) (enumerate 1 (vulnerabilities data))\<close>
proof -
  have \<open>sublist (''<div class="vuln-title">'' @ str_nat k @ ''. '' @ name v @ ''</div>'')
       (html_text env data scan_id now1 now2)\<close>
    if \<open>(k, v) \<in> set (enumerate 1 (vulnerabilities data))\<close> for k v
  proof -
    have \<open>sublist (finding_card env k v)
        (concat (map (\<lambda>(k, v). finding_card env k v) (enumerate 1 (vulnerabilities data))))\<close>
      using sublist_concat [OF that, of \<open>\<lambda>(k, v). finding_card env k v\<close>] by simp
    then have \<open>sublist (''<div class="vuln-title">'' @ str_nat k @ ''. '' @ name v @ ''</div>'')
        (concat (map (\<lambda>(k, v). finding_card env k v) (enumerate 1 (vulnerabilities data))))\<close>
      using finding_card_title sublist_order.order_trans by blast
    then show ?thesis
      unfolding html_text_def by (rule sublist_middle)
  qed
  then show ?thesis
    by (auto simp: list_all_iff)
qed

text \<open>The entries of the PDF story and of the DOCX document are found by their headings.\<close>

lemma filter_concat_single:
  \<open>(\<And>x. x \<in> set xs \<Longrightarrow> filter P (f x) = [g x]) \<Longrightarrow> filter P (concat (map f xs)) = map g xs\<close>
  by (induction xs) simp_all

lemma pdf_story_headings:
  \<open>filter (\<lambda>f. case f of Paragraph text style \<Rightarrow> style = ''Heading3'' | _ \<Rightarrow> False) (pdf_story env data)
     = map (\<lambda>(k, v). Paragraph (''<b>'' @ str_nat k @ ''. '' @ name v @ ''</b> ['' @ severity v @ '']'') ''Heading3'')
         (enumerate 1 (vulnerabilities data))\<close>
proof -
  have \<open>filter (\<lambda>f. case f of Paragraph text style \<Rightarrow> style = ''Heading3'' | _ \<Rightarrow> False)
          (case x of (k, v) \<Rightarrow> pdf_finding k v)
      = [case x of (k, v) \<Rightarrow>
           Paragraph (''<b>'' @ str_nat k @ ''. '' @ name v @ ''</b> ['' @ severity v @ '']'') ''Heading3'']\<close>
    for x :: \<open>nat \<times> vuln\<close>
    by (cases x; cases \<open>solution (snd x)\<close>) (simp_all add: pdf_finding_def)
  then show ?thesis
    by (simp add: pdf_story_def pdf_front_def filter_concat_single)
qed

lemma docx_blocks_headings:
  \<open>filter (\<lambda>b. case b of Heading text level \<Rightarrow> level = 2 | _ \<Rightarrow> False) (docx_blocks data)
     = map (\<lambda>(k, v). Heading (str_nat k @ ''. '' @ name v) 2) (enumerate 1 (vulnerabilities data))\<close>
proof -
  have \<open>filter (\<lambda>b. case b of Heading text level \<Rightarrow> level = 2 | _ \<Rightarrow> False)
          (case x of (k, v) \<Rightarrow> docx_finding k v)
      = [case x of (k, v) \<Rightarrow> Heading (str_nat k @ ''. '' @ name v) 2]\<close>
    for x :: \<open>nat \<times> vuln\<close>
    by (cases x; cases \<open>solution (snd x)\<close>) (simp_all add: docx_finding_def)
  then show ?thesis
    by (simp add: docx_blocks_def docx_front_def filter_concat_single)
qed

text \<open>The counts in the PDF story, the DOCX document, the workbook and the JSON value.\<close>

lemma counts_in_documents:
  \<open>Table [[''Metric'', ''Count''],
          [''Total Issues'', str_int (total_alerts data)],
          [''High Risk'', str_int (high_risk data)],
          [''Medium Risk'', str_int (medium_risk data)],
          [''Low Risk'', str_int (low_risk data)]] [3, 2] \<in> set (pdf_story env data)\<close>
  \<open>DocTable ''Light Grid Accent 1''
       [[''Total Issues'', str_int (total_alerts data)],
        [''High Risk'', str_int (high_risk data)],
        [''Medium Risk'', str_int (medium_risk data)],
        [''Low Risk'', str_int (low_risk data)],
        [''Target URL'', target_url data]] \<in> set (docx_blocks data)\<close>
  \<open>map_of (xlsx_summary data) ''B5'' = Some (PInt (total_alerts data))\<close>
  \<open>map_of (xlsx_summary data) ''B6'' = Some (PInt (high_risk data))\<close>
  \<open>map_of (xlsx_summary data) ''B7'' = Some (PInt (medium_risk data))\<close>
  \<open>map_of (xlsx_summary data) ''B8'' = Some (PInt (low_risk data))\<close>
  \<open>json_field ''total_alerts'' (json_data data) = Some (JInt (total_alerts data))\<close>
  \<open>json_field ''high_risk'' (json_data data) = Some (JInt (high_risk data))\<close>
  \<open>json_field ''medium_risk'' (json_data data) = Some (JInt (medium_risk data))\<close>
  \<open>json_field ''low_risk'' (json_data data) = Some (JInt (low_risk data))\<close>
  by (simp_all add: pdf_story_def pdf_front_def docx_blocks_def docx_front_def xlsx_summary_def
      json_data_def)

lemma aggregate_counts:
  \<open>total_alerts (aggregate (s0, s1, s2, s3, s4, s5, s6, s7, s8, s9) findings) = s5\<close>
  \<open>high_risk (aggregate (s0, s1, s2, s3, s4, s5, s6, s7, s8, s9) findings) = s6\<close>
  \<open>medium_risk (aggregate (s0, s1, s2, s3, s4, s5, s6, s7, s8, s9) findings) = s7\<close>
  \<open>low_risk (aggregate (s0, s1, s2, s3, s4, s5, s6, s7, s8, s9) findings) = s8\<close>
  \<open>target_url (aggregate (s0, s1, s2, s3, s4, s5, s6, s7, s8, s9) findings) = s1\<close>
  by simp_all

text \<open>The first text that an encoder rejects.\<close>

lemma rejected_text:
  \<open>\<not> list_all ok texts \<Longrightarrow> \<exists>text \<in> set texts. \<not> ok text \<and> find (\<lambda>text. \<not> ok text) texts = Some text\<close>
  by (induction texts) auto

lemma accepted_texts: \<open>list_all ok texts \<Longrightarrow> find (\<lambda>text. \<not> ok text) texts = None\<close>
  by (simp add: find_None_iff list_all_iff)

text \<open>What each renderer writes for an aggregate that was read, when it can write.\<close>

lemma documents_written:
  assumes \<open>read_scan (db env) scan_id = Inr (Some data)\<close> and \<open>writable env output_file\<close>
  shows \<open>generate_html_report env scan_id output_file st
       = (Inr True, print (''[+] VIP HTML Report generated: '' @ output_file)
            ((after_read st)\<lparr>ticks := ticks st + 2,
               files := (files st)(output_file \<mapsto>
                 HtmlFile (html_text env data scan_id (clock env (ticks st)) (clock env (Suc (ticks st)))))\<rparr>))\<close>
    and \<open>generate_json_report env scan_id output_file st
       = (Inr True, print (''[+] JSON Report generated: '' @ output_file)
            ((after_read st)\<lparr>ticks := ticks st + 0,
               files := (files st)(output_file \<mapsto> JsonFile (json_data data))\<rparr>))\<close>
    and \<open>generate_csv_report env scan_id output_file st
       = (Inr True, print (''[+] CSV Report generated: '' @ output_file)
            ((after_read st)\<lparr>ticks := ticks st + 0,
               files := (files st)(output_file \<mapsto> CsvFile (csv_rows data))\<rparr>))\<close>
    and \<open>PDF_AVAILABLE env \<Longrightarrow> list_all (paragraph_ok env) (paragraph_texts (pdf_story env data)) \<Longrightarrow>
       generate_pdf_report env scan_id output_file st
       = (Inr True, print (''[+] PDF Report generated: '' @ output_file)
            ((after_read st)\<lparr>ticks := ticks st + 1,
               files := (files st)(output_file \<mapsto>
                 PdfFile (pdf_story env data) (pdf_stamp env (clock env (ticks st))))\<rparr>))\<close>
    and \<open>DOCX_AVAILABLE env \<Longrightarrow> list_all (docx_ok env) (block_texts (docx_blocks data)) \<Longrightarrow>
       generate_docx_report env scan_id output_file st
       = (Inr True, print (''[+] DOCX Report generated: '' @ output_file)
            ((after_read st)\<lparr>ticks := ticks st + 1,
               files := (files st)(output_file \<mapsto>
                 DocxFile (docx_blocks data) (docx_stamp env (clock env (ticks st))))\<rparr>))\<close>
    and \<open>EXCEL_AVAILABLE env \<Longrightarrow>
       list_all (xlsx_ok env) (cell_texts (map snd (xlsx_summary data) @ concat (xlsx_rows data))) \<Longrightarrow>
       generate_excel_report env scan_id output_file st
       = (Inr True, print (''[+] Excel Report generated: '' @ output_file)
            ((after_read st)\<lparr>ticks := ticks st + 1,
               files := (files st)(output_file \<mapsto>
                 XlsxFile (xlsx_summary data) (xlsx_rows data) (xlsx_stamp env (clock env (ticks st))))\<rparr>))\<close>
proof -
  have none: \<open>find (\<lambda>text. \<not> ok text) texts = None\<close> if \<open>list_all ok texts\<close>
    for ok :: \<open>string \<Rightarrow> bool\<close> and texts
    using that by (simp add: find_None_iff list_all_iff)
  show \<open>generate_html_report env scan_id output_file st
       = (Inr True, print (''[+] VIP HTML Report generated: '' @ output_file)
            ((after_read st)\<lparr>ticks := ticks st + 2,
               files := (files st)(output_file \<mapsto>
                 HtmlFile (html_text env data scan_id (clock env (ticks st)) (clock env (Suc (ticks st)))))\<rparr>))\<close>
    unfolding generate_html_report_eq using assms by (rule perform_found [OF _ refl])
  show \<open>generate_json_report env scan_id output_file st
       = (Inr True, print (''[+] JSON Report generated: '' @ output_file)
            ((after_read st)\<lparr>ticks := ticks st + 0,
               files := (files st)(output_file \<mapsto> JsonFile (json_data data))\<rparr>))\<close>
    unfolding generate_json_report_eq using assms by (rule perform_found [OF _ refl])
  show \<open>generate_csv_report env scan_id output_file st
       = (Inr True, print (''[+] CSV Report generated: '' @ output_file)
            ((after_read st)\<lparr>ticks := ticks st + 0,
               files := (files st)(output_file \<mapsto> CsvFile (csv_rows data))\<rparr>))\<close>
    unfolding generate_csv_report_eq using assms by (rule perform_found [OF _ refl])
  show \<open>generate_pdf_report env scan_id output_file st
       = (Inr True, print (''[+] PDF Report generated: '' @ output_file)
            ((after_read st)\<lparr>ticks := ticks st + 1,
               files := (files st)(output_file \<mapsto>
                 PdfFile (pdf_story env data) (pdf_stamp env (clock env (ticks st))))\<rparr>))\<close>
    if \<open>PDF_AVAILABLE env\<close> \<open>list_all (paragraph_ok env) (paragraph_texts (pdf_story env data))\<close>
    using that assms by (simp add: generate_pdf_report_eq perform_found pdf_rejected_def none)
  show \<open>generate_docx_report env scan_id output_file st
       = (Inr True, print (''[+] DOCX Report generated: '' @ output_file)
            ((after_read st)\<lparr>ticks := ticks st + 1,
               files := (files st)(output_file \<mapsto>
                 DocxFile (docx_blocks data) (docx_stamp env (clock env (ticks st))))\<rparr>))\<close>
    if \<open>DOCX_AVAILABLE env\<close> \<open>list_all (docx_ok env) (block_texts (docx_blocks data))\<close>
    using that assms by (simp add: generate_docx_report_eq perform_found docx_rejected_def none)
  show \<open>generate_excel_report env scan_id output_file st
       = (Inr True, print (''[+] Excel Report generated: '' @ output_file)
            ((after_read st)\<lparr>ticks := ticks st + 1,
               files := (files st)(output_file \<mapsto>
                 XlsxFile (xlsx_summary data) (xlsx_rows data) (xlsx_stamp env (clock env (ticks st))))\<rparr>))\<close>
    if \<open>EXCEL_AVAILABLE env\<close>
      \<open>list_all (xlsx_ok env) (cell_texts (map snd (xlsx_summary data) @ concat (xlsx_rows data)))\<close>
    using that assms by (simp add: generate_excel_report_eq perform_found xlsx_rejected_def none)
qed

section \<open>Claims about the reader\<close>

lemma finding_tuple:
  \<open>finding = (\<lambda>(v0, v1, v2, v3, v4, v5, v6, v7, v8).
       \<lparr>vuln_id = v0, name = v2, severity = v3, confidence = v4, url = v5, description = v6,
        solution = v7, reference = v8\<rparr>)\<close>
  by (rule ext) (auto split: prod.split)

lemma not_in_ids: \<open>scans d = Some rows \<Longrightarrow> scan_id \<notin> fst ` set rows \<longleftrightarrow> \<not> has_scan d scan_id\<close>
  by (auto simp: has_scan_def list_ex_iff)

text \<open>
  Claim C7, as stated, promises a result for every store and scan identifier: the
  aggregate, or the not-found result when no such scan exists. The identifier \<open>2 ^ 63\<close>,
  which the command line accepts like any string of digits, belongs to no scan of the
  example store, and the read raises \<open>OverflowError\<close> instead of returning.
\<close>

theorem read_of_large_identifier_raises:
  \<open>large_id = 2 ^ 63
   \<and> \<not> has_scan (db example_sys) large_id
   \<and> fst (get_scan_data example_sys large_id initial_state) = Inl OverflowError\<close>
proof -
  have \<open>fst (get_scan_data example_sys large_id initial_state) = Inl OverflowError\<close>
    by (simp add: get_scan_data_eq example_sys_simps example_read_overflow)
  moreover have \<open>\<not> has_scan (db example_sys) large_id\<close>
    by (simp add: example_sys_simps example_store_has_scan)
  ultimately show ?thesis
    using large_id_def by blast
qed

text \<open>
  Claim C7, amended. For a store that holds both tables and a scan identifier that fits
  the 64-bit integer of SQLite, \<open>get_scan_data\<close> returns the ten columns of the first
  scan row with that identifier together with all findings of the scan, in table order,
  also when the scan has no finding; it returns \<open>None\<close>, the null of Python and no
  variant of its own, when no row has the identifier. A result is never partly filled.
  For an identifier that does not fit it raises \<open>OverflowError\<close>, and for a missing table
  it raises \<open>OperationalError\<close>: the scans table is asked for first, the table of
  findings only for a scan that was found.
\<close>

theorem get_scan_data_result:
  \<open>(scans (db env) = None \<longrightarrow>
       fst (get_scan_data env scan_id st) = Inl (OperationalError ''no such table: scans''))
   \<and> (scans (db env) = Some rows \<and> \<not> fits scan_id \<longrightarrow>
       fst (get_scan_data env scan_id st) = Inl OverflowError)
   \<and> (scans (db env) = Some rows \<and> fits scan_id \<and> scan_id \<notin> fst ` set rows \<longrightarrow>
       fst (get_scan_data env scan_id st) = Inr None)
   \<and> (scans (db env) = Some rows \<and> fits scan_id
       \<and> find (\<lambda>row. fst row = scan_id) rows = Some (s0, s1, s2, s3, s4, s5, s6, s7, s8, s9)
       \<and> vulnerabilities_table (db env) = None \<longrightarrow>
       fst (get_scan_data env scan_id st) = Inl (OperationalError ''no such table: vulnerabilities''))
   \<and> (scans (db env) = Some rows \<and> fits scan_id
       \<and> find (\<lambda>row. fst row = scan_id) rows = Some (s0, s1, s2, s3, s4, s5, s6, s7, s8, s9)
       \<and> vulnerabilities_table (db env) = Some vrows \<longrightarrow>
       fst (get_scan_data env scan_id st)
         = Inr (Some
             \<lparr>data_scan_id = s0, target_url = s1, scan_type = s2, start_time = s3, end_time = s4,
              total_alerts = s5, high_risk = s6, medium_risk = s7, low_risk = s8, status = s9,
              vulnerabilities =
                map (\<lambda>(v0, v1, v2, v3, v4, v5, v6, v7, v8).
                       \<lparr>vuln_id = v0, name = v2, severity = v3, confidence = v4, url = v5,
                        description = v6, solution = v7, reference = v8\<rparr>)
                    (filter (\<lambda>row. fst (snd row) = scan_id) vrows)\<rparr>))\<close>
proof (intro conjI impI; (elim conjE)?)
  assume \<open>scans (db env) = None\<close>
  then show \<open>fst (get_scan_data env scan_id st) = Inl (OperationalError ''no such table: scans'')\<close>
    by (simp add: get_scan_data_eq read_scan_no_scans)
next
  assume \<open>scans (db env) = Some rows\<close> \<open>\<not> fits scan_id\<close>
  then show \<open>fst (get_scan_data env scan_id st) = Inl OverflowError\<close>
    by (simp add: get_scan_data_eq read_scan_overflow)
next
  assume \<open>scans (db env) = Some rows\<close> \<open>fits scan_id\<close> \<open>scan_id \<notin> fst ` set rows\<close>
  then show \<open>fst (get_scan_data env scan_id st) = Inr None\<close>
    by (simp add: get_scan_data_eq read_scan_absent not_in_ids)
next
  assume a: \<open>scans (db env) = Some rows\<close> \<open>fits scan_id\<close>
    \<open>find (\<lambda>row. fst row = scan_id) rows = Some (s0, s1, s2, s3, s4, s5, s6, s7, s8, s9)\<close>
    \<open>vulnerabilities_table (db env) = None\<close>
  then have \<open>stored_scan (db env) scan_id = Some (s0, s1, s2, s3, s4, s5, s6, s7, s8, s9)\<close>
    by (simp add: stored_scan_def)
  then have \<open>has_scan (db env) scan_id\<close>
    by (rule stored_scan_has_scan)
  with a show \<open>fst (get_scan_data env scan_id st) = Inl (OperationalError ''no such table: vulnerabilities'')\<close>
    by (simp add: get_scan_data_eq read_scan_no_vulnerabilities)
next
  assume a: \<open>scans (db env) = Some rows\<close> \<open>fits scan_id\<close>
    \<open>find (\<lambda>row. fst row = scan_id) rows = Some (s0, s1, s2, s3, s4, s5, s6, s7, s8, s9)\<close>
    \<open>vulnerabilities_table (db env) = Some vrows\<close>
  then have \<open>stored_scan (db env) scan_id = Some (s0, s1, s2, s3, s4, s5, s6, s7, s8, s9)\<close>
    by (simp add: stored_scan_def)
  with a have \<open>read_scan (db env) scan_id
      = Inr (Some (aggregate (s0, s1, s2, s3, s4, s5, s6, s7, s8, s9) (stored_findings (db env) scan_id)))\<close>
    by (intro read_scan_found)
  with a(4) show \<open>fst (get_scan_data env scan_id st)
         = Inr (Some
             \<lparr>data_scan_id = s0, target_url = s1, scan_type = s2, start_time = s3, end_time = s4,
              total_alerts = s5, high_risk = s6, medium_risk = s7, low_risk = s8, status = s9,
              vulnerabilities =
                map (\<lambda>(v0, v1, v2, v3, v4, v5, v6, v7, v8).
                       \<lparr>vuln_id = v0, name = v2, severity = v3, confidence = v4, url = v5,
                        description = v6, solution = v7, reference = v8\<rparr>)
                    (filter (\<lambda>row. fst (snd row) = scan_id) vrows)\<rparr>)\<close>
    by (simp add: get_scan_data_eq stored_findings_def flip: finding_tuple)
qed

theorem get_scan_data_result_witness:
  \<open>fits 42 \<and> fits 50 \<and> fits 99
   \<and> fst (get_scan_data example_sys 42 initial_state)
       = Inr (Some
           \<lparr>data_scan_id = 42, target_url = ''http://shop.test'', scan_type = ''quick'',
            start_time = ''2024-03-01 10:00:00'', end_time = ''2024-03-01 10:05:00'',
            total_alerts = 3, high_risk = 1, medium_risk = 1, low_risk = 1, status = ''completed'',
            vulnerabilities =
              [\<lparr>vuln_id = 1, name = ''SQL Injection'', severity = ''High'', confidence = ''Medium'',
                url = ''http://shop.test/item'', description = ''Query built from input'',
                solution = Some ''Use parameters'', reference = Some ''https://owasp.test/sqli''\<rparr>,
               \<lparr>vuln_id = 3, name = ''Reflected XSS'', severity = ''Medium'', confidence = ''High'',
                url = ''http://shop.test/search'', description = ''Input echoed'',
                solution = Some [], reference = None\<rparr>,
               \<lparr>vuln_id = 4, name = ''Missing Security Header'', severity = ''Low'', confidence = ''Low'',
                url = ''http://shop.test/'', description = ''No CSP header'',
                solution = None, reference = Some ''https://owasp.test/headers''\<rparr>]\<rparr>)
   \<and> fst (get_scan_data example_sys 50 initial_state)
       = Inr (Some
           \<lparr>data_scan_id = 50, target_url = ''http://blog.test'', scan_type = ''full'',
            start_time = ''2024-03-02 08:00:00'', end_time = ''2024-03-02 09:00:00'',
            total_alerts = 0, high_risk = 0, medium_risk = 0, low_risk = 0, status = ''completed'',
            vulnerabilities = []\<rparr>)
   \<and> fst (get_scan_data example_sys 99 initial_state) = Inr None
   \<and> \<not> fits large_id
   \<and> fst (get_scan_data example_sys large_id initial_state) = Inl OverflowError
   \<and> fst (get_scan_data (example_sys\<lparr>db := \<lparr>scans = None, vulnerabilities_table = None\<rparr>\<rparr>) 42 initial_state)
       = Inl (OperationalError ''no such table: scans'')
   \<and> fst (get_scan_data (example_sys\<lparr>db := example_store\<lparr>vulnerabilities_table := None\<rparr>\<rparr>) 42 initial_state)
       = Inl (OperationalError ''no such table: vulnerabilities'')\<close>
  using
    get_scan_data_result [where env = example_sys and scan_id = 42 and st = initial_state
      and rows = \<open>the (scans example_store)\<close>
      and vrows = \<open>the (vulnerabilities_table example_store)\<close>
      and ?s0.0 = 42 and ?s1.0 = \<open>''http://shop.test''\<close> and ?s2.0 = \<open>''quick''\<close>
      and ?s3.0 = \<open>''2024-03-01 10:00:00''\<close> and ?s4.0 = \<open>''2024-03-01 10:05:00''\<close>
      and ?s5.0 = 3 and ?s6.0 = 1 and ?s7.0 = 1 and ?s8.0 = 1 and ?s9.0 = \<open>''completed''\<close>]
    get_scan_data_result [where env = example_sys and scan_id = 50 and st = initial_state
      and rows = \<open>the (scans example_store)\<close>
      and vrows = \<open>the (vulnerabilities_table example_store)\<close>
      and ?s0.0 = 50 and ?s1.0 = \<open>''http://blog.test''\<close> and ?s2.0 = \<open>''full''\<close>
      and ?s3.0 = \<open>''2024-03-02 08:00:00''\<close> and ?s4.0 = \<open>''2024-03-02 09:00:00''\<close>
      and ?s5.0 = 0 and ?s6.0 = 0 and ?s7.0 = 0 and ?s8.0 = 0 and ?s9.0 = \<open>''completed''\<close>]
    get_scan_data_result [where env = example_sys and scan_id = 99 and st = initial_state
      and rows = \<open>the (scans example_store)\<close>]
    get_scan_data_result [where env = example_sys and scan_id = large_id and st = initial_state
      and rows = \<open>the (scans example_store)\<close>]
    get_scan_data_result
      [where env = \<open>example_sys\<lparr>db := \<lparr>scans = None, vulnerabilities_table = None\<rparr>\<rparr>\<close>
        and scan_id = 42 and st = initial_state]
    get_scan_data_result
      [where env = \<open>example_sys\<lparr>db := example_store\<lparr>vulnerabilities_table := None\<rparr>\<rparr>\<close>
        and scan_id = 42 and st = initial_state
      and rows = \<open>the (scans example_store)\<close>
      and ?s0.0 = 42 and ?s1.0 = \<open>''http://shop.test''\<close> and ?s2.0 = \<open>''quick''\<close>
      and ?s3.0 = \<open>''2024-03-01 10:00:00''\<close> and ?s4.0 = \<open>''2024-03-01 10:05:00''\<close>
      and ?s5.0 = 3 and ?s6.0 = 1 and ?s7.0 = 1 and ?s8.0 = 1 and ?s9.0 = \<open>''completed''\<close>]
    fits_examples
  by (simp add: example_sys_def example_store_def)

text \<open>
  Claim C8, as stated, has the connection released on every exit path. The read of the
  identifier \<open>2 ^ 63\<close> leaves \<open>get_scan_data\<close> by an exception, with the connection it
  opened still open.
\<close>

theorem raising_read_leaves_connection_open:
  \<open>fst (get_scan_data example_sys large_id initial_state) = Inl OverflowError
   \<and> conn_log (snd (get_scan_data example_sys large_id initial_state)) = [Connect 0]\<close>
  by (simp add: get_scan_data_eq example_sys_simps example_read_overflow initial_state_simps)

text \<open>
  Claim C8, amended. Every call of \<open>get_scan_data\<close> opens exactly one connection. When
  the call returns, with the aggregate or with \<open>None\<close>, it has closed that connection.
  When a query raises, the call ends with the connection still open: there is no
  \<open>try\<close>, and only the two returning paths close. The call returns exactly when the scans
  table is there, the identifier fits the 64-bit integer, and the table of findings is
  there if the scan is. Nothing else of the state changes.
\<close>

theorem get_scan_data_connection:
  \<open>((\<exists>r. fst (get_scan_data env scan_id st) = Inr r) \<longleftrightarrow>
       scans (db env) \<noteq> None \<and> fits scan_id
       \<and> (has_scan (db env) scan_id \<longrightarrow> vulnerabilities_table (db env) \<noteq> None))
   \<and> ((\<exists>r. fst (get_scan_data env scan_id st) = Inr r) \<longrightarrow>
       conn_log (snd (get_scan_data env scan_id st))
         = conn_log st @ [Connect (length (conn_log st)), Close (length (conn_log st))])
   \<and> ((\<exists>e. fst (get_scan_data env scan_id st) = Inl e) \<longrightarrow>
       conn_log (snd (get_scan_data env scan_id st))
         = conn_log st @ [Connect (length (conn_log st))])
   \<and> files (snd (get_scan_data env scan_id st)) = files st
   \<and> stdout (snd (get_scan_data env scan_id st)) = stdout st\<close>
  by (rule read_scan_cases [of \<open>db env\<close> scan_id])
    (auto simp: get_scan_data_eq has_tables_def split: sum.split)

theorem get_scan_data_connection_witness:
  \<open>(\<exists>r. fst (get_scan_data example_sys 42 initial_state) = Inr r)
   \<and> conn_log (snd (get_scan_data example_sys 42 initial_state)) = [Connect 0, Close 0]
   \<and> (\<exists>r. fst (get_scan_data example_sys 99 initial_state) = Inr r)
   \<and> conn_log (snd (get_scan_data example_sys 99 initial_state)) = [Connect 0, Close 0]
   \<and> (\<exists>e. fst (get_scan_data example_sys large_id initial_state) = Inl e)
   \<and> conn_log (snd (get_scan_data example_sys large_id initial_state)) = [Connect 0]\<close>
proof -
  have \<open>\<exists>e. fst (get_scan_data example_sys large_id initial_state) = Inl e\<close>
    using get_scan_data_connection [of example_sys large_id initial_state] fits_examples(5)
    by (cases \<open>fst (get_scan_data example_sys large_id initial_state)\<close>) auto
  then show ?thesis
    using get_scan_data_connection [of example_sys 42 initial_state]
      get_scan_data_connection [of example_sys 99 initial_state]
      get_scan_data_connection [of example_sys large_id initial_state]
      fits_examples example_store_tables example_store_has_scan
    by (simp add: example_sys_simps initial_state_simps)
qed

section \<open>Claims about a missing scan\<close>

lemmas renderer_eqs =
  generate_html_report_eq generate_json_report_eq generate_csv_report_eq
  generate_pdf_report_eq generate_docx_report_eq generate_excel_report_eq

text \<open>
  Claim C1, as stated, has every renderer return \<open>False\<close> for every scan identifier
  without a record. The identifier \<open>2 ^ 63\<close> has no record in the example store, and the
  HTML renderer raises \<open>OverflowError\<close> for it instead of returning \<open>False\<close>.
\<close>

theorem unknown_large_identifier_raises:
  \<open>\<not> has_scan (db example_sys) large_id
   \<and> fst (generate_html_report example_sys large_id ''report.html'' initial_state) = Inl OverflowError\<close>
  by (simp add: generate_html_report_eq perform_result example_sys_simps example_read_overflow
      example_store_has_scan)

text \<open>
  Claim C1, amended. When the store holds the scans table, the identifier fits the
  64-bit integer of SQLite and no scan record has it, each of the six renderers returns
  \<open>False\<close> and leaves every file as it was, whatever the destination and whether or not
  it could be opened. For an identifier that does not fit, and for a store without the
  scans table, a renderer does not return \<open>False\<close> but raises what the read raises,
  \<open>OverflowError\<close> or \<open>OperationalError\<close>, unless its encoder is absent; no file is
  written then either.
\<close>

theorem unknown_scan_returns_false_writes_nothing:
  \<open>(scans (db env) \<noteq> None \<and> fits scan_id \<and> \<not> has_scan (db env) scan_id \<longrightarrow>
       fst (generate_html_report env scan_id output_file st) = Inr False
     \<and> fst (generate_pdf_report env scan_id output_file st) = Inr False
     \<and> fst (generate_json_report env scan_id output_file st) = Inr False
     \<and> fst (generate_csv_report env scan_id output_file st) = Inr False
     \<and> fst (generate_docx_report env scan_id output_file st) = Inr False
     \<and> fst (generate_excel_report env scan_id output_file st) = Inr False)
   \<and> (\<not> has_scan (db env) scan_id \<longrightarrow>
       files (snd (generate_html_report env scan_id output_file st)) = files st
     \<and> files (snd (generate_pdf_report env scan_id output_file st)) = files st
     \<and> files (snd (generate_json_report env scan_id output_file st)) = files st
     \<and> files (snd (generate_csv_report env scan_id output_file st)) = files st
     \<and> files (snd (generate_docx_report env scan_id output_file st)) = files st
     \<and> files (snd (generate_excel_report env scan_id output_file st)) = files st)
   \<and> (scans (db env) \<noteq> None \<and> \<not> fits scan_id \<longrightarrow>
       fst (generate_html_report env scan_id output_file st) = Inl OverflowError
     \<and> fst (generate_json_report env scan_id output_file st) = Inl OverflowError
     \<and> fst (generate_csv_report env scan_id output_file st) = Inl OverflowError
     \<and> fst (generate_pdf_report env scan_id output_file st)
         = (if PDF_AVAILABLE env then Inl OverflowError else Inr False)
     \<and> fst (generate_docx_report env scan_id output_file st)
         = (if DOCX_AVAILABLE env then Inl OverflowError else Inr False)
     \<and> fst (generate_excel_report env scan_id output_file st)
         = (if EXCEL_AVAILABLE env then Inl OverflowError else Inr False))
   \<and> (scans (db env) = None \<longrightarrow>
       fst (generate_html_report env scan_id output_file st)
         = Inl (OperationalError ''no such table: scans'')
     \<and> fst (generate_json_report env scan_id output_file st)
         = Inl (OperationalError ''no such table: scans'')
     \<and> fst (generate_csv_report env scan_id output_file st)
         = Inl (OperationalError ''no such table: scans'')
     \<and> fst (generate_pdf_report env scan_id output_file st)
         = (if PDF_AVAILABLE env then Inl (OperationalError ''no such table: scans'') else Inr False)
     \<and> fst (generate_docx_report env scan_id output_file st)
         = (if DOCX_AVAILABLE env then Inl (OperationalError ''no such table: scans'') else Inr False)
     \<and> fst (generate_excel_report env scan_id output_file st)
         = (if EXCEL_AVAILABLE env then Inl (OperationalError ''no such table: scans'') else Inr False))\<close>
  by (rule read_scan_cases [of \<open>db env\<close> scan_id])
    (simp_all add: renderer_eqs perform_result perform_files)

theorem unknown_scan_returns_false_writes_nothing_witness:
  \<open>scans (db example_sys) \<noteq> None \<and> fits 99 \<and> \<not> has_scan (db example_sys) 99
   \<and> fst (generate_html_report example_sys 99 ''report.html'' initial_state) = Inr False
   \<and> files (snd (generate_html_report example_sys 99 ''report.html'' initial_state)) = Map.empty
   \<and> fst (generate_csv_report example_sys 99 ''report.html'' initial_state) = Inr False
   \<and> fst (generate_pdf_report example_sys 99 ''report.html'' initial_state) = Inr False
   \<and> files (snd (generate_excel_report example_sys 99 ''report.html'' initial_state)) = Map.empty
   \<and> \<not> fits large_id
   \<and> fst (generate_json_report example_sys large_id ''report.html'' initial_state) = Inl OverflowError
   \<and> files (snd (generate_json_report example_sys large_id ''report.html'' initial_state)) = Map.empty\<close>
  using
    unknown_scan_returns_false_writes_nothing [of example_sys 99 \<open>''report.html''\<close> initial_state]
    unknown_scan_returns_false_writes_nothing [of example_sys large_id \<open>''report.html''\<close> initial_state]
    fits_examples example_store_tables example_store_has_scan
  by (simp add: example_sys_simps initial_state_simps)

section \<open>Claims about an absent encoder\<close>

lemma unavailable_is_not_not_found:
  \<open>''[!] PDF generation not available. Install: pip install reportlab'' \<noteq> not_found scan_id\<close>
  \<open>''[!] DOCX generation not available. Install: pip install python-docx'' \<noteq> not_found scan_id\<close>
  \<open>''[!] Excel generation not available. Install: pip install openpyxl'' \<noteq> not_found scan_id\<close>
  by (simp_all add: not_found_def)

text \<open>
  Claim C3, as stated, asks that a renderer whose encoder is absent return a signal that
  can be told from the one returned for an unknown scan identifier. The PDF renderer
  returns the same value in both cases.
\<close>

theorem declined_signal_is_failure_signal:
  \<open>fst (generate_pdf_report (example_sys\<lparr>PDF_AVAILABLE := False\<rparr>) 42 ''report.pdf'' initial_state)
     = fst (generate_pdf_report example_sys 99 ''report.pdf'' initial_state)
   \<and> fst (generate_pdf_report example_sys 99 ''report.pdf'' initial_state) = Inr False\<close>
  by (simp add: generate_pdf_report_eq perform_result example_sys_simps example_read_absent)

text \<open>
  Claim C3, amended. A renderer whose encoder is absent returns \<open>False\<close>, the value it
  also returns for an unknown scan identifier when the encoder is present. It does so
  without reading the store, whatever the store and the identifier are, and without
  writing a file, and the two cases differ only in the line printed: the line that
  names the missing package is never the line that reports a scan as not found. The
  second case is that of a store with the scans table and an identifier that fits the
  64-bit integer of SQLite.
\<close>

theorem absent_encoder_returns_false:
  \<open>(\<not> PDF_AVAILABLE env \<longrightarrow>
       generate_pdf_report env scan_id output_file st
         = (Inr False, print ''[!] PDF generation not available. Install: pip install reportlab'' st))
   \<and> (\<not> DOCX_AVAILABLE env \<longrightarrow>
       generate_docx_report env scan_id output_file st
         = (Inr False, print ''[!] DOCX generation not available. Install: pip install python-docx'' st))
   \<and> (\<not> EXCEL_AVAILABLE env \<longrightarrow>
       generate_excel_report env scan_id output_file st
         = (Inr False, print ''[!] Excel generation not available. Install: pip install openpyxl'' st))
   \<and> (PDF_AVAILABLE env \<and> scans (db env) \<noteq> None \<and> fits scan_id \<and> \<not> has_scan (db env) scan_id \<longrightarrow>
       generate_pdf_report env scan_id output_file st
         = (Inr False, print (not_found scan_id) (after_read st)))
   \<and> (DOCX_AVAILABLE env \<and> scans (db env) \<noteq> None \<and> fits scan_id \<and> \<not> has_scan (db env) scan_id \<longrightarrow>
       generate_docx_report env scan_id output_file st
         = (Inr False, print (not_found scan_id) (after_read st)))
   \<and> (EXCEL_AVAILABLE env \<and> scans (db env) \<noteq> None \<and> fits scan_id \<and> \<not> has_scan (db env) scan_id \<longrightarrow>
       generate_excel_report env scan_id output_file st
         = (Inr False, print (not_found scan_id) (after_read st)))
   \<and> ''[!] PDF generation not available. Install: pip install reportlab'' \<noteq> not_found scan_id
   \<and> ''[!] DOCX generation not available. Install: pip install python-docx'' \<noteq> not_found scan_id
   \<and> ''[!] Excel generation not available. Install: pip install openpyxl'' \<noteq> not_found scan_id\<close>
  by (rule read_scan_cases [of \<open>db env\<close> scan_id])
    (simp_all add: generate_pdf_report_eq generate_docx_report_eq generate_excel_report_eq
      perform_absent unavailable_is_not_not_found)

theorem absent_encoder_returns_false_witness:
  \<open>\<not> PDF_AVAILABLE (example_sys\<lparr>PDF_AVAILABLE := False, DOCX_AVAILABLE := False, EXCEL_AVAILABLE := False\<rparr>)
   \<and> fst (generate_pdf_report
        (example_sys\<lparr>PDF_AVAILABLE := False, DOCX_AVAILABLE := False, EXCEL_AVAILABLE := False\<rparr>)
        42 ''report.pdf'' initial_state) = Inr False
   \<and> fst (generate_docx_report
        (example_sys\<lparr>PDF_AVAILABLE := False, DOCX_AVAILABLE := False, EXCEL_AVAILABLE := False\<rparr>)
        42 ''report.docx'' initial_state) = Inr False
   \<and> fst (generate_excel_report
        (example_sys\<lparr>PDF_AVAILABLE := False, DOCX_AVAILABLE := False, EXCEL_AVAILABLE := False\<rparr>)
        42 ''report.xlsx'' initial_state) = Inr False
   \<and> conn_log (snd (generate_pdf_report
        (example_sys\<lparr>PDF_AVAILABLE := False, DOCX_AVAILABLE := False, EXCEL_AVAILABLE := False\<rparr>)
        42 ''report.pdf'' initial_state)) = []
   \<and> PDF_AVAILABLE example_sys \<and> scans (db example_sys) \<noteq> None \<and> fits 99
   \<and> \<not> has_scan (db example_sys) 99
   \<and> fst (generate_pdf_report example_sys 99 ''report.pdf'' initial_state) = Inr False
   \<and> fst (generate_docx_report example_sys 99 ''report.docx'' initial_state) = Inr False
   \<and> fst (generate_excel_report example_sys 99 ''report.xlsx'' initial_state) = Inr False\<close>
  using
    absent_encoder_returns_false
      [of \<open>example_sys\<lparr>PDF_AVAILABLE := False, DOCX_AVAILABLE := False, EXCEL_AVAILABLE := False\<rparr>\<close>
          42 \<open>''report.pdf''\<close> initial_state]
    absent_encoder_returns_false
      [of \<open>example_sys\<lparr>PDF_AVAILABLE := False, DOCX_AVAILABLE := False, EXCEL_AVAILABLE := False\<rparr>\<close>
          42 \<open>''report.docx''\<close> initial_state]
    absent_encoder_returns_false
      [of \<open>example_sys\<lparr>PDF_AVAILABLE := False, DOCX_AVAILABLE := False, EXCEL_AVAILABLE := False\<rparr>\<close>
          42 \<open>''report.xlsx''\<close> initial_state]
    absent_encoder_returns_false [of example_sys 99 \<open>''report.pdf''\<close> initial_state]
    absent_encoder_returns_false [of example_sys 99 \<open>''report.docx''\<close> initial_state]
    absent_encoder_returns_false [of example_sys 99 \<open>''report.xlsx''\<close> initial_state]
    fits_examples example_store_tables example_store_has_scan
  by (simp add: example_sys_simps initial_state_simps)

section \<open>Claims about empty remediation and reference texts\<close>

text \<open>A finding in which the empty texts are read as no text.\<close>

lemma truthy_blank_to_none [simp]: \<open>truthy (blank_to_none x) = truthy x\<close>
  by (cases x) simp_all



















section \<open>Claims about the JSON and CSV outputs\<close>

lemma vuln_of_json_vuln: \<open>vuln_of_json (json_vuln v) = Some v\<close>
  by (cases v; cases \<open>solution v\<close>; cases \<open>reference v\<close>)
    (simp_all add: vuln_of_json_def json_vuln_def)

lemma those_vuln_of_json: \<open>those (map (vuln_of_json \<circ> json_vuln) vs) = Some vs\<close>
  by (induction vs) (simp_all add: vuln_of_json_vuln)

lemma findings_of_json_data: \<open>findings_of_json (json_data data) = Some (vulnerabilities data)\<close>
  by (simp add: findings_of_json_def json_data_def those_vuln_of_json)

lemma example_read_42:
  \<open>read_scan example_store 42 = Inr (Some (aggregate (the (stored_scan example_store 42)) (stored_findings example_store 42)))\<close>
  by (rule read_scan_found [of _ _ _ \<open>the (vulnerabilities_table example_store)\<close>])
    (simp_all add: fits_examples stored_scan_def example_store_def)

text \<open>
  Claim C2, as stated, asks that the reference of a finding can be recovered from the
  CSV output. Two stores whose findings differ in a reference give the same CSV file.
\<close>

theorem csv_output_drops_reference:
  \<open>files (snd (generate_csv_report (example_sys\<lparr>db := example_store\<rparr>) 42 ''report.csv'' initial_state))
       ''report.csv''
     = files (snd (generate_csv_report (example_sys\<lparr>db := example_store_reference\<rparr>) 42 ''report.csv''
          initial_state)) ''report.csv''
   \<and> files (snd (generate_csv_report (example_sys\<lparr>db := example_store\<rparr>) 42 ''report.csv'' initial_state))
       ''report.csv'' \<noteq> None
   \<and> map_sum id (map_option (\<lambda>data. map reference (vulnerabilities data)))
        (fst (get_scan_data (example_sys\<lparr>db := example_store\<rparr>) 42 initial_state))
     \<noteq> map_sum id (map_option (\<lambda>data. map reference (vulnerabilities data)))
        (fst (get_scan_data (example_sys\<lparr>db := example_store_reference\<rparr>) 42 initial_state))\<close>
proof -
  have a: \<open>read_scan example_store 42
      = Inr (Some (aggregate (the (stored_scan example_store 42)) (stored_findings example_store 42)))\<close>
    by (rule example_read_42)
  have b: \<open>read_scan example_store_reference 42
      = Inr (Some (aggregate (the (stored_scan example_store_reference 42))
          (stored_findings example_store_reference 42)))\<close>
    by (rule read_scan_found [of _ _ _ \<open>the (vulnerabilities_table example_store_reference)\<close>])
      (simp_all add: fits_examples stored_scan_def example_store_def example_store_reference_def)
  have c: \<open>map csv_row (stored_findings example_store 42)
      = map csv_row (stored_findings example_store_reference 42)\<close>
    by (simp add: stored_findings_def csv_row_def example_store_def example_store_reference_def)
  have d: \<open>map reference (stored_findings example_store 42)
      \<noteq> map reference (stored_findings example_store_reference 42)\<close>
    by (simp add: stored_findings_def example_store_def example_store_reference_def)
  show ?thesis
    using c d
    by (simp add: generate_csv_report_eq perform_files get_scan_data_eq a b csv_rows_def
        example_sys_simps)
qed

text \<open>
  Claim C2, amended. For an existing scan, read without an exception (the store holds
  both tables and the identifier fits the 64-bit integer of SQLite), and a destination
  that can be opened, the JSON output holds every finding with all seven fields (and its
  identifier): the findings read back from the written value are the findings of the
  scan, those stored for it. The CSV output holds the header and then one row per
  finding, in order, with the name, severity, confidence, URL, description and
  remediation text, an absent remediation written as the empty field. The reference is
  not written to the CSV output.
\<close>

theorem json_keeps_seven_fields_csv_six:
  assumes \<open>has_tables (db env)\<close> and \<open>fits scan_id\<close>
    and \<open>has_scan (db env) scan_id\<close> and \<open>writable env output_file\<close>
  shows \<open>\<exists>data j.
      fst (get_scan_data env scan_id st) = Inr (Some data)
      \<and> vulnerabilities data = stored_findings (db env) scan_id
      \<and> fst (generate_json_report env scan_id output_file st) = Inr True
      \<and> files (snd (generate_json_report env scan_id output_file st)) output_file = Some (JsonFile j)
      \<and> findings_of_json j = Some (vulnerabilities data)
      \<and> fst (generate_csv_report env scan_id output_file st) = Inr True
      \<and> files (snd (generate_csv_report env scan_id output_file st)) output_file
          = Some (CsvFile
              ([''Vulnerability Name'', ''Severity'', ''Confidence'', ''URL'', ''Description'', ''Solution'']
               # map (\<lambda>v. [name v, severity v, confidence v, url v, description v,
                            (case solution v of None \<Rightarrow> [] | Some s \<Rightarrow> s)])
                   (vulnerabilities data)))\<close>
proof -
  from assms(1-3) obtain row
    where data: \<open>read_scan (db env) scan_id = Inr (Some (aggregate row (stored_findings (db env) scan_id)))\<close>
    by (rule read_scan_stored)
  define data where \<open>data = aggregate row (stored_findings (db env) scan_id)\<close>
  have \<open>csv_rows data
      = [''Vulnerability Name'', ''Severity'', ''Confidence'', ''URL'', ''Description'', ''Solution'']
        # map (\<lambda>v. [name v, severity v, confidence v, url v, description v,
                     (case solution v of None \<Rightarrow> [] | Some s \<Rightarrow> s)]) (vulnerabilities data)\<close>
    by (simp add: csv_rows_def csv_header_def csv_row_def)
  moreover have \<open>vulnerabilities data = stored_findings (db env) scan_id\<close>
    by (simp add: data_def)
  ultimately show ?thesis
    using data assms(4)
    by (simp add: get_scan_data_eq generate_json_report_eq generate_csv_report_eq perform_result
        perform_files findings_of_json_data flip: data_def)
qed

theorem json_keeps_seven_fields_csv_six_witness:
  \<open>has_tables (db example_sys) \<and> fits 42
   \<and> has_scan (db example_sys) 42 \<and> writable example_sys ''report.out''
   \<and> (\<exists>data j.
      fst (get_scan_data example_sys 42 initial_state) = Inr (Some data)
      \<and> vulnerabilities data = stored_findings (db example_sys) 42
      \<and> fst (generate_json_report example_sys 42 ''report.out'' initial_state) = Inr True
      \<and> files (snd (generate_json_report example_sys 42 ''report.out'' initial_state)) ''report.out''
          = Some (JsonFile j)
      \<and> findings_of_json j = Some (vulnerabilities data)
      \<and> fst (generate_csv_report example_sys 42 ''report.out'' initial_state) = Inr True
      \<and> files (snd (generate_csv_report example_sys 42 ''report.out'' initial_state)) ''report.out''
          = Some (CsvFile
              ([''Vulnerability Name'', ''Severity'', ''Confidence'', ''URL'', ''Description'', ''Solution'']
               # map (\<lambda>v. [name v, severity v, confidence v, url v, description v,
                            (case solution v of None \<Rightarrow> [] | Some s \<Rightarrow> s)])
                   (vulnerabilities data))))\<close>
proof -
  have a: \<open>has_tables (db example_sys)\<close> \<open>fits 42\<close> \<open>has_scan (db example_sys) 42\<close>
    by (simp_all add: example_sys_simps example_store_tables fits_examples example_store_has_scan)
  have b: \<open>writable example_sys ''report.out''\<close>
    by (simp add: example_sys_def)
  show ?thesis
    using a b json_keeps_seven_fields_csv_six [OF a b, of initial_state]
    by (simp only: simp_thms)
qed

section \<open>The aggregate of the example scan\<close>

lemma example_read_42_data: \<open>read_scan example_store 42 = Inr (Some example_data_42)\<close>
proof -
  have \<open>aggregate (the (stored_scan example_store 42)) (stored_findings example_store 42) = example_data_42\<close>
    by (simp add: stored_scan_def stored_findings_def example_store_def example_data_42_def)
  then show ?thesis
    by (simp add: example_read_42)
qed

lemma example_accepted_42:
  \<open>list_all (paragraph_ok example_sys) (paragraph_texts (pdf_story example_sys example_data_42))\<close>
  \<open>list_all (docx_ok example_sys) (block_texts (docx_blocks example_data_42))\<close>
  \<open>list_all (xlsx_ok example_sys)
     (cell_texts (map snd (xlsx_summary example_data_42) @ concat (xlsx_rows example_data_42)))\<close>
  by code_simp+

lemma environment_update_documents [simp]:
  \<open>html_text (env\<lparr>clock := c\<rparr>) = html_text env\<close>
  \<open>html_text (env\<lparr>writable := w\<rparr>) = html_text env\<close>
  \<open>pdf_story (env\<lparr>clock := c\<rparr>) = pdf_story env\<close>
  \<open>pdf_story (env\<lparr>writable := w\<rparr>) = pdf_story env\<close>
  by (intro ext, simp add: html_text_def html_head_def finding_card_def pdf_story_def pdf_front_def)+

section \<open>Claims about rendering twice\<close>

text \<open>The two readings of the clock in the text of the HTML report, each in its place.\<close>

lemma html_text_parts:
  \<open>\<exists>A B C. \<forall>now1 now2.
     html_text env data scan_id now1 now2
       = A @ ''<label>Report Generated:</label>\<newline>                    <value>'' @ strftime now1
         @ ''</value>'' @ B
         @ ''<p>'' @ [CHR 0xC2, CHR 0xAC, CHR 0xC2, CHR 0xA9] @ '' '' @ str_nat (year now2)
         @ '' - All Rights Reserved</p>'' @ C\<close>
proof -
  have \<open>suffix ''<label>Report Generated:</label>\<newline>                    <value>'' html_info_generated\<close>
    by (simp add: html_info_generated_def suffix_to_prefix)
  then obtain G where G: \<open>html_info_generated
      = G @ ''<label>Report Generated:</label>\<newline>                    <value>''\<close>
    by (auto simp: suffix_def)
  have \<open>prefix ''</value>'' html_findings_open\<close>
    by (simp add: html_findings_open_def)
  then obtain F where F: \<open>html_findings_open = ''</value>'' @ F\<close>
    by (auto simp: prefix_def)
  have \<open>suffix (''<p>'' @ [CHR 0xC2, CHR 0xAC, CHR 0xC2, CHR 0xA9] @ '' '') html_footer_year\<close>
    by (simp add: html_footer_year_def suffix_to_prefix)
  then obtain Y where Y: \<open>html_footer_year = Y @ ''<p>'' @ [CHR 0xC2, CHR 0xAC, CHR 0xC2, CHR 0xA9] @ '' ''\<close>
    by (auto simp: suffix_def)
  have \<open>prefix '' - All Rights Reserved</p>'' html_footer_close\<close>
    by (simp add: html_footer_close_def)
  then obtain Z where Z: \<open>html_footer_close = '' - All Rights Reserved</p>'' @ Z\<close>
    by (auto simp: prefix_def)
  have \<open>html_text env data scan_id now1 now2
      = (html_open @ target_url data @ html_style
         @ html_total_open @ str_int (total_alerts data)
         @ html_high_open @ str_int (high_risk data)
         @ html_medium_open @ str_int (medium_risk data)
         @ html_low_open @ str_int (low_risk data)
         @ html_info_target @ target_url data
         @ html_info_type @ str_title env (scan_type data)
         @ html_info_start @ start_time data
         @ html_info_end @ end_time data
         @ html_info_status @ str_title env (status data)
         @ G)
        @ ''<label>Report Generated:</label>\<newline>                    <value>'' @ strftime now1
        @ ''</value>''
        @ (F @ concat (map (\<lambda>(k, v). finding_card env k v) (enumerate 1 (vulnerabilities data)))
           @ html_footer_open @ str_int scan_id @ Y)
        @ ''<p>'' @ [CHR 0xC2, CHR 0xAC, CHR 0xC2, CHR 0xA9] @ '' '' @ str_nat (year now2)
        @ '' - All Rights Reserved</p>'' @ (Z @ html_script)\<close>
    for now1 now2
    unfolding html_text_def html_head_def html_tail_def
    by (simp only: F Y Z append_assoc) (simp only: G append_assoc)
  then show ?thesis by blast
qed

lemma html_text_cong:
  \<open>strftime a = strftime a' \<Longrightarrow> year b = year b' \<Longrightarrow>
     html_text env data scan_id a b = html_text env data scan_id a' b'\<close>
  by (simp add: html_text_def html_head_def html_tail_def)

text \<open>A renderer run a second time, from the state the first run left.\<close>

lemma perform_twice:
  assumes \<open>\<And>data. doc data (ticks st + reads) = doc data (ticks st)\<close>
  shows \<open>files (snd (perform env scan_id p rejected reads doc label
                  (snd (perform env scan_id p rejected reads doc label st))))
       = files (snd (perform env scan_id p rejected reads doc label st))\<close>
    and \<open>fst (perform env scan_id p rejected reads doc label
                  (snd (perform env scan_id p rejected reads doc label st)))
       = fst (perform env scan_id p rejected reads doc label st)\<close>
  using assms by (simp_all add: perform_def emit_def split: option.split sum.split)

lemma str_nat_years: \<open>str_nat 2024 \<noteq> str_nat 2025\<close>
  by code_simp

lemma new_year_stamps: \<open>strftime (new_year_clock 2) \<noteq> strftime (new_year_clock 3)\<close>
  by code_simp

text \<open>
  Claim C4, as stated, allows two runs of a renderer to differ only in one "report
  generated at" field. The HTML report also carries the year of a second reading of
  the clock, in its footer: here two runs fall into the same second, so that both show
  the same "Report Generated" text, and the written files differ all the same. The
  PDF, DOCX and Excel documents have no such field at all, and their files differ by
  the stamp of the encoder when the year turns between the two runs.
\<close>

theorem html_reports_differ_outside_generated_field:
  \<open>strftime (new_year_clock 0) = strftime (new_year_clock 2)
   \<and> files (snd (generate_html_report (example_sys\<lparr>clock := new_year_clock\<rparr>) 42 ''report.html''
         initial_state)) ''report.html''
     \<noteq> files (snd (generate_html_report (example_sys\<lparr>clock := new_year_clock\<rparr>) 42 ''report.html''
         (snd (generate_html_report (example_sys\<lparr>clock := new_year_clock\<rparr>) 42 ''report.html''
            initial_state)))) ''report.html''
   \<and> files (snd (generate_pdf_report (example_sys\<lparr>clock := new_year_clock\<rparr>) 42 ''report.pdf''
         (initial_state\<lparr>ticks := 2\<rparr>))) ''report.pdf''
     \<noteq> files (snd (generate_pdf_report (example_sys\<lparr>clock := new_year_clock\<rparr>) 42 ''report.pdf''
         (snd (generate_pdf_report (example_sys\<lparr>clock := new_year_clock\<rparr>) 42 ''report.pdf''
            (initial_state\<lparr>ticks := 2\<rparr>))))) ''report.pdf''
   \<and> files (snd (generate_docx_report (example_sys\<lparr>clock := new_year_clock\<rparr>) 42 ''report.docx''
         (initial_state\<lparr>ticks := 2\<rparr>))) ''report.docx''
     \<noteq> files (snd (generate_docx_report (example_sys\<lparr>clock := new_year_clock\<rparr>) 42 ''report.docx''
         (snd (generate_docx_report (example_sys\<lparr>clock := new_year_clock\<rparr>) 42 ''report.docx''
            (initial_state\<lparr>ticks := 2\<rparr>))))) ''report.docx''
   \<and> files (snd (generate_excel_report (example_sys\<lparr>clock := new_year_clock\<rparr>) 42 ''report.xlsx''
         (initial_state\<lparr>ticks := 2\<rparr>))) ''report.xlsx''
     \<noteq> files (snd (generate_excel_report (example_sys\<lparr>clock := new_year_clock\<rparr>) 42 ''report.xlsx''
         (snd (generate_excel_report (example_sys\<lparr>clock := new_year_clock\<rparr>) 42 ''report.xlsx''
            (initial_state\<lparr>ticks := 2\<rparr>))))) ''report.xlsx''\<close>
proof -
  define env where \<open>env = example_sys\<lparr>clock := new_year_clock\<rparr>\<close>
  have data: \<open>read_scan (db env) 42 = Inr (Some example_data_42)\<close>
    by (simp add: env_def example_sys_simps example_read_42_data)
  have w: \<open>writable env p\<close> for p
    by (simp add: env_def example_sys_simps)
  have f: \<open>PDF_AVAILABLE env\<close> \<open>DOCX_AVAILABLE env\<close> \<open>EXCEL_AVAILABLE env\<close>
    by (simp_all add: env_def example_sys_simps)
  have a: \<open>list_all (paragraph_ok env) (paragraph_texts (pdf_story env example_data_42))\<close>
    \<open>list_all (docx_ok env) (block_texts (docx_blocks example_data_42))\<close>
    \<open>list_all (xlsx_ok env)
       (cell_texts (map snd (xlsx_summary example_data_42) @ concat (xlsx_rows example_data_42)))\<close>
    using example_accepted_42 by (simp_all add: env_def)
  have s: \<open>pdf_stamp env = strftime\<close> \<open>docx_stamp env = strftime\<close> \<open>xlsx_stamp env = strftime\<close>
    \<open>clock env = new_year_clock\<close>
    by (simp_all add: env_def example_sys_simps)
  have c: \<open>new_year_clock 0 = new_year_clock 2\<close> \<open>year (new_year_clock (Suc 0)) = 2024\<close>
    \<open>year (new_year_clock 3) = 2025\<close>
    by (simp_all add: new_year_clock_def)
  have \<open>html_text env example_data_42 42 (new_year_clock 0) (new_year_clock (Suc 0))
      \<noteq> html_text env example_data_42 42 (new_year_clock 0) (new_year_clock 3)\<close>
    by (simp add: html_text_def html_tail_def c str_nat_years)
  then have \<open>files (snd (generate_html_report env 42 ''report.html'' initial_state)) ''report.html''
     \<noteq> files (snd (generate_html_report env 42 ''report.html''
         (snd (generate_html_report env 42 ''report.html'' initial_state)))) ''report.html''\<close>
    using c(1) by (simp add: documents_written(1) [OF data w] s initial_state_simps eval_nat_numeral)
  moreover have \<open>files (snd (generate_pdf_report env 42 ''report.pdf'' (initial_state\<lparr>ticks := 2\<rparr>))) ''report.pdf''
     \<noteq> files (snd (generate_pdf_report env 42 ''report.pdf''
         (snd (generate_pdf_report env 42 ''report.pdf'' (initial_state\<lparr>ticks := 2\<rparr>))))) ''report.pdf''\<close>
    using new_year_stamps by (simp add: documents_written(4) [OF data w f(1) a(1)] s)
  moreover have \<open>files (snd (generate_docx_report env 42 ''report.docx'' (initial_state\<lparr>ticks := 2\<rparr>))) ''report.docx''
     \<noteq> files (snd (generate_docx_report env 42 ''report.docx''
         (snd (generate_docx_report env 42 ''report.docx'' (initial_state\<lparr>ticks := 2\<rparr>))))) ''report.docx''\<close>
    using new_year_stamps by (simp add: documents_written(5) [OF data w f(2) a(2)] s)
  moreover have \<open>files (snd (generate_excel_report env 42 ''report.xlsx'' (initial_state\<lparr>ticks := 2\<rparr>))) ''report.xlsx''
     \<noteq> files (snd (generate_excel_report env 42 ''report.xlsx''
         (snd (generate_excel_report env 42 ''report.xlsx'' (initial_state\<lparr>ticks := 2\<rparr>))))) ''report.xlsx''\<close>
    using new_year_stamps by (simp add: documents_written(6) [OF data w f(3) a(3)] s)
  moreover have \<open>strftime (new_year_clock 0) = strftime (new_year_clock 2)\<close>
    using c(1) by simp
  ultimately show ?thesis
    unfolding env_def by blast
qed

text \<open>
  Claim C4, amended. Invoking \<open>generate_json_report\<close> or \<open>generate_csv_report\<close> twice for
  the same scan identifier and destination leaves the same file and returns the same
  value; no clock is read. The text of the HTML report of an existing scan is fixed by
  the store and the scan identifier except for two readings of the clock, which stand
  in two places: the first after the label "Report Generated:", to the second, and the
  year of the second in the copyright line of the footer. Two invocations of
  \<open>generate_html_report\<close> leave the same file when these two texts agree. The PDF, DOCX
  and Excel files of an existing scan consist of a document that is fixed by the
  store and the scan identifier, and of the stamp that the encoder derives from one
  reading of the clock; two invocations leave the same file when the stamps agree.
\<close>

theorem second_run_repeats_the_file:
  \<open>files (snd (generate_json_report env scan_id output_file
             (snd (generate_json_report env scan_id output_file st))))
     = files (snd (generate_json_report env scan_id output_file st))
   \<and> fst (generate_json_report env scan_id output_file
             (snd (generate_json_report env scan_id output_file st)))
     = fst (generate_json_report env scan_id output_file st)
   \<and> files (snd (generate_csv_report env scan_id output_file
             (snd (generate_csv_report env scan_id output_file st))))
     = files (snd (generate_csv_report env scan_id output_file st))
   \<and> fst (generate_csv_report env scan_id output_file
             (snd (generate_csv_report env scan_id output_file st)))
     = fst (generate_csv_report env scan_id output_file st)
   \<and> (has_tables (db env) \<and> fits scan_id \<and> has_scan (db env) scan_id \<longrightarrow>
        (\<exists>A B C. \<forall>c w out s. w out \<longrightarrow>
           fst (generate_html_report (env\<lparr>clock := c, writable := w\<rparr>) scan_id out s) = Inr True
           \<and> files (snd (generate_html_report (env\<lparr>clock := c, writable := w\<rparr>) scan_id out s)) out
             = Some (HtmlFile
                 (A @ ''<label>Report Generated:</label>\<newline>                    <value>''
                  @ strftime (c (ticks s)) @ ''</value>'' @ B
                  @ ''<p>'' @ [CHR 0xC2, CHR 0xAC, CHR 0xC2, CHR 0xA9] @ '' ''
                  @ str_nat (year (c (Suc (ticks s)))) @ '' - All Rights Reserved</p>'' @ C))))
   \<and> (strftime (clock env (ticks st)) = strftime (clock env (Suc (Suc (ticks st))))
        \<and> year (clock env (Suc (ticks st))) = year (clock env (Suc (Suc (Suc (ticks st))))) \<longrightarrow>
        files (snd (generate_html_report env scan_id output_file
                 (snd (generate_html_report env scan_id output_file st))))
          = files (snd (generate_html_report env scan_id output_file st)))
   \<and> (has_tables (db env) \<and> fits scan_id \<and> stored_scan (db env) scan_id = Some row \<longrightarrow>
        (\<forall>c w out s. w out \<longrightarrow>
           (PDF_AVAILABLE env
            \<and> list_all (paragraph_ok env)
                (paragraph_texts (pdf_story env (aggregate row (stored_findings (db env) scan_id)))) \<longrightarrow>
              files (snd (generate_pdf_report (env\<lparr>clock := c, writable := w\<rparr>) scan_id out s)) out
                = Some (PdfFile (pdf_story env (aggregate row (stored_findings (db env) scan_id)))
                          (pdf_stamp env (c (ticks s)))))
           \<and> (DOCX_AVAILABLE env
              \<and> list_all (docx_ok env)
                  (block_texts (docx_blocks (aggregate row (stored_findings (db env) scan_id)))) \<longrightarrow>
              files (snd (generate_docx_report (env\<lparr>clock := c, writable := w\<rparr>) scan_id out s)) out
                = Some (DocxFile (docx_blocks (aggregate row (stored_findings (db env) scan_id)))
                          (docx_stamp env (c (ticks s)))))
           \<and> (EXCEL_AVAILABLE env
              \<and> list_all (xlsx_ok env)
                  (cell_texts (map snd (xlsx_summary (aggregate row (stored_findings (db env) scan_id)))
                     @ concat (xlsx_rows (aggregate row (stored_findings (db env) scan_id))))) \<longrightarrow>
              files (snd (generate_excel_report (env\<lparr>clock := c, writable := w\<rparr>) scan_id out s)) out
                = Some (XlsxFile (xlsx_summary (aggregate row (stored_findings (db env) scan_id)))
                          (xlsx_rows (aggregate row (stored_findings (db env) scan_id)))
                          (xlsx_stamp env (c (ticks s)))))))
   \<and> (pdf_stamp env (clock env (Suc (ticks st))) = pdf_stamp env (clock env (ticks st)) \<longrightarrow>
        files (snd (generate_pdf_report env scan_id output_file
                 (snd (generate_pdf_report env scan_id output_file st))))
          = files (snd (generate_pdf_report env scan_id output_file st)))
   \<and> (docx_stamp env (clock env (Suc (ticks st))) = docx_stamp env (clock env (ticks st)) \<longrightarrow>
        files (snd (generate_docx_report env scan_id output_file
                 (snd (generate_docx_report env scan_id output_file st))))
          = files (snd (generate_docx_report env scan_id output_file st)))
   \<and> (xlsx_stamp env (clock env (Suc (ticks st))) = xlsx_stamp env (clock env (ticks st)) \<longrightarrow>
        files (snd (generate_excel_report env scan_id output_file
                 (snd (generate_excel_report env scan_id output_file st))))
          = files (snd (generate_excel_report env scan_id output_file st)))\<close>
proof -
  have html: \<open>\<exists>A B C. \<forall>c w out s. w out \<longrightarrow>
           fst (generate_html_report (env\<lparr>clock := c, writable := w\<rparr>) scan_id out s) = Inr True
           \<and> files (snd (generate_html_report (env\<lparr>clock := c, writable := w\<rparr>) scan_id out s)) out
             = Some (HtmlFile
                 (A @ ''<label>Report Generated:</label>\<newline>                    <value>''
                  @ strftime (c (ticks s)) @ ''</value>'' @ B
                  @ ''<p>'' @ [CHR 0xC2, CHR 0xAC, CHR 0xC2, CHR 0xA9] @ '' ''
                  @ str_nat (year (c (Suc (ticks s)))) @ '' - All Rights Reserved</p>'' @ C))\<close>
    if \<open>has_tables (db env)\<close> \<open>fits scan_id\<close> \<open>has_scan (db env) scan_id\<close>
  proof -
    from that obtain data where data: \<open>read_scan (db env) scan_id = Inr (Some data)\<close>
      using read_scan_Some_iff by blast
    obtain A B C where parts: \<open>\<And>now1 now2.
        html_text env data scan_id now1 now2
          = A @ ''<label>Report Generated:</label>\<newline>                    <value>'' @ strftime now1
            @ ''</value>'' @ B
            @ ''<p>'' @ [CHR 0xC2, CHR 0xAC, CHR 0xC2, CHR 0xA9] @ '' '' @ str_nat (year now2)
            @ '' - All Rights Reserved</p>'' @ C\<close>
      using html_text_parts [of env data scan_id] by blast
    have \<open>fst (generate_html_report (env\<lparr>clock := c, writable := w\<rparr>) scan_id out s) = Inr True
        \<and> files (snd (generate_html_report (env\<lparr>clock := c, writable := w\<rparr>) scan_id out s)) out
          = Some (HtmlFile
                 (A @ ''<label>Report Generated:</label>\<newline>                    <value>''
                  @ strftime (c (ticks s)) @ ''</value>'' @ B
                  @ ''<p>'' @ [CHR 0xC2, CHR 0xAC, CHR 0xC2, CHR 0xA9] @ '' ''
                  @ str_nat (year (c (Suc (ticks s)))) @ '' - All Rights Reserved</p>'' @ C))\<close>
      if \<open>w out\<close> for c w out s
    proof -
      have \<open>read_scan (db (env\<lparr>clock := c, writable := w\<rparr>)) scan_id = Inr (Some data)\<close>
        using data by simp
      moreover have \<open>writable (env\<lparr>clock := c, writable := w\<rparr>) out\<close>
        using that by simp
      ultimately show ?thesis
        by (simp add: documents_written(1) parts del: append_assoc)
    qed
    then show ?thesis by blast
  qed
  have html_twice: \<open>files (snd (generate_html_report env scan_id output_file
                 (snd (generate_html_report env scan_id output_file st))))
          = files (snd (generate_html_report env scan_id output_file st))\<close>
    if \<open>strftime (clock env (ticks st)) = strftime (clock env (Suc (Suc (ticks st))))\<close>
      \<open>year (clock env (Suc (ticks st))) = year (clock env (Suc (Suc (Suc (ticks st)))))\<close>
    unfolding generate_html_report_eq
    by (rule perform_twice) (simp add: html_text_cong [OF that [symmetric]])
  have docs: \<open>(PDF_AVAILABLE env
            \<and> list_all (paragraph_ok env)
                (paragraph_texts (pdf_story env (aggregate row (stored_findings (db env) scan_id)))) \<longrightarrow>
              files (snd (generate_pdf_report (env\<lparr>clock := c, writable := w\<rparr>) scan_id out s)) out
                = Some (PdfFile (pdf_story env (aggregate row (stored_findings (db env) scan_id)))
                          (pdf_stamp env (c (ticks s)))))
           \<and> (DOCX_AVAILABLE env
              \<and> list_all (docx_ok env)
                  (block_texts (docx_blocks (aggregate row (stored_findings (db env) scan_id)))) \<longrightarrow>
              files (snd (generate_docx_report (env\<lparr>clock := c, writable := w\<rparr>) scan_id out s)) out
                = Some (DocxFile (docx_blocks (aggregate row (stored_findings (db env) scan_id)))
                          (docx_stamp env (c (ticks s)))))
           \<and> (EXCEL_AVAILABLE env
              \<and> list_all (xlsx_ok env)
                  (cell_texts (map snd (xlsx_summary (aggregate row (stored_findings (db env) scan_id)))
                     @ concat (xlsx_rows (aggregate row (stored_findings (db env) scan_id))))) \<longrightarrow>
              files (snd (generate_excel_report (env\<lparr>clock := c, writable := w\<rparr>) scan_id out s)) out
                = Some (XlsxFile (xlsx_summary (aggregate row (stored_findings (db env) scan_id)))
                          (xlsx_rows (aggregate row (stored_findings (db env) scan_id)))
                          (xlsx_stamp env (c (ticks s)))))\<close>
    if \<open>has_tables (db env)\<close> \<open>fits scan_id\<close> \<open>stored_scan (db env) scan_id = Some row\<close> \<open>w out\<close>
    for c w out s
  proof -
    from that(1) obtain vrows where \<open>vulnerabilities_table (db env) = Some vrows\<close>
      by (auto simp: has_tables_def)
    with that(2,3) have \<open>read_scan (db env) scan_id
        = Inr (Some (aggregate row (stored_findings (db env) scan_id)))\<close>
      by (intro read_scan_found)
    then have data: \<open>read_scan (db (env\<lparr>clock := c, writable := w\<rparr>)) scan_id
        = Inr (Some (aggregate row (stored_findings (db env) scan_id)))\<close>
      by simp
    have w: \<open>writable (env\<lparr>clock := c, writable := w\<rparr>) out\<close>
      using that(4) by simp
    show ?thesis
      using documents_written(4-6) [OF data w, of s] by simp
  qed
  have pdf_twice: \<open>files (snd (generate_pdf_report env scan_id output_file
                 (snd (generate_pdf_report env scan_id output_file st))))
          = files (snd (generate_pdf_report env scan_id output_file st))\<close>
    if \<open>pdf_stamp env (clock env (Suc (ticks st))) = pdf_stamp env (clock env (ticks st))\<close>
    using that perform_twice(1) [where reads = 1 and st = st
        and doc = \<open>\<lambda>data t. PdfFile (pdf_story env data) (pdf_stamp env (clock env t))\<close>]
    by (simp add: generate_pdf_report_eq)
  have docx_twice: \<open>files (snd (generate_docx_report env scan_id output_file
                 (snd (generate_docx_report env scan_id output_file st))))
          = files (snd (generate_docx_report env scan_id output_file st))\<close>
    if \<open>docx_stamp env (clock env (Suc (ticks st))) = docx_stamp env (clock env (ticks st))\<close>
    using that perform_twice(1) [where reads = 1 and st = st
        and doc = \<open>\<lambda>data t. DocxFile (docx_blocks data) (docx_stamp env (clock env t))\<close>]
    by (simp add: generate_docx_report_eq)
  have xlsx_twice: \<open>files (snd (generate_excel_report env scan_id output_file
                 (snd (generate_excel_report env scan_id output_file st))))
          = files (snd (generate_excel_report env scan_id output_file st))\<close>
    if \<open>xlsx_stamp env (clock env (Suc (ticks st))) = xlsx_stamp env (clock env (ticks st))\<close>
    using that perform_twice(1) [where reads = 1 and st = st
        and doc = \<open>\<lambda>data t. XlsxFile (xlsx_summary data) (xlsx_rows data) (xlsx_stamp env (clock env t))\<close>]
    by (simp add: generate_excel_report_eq)
  have plain: \<open>files (snd (generate_json_report env scan_id output_file
             (snd (generate_json_report env scan_id output_file st))))
     = files (snd (generate_json_report env scan_id output_file st))\<close>
    \<open>fst (generate_json_report env scan_id output_file
             (snd (generate_json_report env scan_id output_file st)))
     = fst (generate_json_report env scan_id output_file st)\<close>
    \<open>files (snd (generate_csv_report env scan_id output_file
             (snd (generate_csv_report env scan_id output_file st))))
     = files (snd (generate_csv_report env scan_id output_file st))\<close>
    \<open>fst (generate_csv_report env scan_id output_file
             (snd (generate_csv_report env scan_id output_file st)))
     = fst (generate_csv_report env scan_id output_file st)\<close>
    by (simp_all add: generate_json_report_eq generate_csv_report_eq perform_twice)
  show ?thesis
    apply (intro conjI)
    subgoal by (rule plain)
    subgoal by (rule plain)
    subgoal by (rule plain)
    subgoal by (rule plain)
    subgoal using html by blast
    subgoal using html_twice by blast
    subgoal using docs by blast
    subgoal using pdf_twice by blast
    subgoal using docx_twice by blast
    subgoal using xlsx_twice by blast
    done
qed

lemma example_aggregate_42:
  \<open>stored_scan example_store 42
     = Some (42, ''http://shop.test'', ''quick'', ''2024-03-01 10:00:00'', ''2024-03-01 10:05:00'',
             3, 1, 1, 1, ''completed'')\<close>
  \<open>aggregate (42, ''http://shop.test'', ''quick'', ''2024-03-01 10:00:00'', ''2024-03-01 10:05:00'',
             3, 1, 1, 1, ''completed'') (stored_findings example_store 42) = example_data_42\<close>
  by (simp_all add: stored_scan_def stored_findings_def example_store_def example_data_42_def)

theorem second_run_repeats_the_file_witness:
  \<open>has_tables (db example_sys) \<and> fits 42 \<and> has_scan (db example_sys) 42
   \<and> stored_scan (db example_sys) 42
       = Some (42, ''http://shop.test'', ''quick'', ''2024-03-01 10:00:00'', ''2024-03-01 10:05:00'',
             3, 1, 1, 1, ''completed'')
   \<and> strftime (clock example_sys (ticks initial_state))
       = strftime (clock example_sys (Suc (Suc (ticks initial_state))))
   \<and> year (clock example_sys (Suc (ticks initial_state)))
       = year (clock example_sys (Suc (Suc (Suc (ticks initial_state)))))
   \<and> files (snd (generate_html_report example_sys 42 ''report.out''
             (snd (generate_html_report example_sys 42 ''report.out'' initial_state))))
       = files (snd (generate_html_report example_sys 42 ''report.out'' initial_state))
   \<and> files (snd (generate_json_report example_sys 42 ''report.out''
             (snd (generate_json_report example_sys 42 ''report.out'' initial_state))))
       = files (snd (generate_json_report example_sys 42 ''report.out'' initial_state))
   \<and> (\<exists>A B C. \<forall>c w out s. w out \<longrightarrow>
           fst (generate_html_report (example_sys\<lparr>clock := c, writable := w\<rparr>) 42 out s) = Inr True
           \<and> files (snd (generate_html_report (example_sys\<lparr>clock := c, writable := w\<rparr>) 42 out s)) out
             = Some (HtmlFile
                 (A @ ''<label>Report Generated:</label>\<newline>                    <value>''
                  @ strftime (c (ticks s)) @ ''</value>'' @ B
                  @ ''<p>'' @ [CHR 0xC2, CHR 0xAC, CHR 0xC2, CHR 0xA9] @ '' ''
                  @ str_nat (year (c (Suc (ticks s)))) @ '' - All Rights Reserved</p>'' @ C)))
   \<and> PDF_AVAILABLE example_sys
   \<and> list_all (paragraph_ok example_sys) (paragraph_texts (pdf_story example_sys example_data_42))
   \<and> files (snd (generate_pdf_report (example_sys\<lparr>clock := new_year_clock, writable := (\<lambda>p. True)\<rparr>) 42 ''report.pdf'' initial_state)) ''report.pdf''
       = Some (PdfFile (pdf_story example_sys example_data_42)
                 (pdf_stamp example_sys (new_year_clock (ticks initial_state))))
   \<and> pdf_stamp example_sys (clock example_sys (Suc (ticks initial_state)))
       = pdf_stamp example_sys (clock example_sys (ticks initial_state))
   \<and> files (snd (generate_pdf_report example_sys 42 ''report.out''
             (snd (generate_pdf_report example_sys 42 ''report.out'' initial_state))))
       = files (snd (generate_pdf_report example_sys 42 ''report.out'' initial_state))\<close>
proof -
  note t = second_run_repeats_the_file [where env = example_sys and scan_id = 42
      and output_file = \<open>''report.out''\<close> and st = initial_state
      and row = \<open>(42, ''http://shop.test'', ''quick'', ''2024-03-01 10:00:00'', ''2024-03-01 10:05:00'',
             3, 1, 1, 1, ''completed'')\<close>]
  have a: \<open>has_tables (db example_sys)\<close> \<open>fits 42\<close> \<open>has_scan (db example_sys) 42\<close>
    by (simp_all add: example_sys_simps example_store_tables fits_examples example_store_has_scan)
  have r: \<open>stored_scan (db example_sys) 42
       = Some (42, ''http://shop.test'', ''quick'', ''2024-03-01 10:00:00'', ''2024-03-01 10:05:00'',
             3, 1, 1, 1, ''completed'')\<close>
    by (simp add: example_sys_simps example_aggregate_42)
  have b: \<open>strftime (clock example_sys (ticks initial_state))
       = strftime (clock example_sys (Suc (Suc (ticks initial_state))))\<close>
    \<open>year (clock example_sys (Suc (ticks initial_state)))
       = year (clock example_sys (Suc (Suc (Suc (ticks initial_state)))))\<close>
    \<open>pdf_stamp example_sys (clock example_sys (Suc (ticks initial_state)))
       = pdf_stamp example_sys (clock example_sys (ticks initial_state))\<close>
    by (simp_all add: example_sys_simps)
  have f: \<open>PDF_AVAILABLE example_sys\<close>
    by (simp add: example_sys_simps)
  have d: \<open>aggregate (42, ''http://shop.test'', ''quick'', ''2024-03-01 10:00:00'', ''2024-03-01 10:05:00'',
             3, 1, 1, 1, ''completed'') (stored_findings (db example_sys) 42) = example_data_42\<close>
    using example_aggregate_42(2) by (simp only: example_sys_simps)
  have h1: \<open>files (snd (generate_json_report example_sys 42 ''report.out''
             (snd (generate_json_report example_sys 42 ''report.out'' initial_state))))
       = files (snd (generate_json_report example_sys 42 ''report.out'' initial_state))\<close>
    by (rule t [THEN conjunct1])
  have h5: \<open>\<exists>A B C. \<forall>c w out s. w out \<longrightarrow>
           fst (generate_html_report (example_sys\<lparr>clock := c, writable := w\<rparr>) 42 out s) = Inr True
           \<and> files (snd (generate_html_report (example_sys\<lparr>clock := c, writable := w\<rparr>) 42 out s)) out
             = Some (HtmlFile
                 (A @ ''<label>Report Generated:</label>\<newline>                    <value>''
                  @ strftime (c (ticks s)) @ ''</value>'' @ B
                  @ ''<p>'' @ [CHR 0xC2, CHR 0xAC, CHR 0xC2, CHR 0xA9] @ '' ''
                  @ str_nat (year (c (Suc (ticks s)))) @ '' - All Rights Reserved</p>'' @ C))\<close>
    using t [THEN conjunct2, THEN conjunct2, THEN conjunct2, THEN conjunct2, THEN conjunct1] a by blast
  have h6: \<open>files (snd (generate_html_report example_sys 42 ''report.out''
             (snd (generate_html_report example_sys 42 ''report.out'' initial_state))))
       = files (snd (generate_html_report example_sys 42 ''report.out'' initial_state))\<close>
    using t [THEN conjunct2, THEN conjunct2, THEN conjunct2, THEN conjunct2, THEN conjunct2, THEN conjunct1] b(1,2) by blast
  have h7: \<open>files (snd (generate_pdf_report (example_sys\<lparr>clock := new_year_clock, writable := (\<lambda>p. True)\<rparr>) 42 ''report.pdf'' initial_state)) ''report.pdf''
       = Some (PdfFile (pdf_story example_sys example_data_42)
                 (pdf_stamp example_sys (new_year_clock (ticks initial_state))))\<close>
    using
      spec [OF spec [OF spec [OF spec [OF
        t [THEN conjunct2, THEN conjunct2, THEN conjunct2, THEN conjunct2, THEN conjunct2,
           THEN conjunct2, THEN conjunct1, THEN mp, OF conjI [OF a(1) conjI [OF a(2) r]]],
        of new_year_clock], of \<open>\<lambda>p. True\<close>], of \<open>''report.pdf''\<close>], of initial_state]
      f example_accepted_42(1)
    by (simp only: d simp_thms)
  have h8: \<open>files (snd (generate_pdf_report example_sys 42 ''report.out''
             (snd (generate_pdf_report example_sys 42 ''report.out'' initial_state))))
       = files (snd (generate_pdf_report example_sys 42 ''report.out'' initial_state))\<close>
    using t [THEN conjunct2, THEN conjunct2, THEN conjunct2, THEN conjunct2, THEN conjunct2, THEN conjunct2, THEN conjunct2, THEN conjunct1] b(3) by blast
  show ?thesis
    using a r b f example_accepted_42(1) h1 h5 h6 h7 h8 by blast
qed

section \<open>Claims about entries and counts\<close>





text \<open>
  Claim C10, as stated, asks that the output of every renderer show the stored counts
  beside the finding entries. Scan 60 stores five alerts and has one finding; its CSV
  output is the header and the one finding row, and shows no count.
\<close>

theorem csv_output_of_mismatched_scan:
  \<open>stored_scan (db example_sys) 60
     = Some (60, ''http://wiki.test'', ''quick'', ''2024-03-03 08:00:00'', ''2024-03-03 08:01:00'',
             5, 2, 2, 1, ''completed'')
   \<and> length (stored_findings (db example_sys) 60) = 1
   \<and> fst (generate_csv_report example_sys 60 ''report.csv'' initial_state) = Inr True
   \<and> files (snd (generate_csv_report example_sys 60 ''report.csv'' initial_state)) ''report.csv''
     = Some (CsvFile
         [[''Vulnerability Name'', ''Severity'', ''Confidence'', ''URL'', ''Description'', ''Solution''],
          [''Open Redirect'', ''Low'', ''Low'', ''http://wiki.test/go'', ''Unchecked target'', []]])\<close>
proof -
  have \<open>read_scan example_store 60
      = Inr (Some (aggregate (the (stored_scan example_store 60)) (stored_findings example_store 60)))\<close>
    by (rule read_scan_found [of _ _ _ \<open>the (vulnerabilities_table example_store)\<close>])
      (simp_all add: fits_examples stored_scan_def example_store_def)
  moreover have \<open>stored_findings example_store 60
      = [\<lparr>vuln_id = 2, name = ''Open Redirect'', severity = ''Low'', confidence = ''Low'',
          url = ''http://wiki.test/go'', description = ''Unchecked target'', solution = None,
          reference = None\<rparr>]\<close>
    by (simp add: stored_findings_def example_store_def)
  moreover have \<open>stored_scan example_store 60
     = Some (60, ''http://wiki.test'', ''quick'', ''2024-03-03 08:00:00'', ''2024-03-03 08:01:00'',
             5, 2, 2, 1, ''completed'')\<close>
    by (simp add: stored_scan_def example_store_def)
  ultimately show ?thesis
    by (simp add: generate_csv_report_eq perform_files perform_result csv_rows_def csv_header_def
        csv_row_def example_sys_simps)
qed

text \<open>
  Claim C10, amended. The renderers copy the stored counts from the scan record and
  never compare them with the findings. For a scan, read without an exception, whose
  stored total differs from the number of its findings, the HTML, JSON and CSV
  renderers still return \<open>True\<close> when the destination can be opened, and so do the PDF,
  DOCX and Excel renderers when their encoder is present and accepts every text of the
  document; the HTML, PDF, JSON, DOCX and Excel outputs show the four stored counts
  beside one entry per finding, so that the number of entries differs from the total
  shown; the CSV output shows the entries only.
\<close>

theorem stored_counts_rendered_without_cross_check:
  assumes \<open>has_tables (db env)\<close> and \<open>fits scan_id\<close>
    and \<open>stored_scan (db env) scan_id = Some (s0, s1, s2, s3, s4, s5, s6, s7, s8, s9)\<close>
    and \<open>s5 \<noteq> int (length (stored_findings (db env) scan_id))\<close>
    and \<open>writable env output_file\<close>
  shows \<open>\<exists>findings data html story blocks rows j.
      findings = stored_findings (db env) scan_id
      \<and> data = aggregate (s0, s1, s2, s3, s4, s5, s6, s7, s8, s9) findings
      \<and> html = html_head env data (clock env (ticks st))
            @ concat (map (\<lambda>(k, v). finding_card env k v) (enumerate 1 findings))
            @ html_tail scan_id (clock env (Suc (ticks st)))
      \<and> story = pdf_front env data @ concat (map (\<lambda>(k, v). pdf_finding k v) (enumerate 1 findings))
      \<and> blocks = docx_front data @ concat (map (\<lambda>(k, v). docx_finding k v) (enumerate 1 findings))
      \<and> rows = [PStr ''#'', PStr ''Name'', PStr ''Severity'', PStr ''Confidence'', PStr ''URL'',
               PStr ''Description'', PStr ''Solution'']
            # map (\<lambda>(k, v). [PInt (int k), PStr (name v), PStr (severity v), PStr (confidence v),
                               PStr (url v), PStr (description v),
                               (case solution v of None \<Rightarrow> PNone | Some s \<Rightarrow> PStr s)])
                (enumerate 1 findings)
      \<and> fst (generate_html_report env scan_id output_file st) = Inr True
      \<and> fst (generate_json_report env scan_id output_file st) = Inr True
      \<and> fst (generate_csv_report env scan_id output_file st) = Inr True
      \<and> files (snd (generate_html_report env scan_id output_file st)) output_file
            = Some (HtmlFile html)
      \<and> sublist (''<h3>Total Issues</h3>\<newline>                <div class="number">''
            @ str_int s5 @ ''</div>'') html
      \<and> sublist (''<h3>High Risk</h3>\<newline>                <div class="number">''
            @ str_int s6 @ ''</div>'') html
      \<and> sublist (''<h3>Medium Risk</h3>\<newline>                <div class="number">''
            @ str_int s7 @ ''</div>'') html
      \<and> sublist (''<h3>Low Risk</h3>\<newline>                <div class="number">''
            @ str_int s8 @ ''</div>'') html
      \<and> list_all (\<lambda>(k, v). sublist (''<div class="vuln-title">'' @ str_nat k @ ''. '' @ name v @ ''</div>'') html)
          (enumerate 1 findings)
      \<and> files (snd (generate_json_report env scan_id output_file st)) output_file
            = Some (JsonFile j)
      \<and> json_field ''total_alerts'' j = Some (JInt s5)
      \<and> json_field ''high_risk'' j = Some (JInt s6)
      \<and> json_field ''medium_risk'' j = Some (JInt s7)
      \<and> json_field ''low_risk'' j = Some (JInt s8)
      \<and> findings_of_json j = Some findings
      \<and> files (snd (generate_csv_report env scan_id output_file st)) output_file
            = Some (CsvFile
              ([''Vulnerability Name'', ''Severity'', ''Confidence'', ''URL'', ''Description'', ''Solution'']
               # map (\<lambda>v. [name v, severity v, confidence v, url v, description v,
                            (case solution v of None \<Rightarrow> [] | Some s \<Rightarrow> s)])
                   findings))
      \<and> (PDF_AVAILABLE env \<and> list_all (paragraph_ok env) (paragraph_texts story) \<longrightarrow>
          fst (generate_pdf_report env scan_id output_file st) = Inr True
          \<and> files (snd (generate_pdf_report env scan_id output_file st)) output_file
            = Some (PdfFile story (pdf_stamp env (clock env (ticks st)))))
      \<and> Table [[''Metric'', ''Count''],
             [''Total Issues'', str_int s5],
             [''High Risk'', str_int s6],
             [''Medium Risk'', str_int s7],
             [''Low Risk'', str_int s8]] [3, 2] \<in> set story
      \<and> filter (\<lambda>f. case f of Paragraph text style \<Rightarrow> style = ''Heading3'' | _ \<Rightarrow> False) story
          = map (\<lambda>(k, v). Paragraph (''<b>'' @ str_nat k @ ''. '' @ name v @ ''</b> ['' @ severity v @ '']'') ''Heading3'')
              (enumerate 1 findings)
      \<and> (DOCX_AVAILABLE env \<and> list_all (docx_ok env) (block_texts blocks) \<longrightarrow>
          fst (generate_docx_report env scan_id output_file st) = Inr True
          \<and> files (snd (generate_docx_report env scan_id output_file st)) output_file
            = Some (DocxFile blocks (docx_stamp env (clock env (ticks st)))))
      \<and> (\<exists>target. DocTable ''Light Grid Accent 1''
             [[''Total Issues'', str_int s5],
              [''High Risk'', str_int s6],
              [''Medium Risk'', str_int s7],
              [''Low Risk'', str_int s8],
              [''Target URL'', target]] \<in> set blocks)
      \<and> filter (\<lambda>b. case b of Heading text level \<Rightarrow> level = 2 | _ \<Rightarrow> False) blocks
          = map (\<lambda>(k, v). Heading (str_nat k @ ''. '' @ name v) 2) (enumerate 1 findings)
      \<and> (EXCEL_AVAILABLE env
          \<and> list_all (xlsx_ok env) (cell_texts (map snd (xlsx_summary data) @ concat rows)) \<longrightarrow>
          fst (generate_excel_report env scan_id output_file st) = Inr True
          \<and> files (snd (generate_excel_report env scan_id output_file st)) output_file
            = Some (XlsxFile (xlsx_summary data) rows (xlsx_stamp env (clock env (ticks st)))))
      \<and> map_of (xlsx_summary data) ''B5'' = Some (PInt s5)
      \<and> map_of (xlsx_summary data) ''B6'' = Some (PInt s6)
      \<and> map_of (xlsx_summary data) ''B7'' = Some (PInt s7)
      \<and> map_of (xlsx_summary data) ''B8'' = Some (PInt s8)
      \<and> int (length findings) \<noteq> s5
      \<and> length (tl rows) = length findings
      \<and> (PDF_AVAILABLE env \<and> \<not> list_all (paragraph_ok env) (paragraph_texts story) \<longrightarrow>
          (\<exists>text \<in> set (paragraph_texts story). \<not> paragraph_ok env text
             \<and> generate_pdf_report env scan_id output_file st = (Inl (ValueError text), after_read st)))
      \<and> (DOCX_AVAILABLE env \<and> \<not> list_all (docx_ok env) (block_texts blocks) \<longrightarrow>
          (\<exists>text \<in> set (block_texts blocks). \<not> docx_ok env text
             \<and> generate_docx_report env scan_id output_file st = (Inl (ValueError text), after_read st)))
      \<and> (EXCEL_AVAILABLE env
          \<and> \<not> list_all (xlsx_ok env) (cell_texts (map snd (xlsx_summary data) @ concat rows)) \<longrightarrow>
          (\<exists>text \<in> set (cell_texts (map snd (xlsx_summary data) @ concat rows)). \<not> xlsx_ok env text
             \<and> generate_excel_report env scan_id output_file st
                 = (Inl (IllegalCharacterError text), after_read st)))\<close>
proof -
  from assms(1) obtain vrows where \<open>vulnerabilities_table (db env) = Some vrows\<close>
    by (auto simp: has_tables_def)
  with assms(2,3) have read: \<open>read_scan (db env) scan_id
      = Inr (Some (aggregate (s0, s1, s2, s3, s4, s5, s6, s7, s8, s9) (stored_findings (db env) scan_id)))\<close>
    by (intro read_scan_found)
  define findings where \<open>findings = stored_findings (db env) scan_id\<close>
  define data where \<open>data = aggregate (s0, s1, s2, s3, s4, s5, s6, s7, s8, s9) findings\<close>
  define html where \<open>html = html_text env data scan_id (clock env (ticks st)) (clock env (Suc (ticks st)))\<close>
  have data: \<open>read_scan (db env) scan_id = Inr (Some data)\<close>
    using read by (simp add: data_def findings_def)
  have v: \<open>vulnerabilities data = findings\<close>
    by (simp add: data_def)
  have c: \<open>total_alerts data = s5\<close> \<open>high_risk data = s6\<close> \<open>medium_risk data = s7\<close>
    \<open>low_risk data = s8\<close>
    by (simp_all add: data_def)
  note w = documents_written [OF data assms(5), of st]
  have story: \<open>pdf_story env data
      = pdf_front env data @ concat (map (\<lambda>(k, v). pdf_finding k v) (enumerate 1 findings))\<close>
    by (simp add: pdf_story_def v)
  have blocks: \<open>docx_blocks data
      = docx_front data @ concat (map (\<lambda>(k, v). docx_finding k v) (enumerate 1 findings))\<close>
    by (simp add: docx_blocks_def v)
  have rows: \<open>xlsx_rows data
      = [PStr ''#'', PStr ''Name'', PStr ''Severity'', PStr ''Confidence'', PStr ''URL'',
               PStr ''Description'', PStr ''Solution'']
            # map (\<lambda>(k, v). [PInt (int k), PStr (name v), PStr (severity v), PStr (confidence v),
                               PStr (url v), PStr (description v),
                               (case solution v of None \<Rightarrow> PNone | Some s \<Rightarrow> PStr s)])
                (enumerate 1 findings)\<close>
    by (simp add: xlsx_rows_def xlsx_row_def v)
  have csv: \<open>csv_rows data
      = [''Vulnerability Name'', ''Severity'', ''Confidence'', ''URL'', ''Description'', ''Solution'']
        # map (\<lambda>v. [name v, severity v, confidence v, url v, description v,
                     (case solution v of None \<Rightarrow> [] | Some s \<Rightarrow> s)]) findings\<close>
    by (simp add: csv_rows_def csv_header_def csv_row_def v)
  have h: \<open>html = html_head env data (clock env (ticks st))
            @ concat (map (\<lambda>(k, v). finding_card env k v) (enumerate 1 findings))
            @ html_tail scan_id (clock env (Suc (ticks st)))\<close>
    by (simp add: html_def html_text_def v)
  have n: \<open>sublist (''<h3>Total Issues</h3>\<newline>                <div class="number">''
            @ str_int s5 @ ''</div>'') html\<close>
    \<open>sublist (''<h3>High Risk</h3>\<newline>                <div class="number">''
            @ str_int s6 @ ''</div>'') html\<close>
    \<open>sublist (''<h3>Medium Risk</h3>\<newline>                <div class="number">''
            @ str_int s7 @ ''</div>'') html\<close>
    \<open>sublist (''<h3>Low Risk</h3>\<newline>                <div class="number">''
            @ str_int s8 @ ''</div>'') html\<close>
    using html_text_counts [of data env scan_id \<open>clock env (ticks st)\<close> \<open>clock env (Suc (ticks st))\<close>]
    by (simp_all add: html_def c)
  have t: \<open>list_all (\<lambda>(k, v). sublist (''<div class="vuln-title">'' @ str_nat k @ ''. '' @ name v @ ''</div>'') html)
          (enumerate 1 findings)\<close>
    using html_text_titles [of env data scan_id \<open>clock env (ticks st)\<close> \<open>clock env (Suc (ticks st))\<close>]
    by (simp add: html_def v)
  have k1: \<open>Table [[''Metric'', ''Count''],
             [''Total Issues'', str_int s5],
             [''High Risk'', str_int s6],
             [''Medium Risk'', str_int s7],
             [''Low Risk'', str_int s8]] [3, 2] \<in> set (pdf_story env data)\<close>
    using counts_in_documents(1) [of data env] by (simp add: c)
  have k2: \<open>\<exists>target. DocTable ''Light Grid Accent 1''
             [[''Total Issues'', str_int s5],
              [''High Risk'', str_int s6],
              [''Medium Risk'', str_int s7],
              [''Low Risk'', str_int s8],
              [''Target URL'', target]] \<in> set (docx_blocks data)\<close>
    using counts_in_documents(2) [of data] by (auto simp: c)
  have k3: \<open>map_of (xlsx_summary data) ''B5'' = Some (PInt s5)\<close>
    \<open>map_of (xlsx_summary data) ''B6'' = Some (PInt s6)\<close>
    \<open>map_of (xlsx_summary data) ''B7'' = Some (PInt s7)\<close>
    \<open>map_of (xlsx_summary data) ''B8'' = Some (PInt s8)\<close>
    \<open>json_field ''total_alerts'' (json_data data) = Some (JInt s5)\<close>
    \<open>json_field ''high_risk'' (json_data data) = Some (JInt s6)\<close>
    \<open>json_field ''medium_risk'' (json_data data) = Some (JInt s7)\<close>
    \<open>json_field ''low_risk'' (json_data data) = Some (JInt s8)\<close>
    using counts_in_documents(3-10) [of data] by (simp_all add: c)
  note k = k1 k2 k3
  have e: \<open>filter (\<lambda>f. case f of Paragraph text style \<Rightarrow> style = ''Heading3'' | _ \<Rightarrow> False) (pdf_story env data)
          = map (\<lambda>(k, v). Paragraph (''<b>'' @ str_nat k @ ''. '' @ name v @ ''</b> ['' @ severity v @ '']'') ''Heading3'')
              (enumerate 1 findings)\<close>
    \<open>filter (\<lambda>b. case b of Heading text level \<Rightarrow> level = 2 | _ \<Rightarrow> False) (docx_blocks data)
          = map (\<lambda>(k, v). Heading (str_nat k @ ''. '' @ name v) 2) (enumerate 1 findings)\<close>
    using pdf_story_headings [of env data] docx_blocks_headings [of data] by (simp_all add: v)
  have f: \<open>findings_of_json (json_data data) = Some findings\<close>
    by (simp add: findings_of_json_data v)
  have m: \<open>int (length findings) \<noteq> s5\<close> \<open>length (tl (xlsx_rows data)) = length findings\<close>
    using assms(4) by (auto simp: findings_def xlsx_rows_def v)
  have rp: \<open>\<exists>text \<in> set (paragraph_texts (pdf_story env data)). \<not> paragraph_ok env text
             \<and> generate_pdf_report env scan_id output_file st = (Inl (ValueError text), after_read st)\<close>
    if \<open>PDF_AVAILABLE env\<close> \<open>\<not> list_all (paragraph_ok env) (paragraph_texts (pdf_story env data))\<close>
    using that rejected_text [of \<open>paragraph_ok env\<close> \<open>paragraph_texts (pdf_story env data)\<close>] data
    by (auto simp: generate_pdf_report_eq perform_def pdf_rejected_def)
  have rd: \<open>\<exists>text \<in> set (block_texts (docx_blocks data)). \<not> docx_ok env text
             \<and> generate_docx_report env scan_id output_file st = (Inl (ValueError text), after_read st)\<close>
    if \<open>DOCX_AVAILABLE env\<close> \<open>\<not> list_all (docx_ok env) (block_texts (docx_blocks data))\<close>
    using that rejected_text [of \<open>docx_ok env\<close> \<open>block_texts (docx_blocks data)\<close>] data
    by (auto simp: generate_docx_report_eq perform_def docx_rejected_def)
  have rx: \<open>\<exists>text \<in> set (cell_texts (map snd (xlsx_summary data) @ concat (xlsx_rows data))). \<not> xlsx_ok env text
             \<and> generate_excel_report env scan_id output_file st
                 = (Inl (IllegalCharacterError text), after_read st)\<close>
    if \<open>EXCEL_AVAILABLE env\<close>
      \<open>\<not> list_all (xlsx_ok env) (cell_texts (map snd (xlsx_summary data) @ concat (xlsx_rows data)))\<close>
    using that
      rejected_text [of \<open>xlsx_ok env\<close> \<open>cell_texts (map snd (xlsx_summary data) @ concat (xlsx_rows data))\<close>]
      data
    by (auto simp: generate_excel_report_eq perform_def xlsx_rejected_def)
  have wh: \<open>files (snd (generate_html_report env scan_id output_file st)) output_file
            = Some (HtmlFile html)\<close>
    \<open>fst (generate_html_report env scan_id output_file st) = Inr True\<close>
    by (simp_all add: w(1) html_def)
  have wj: \<open>files (snd (generate_json_report env scan_id output_file st)) output_file
            = Some (JsonFile (json_data data))\<close>
    \<open>fst (generate_json_report env scan_id output_file st) = Inr True\<close>
    by (simp_all add: w(2))
  have wc: \<open>files (snd (generate_csv_report env scan_id output_file st)) output_file
            = Some (CsvFile
              ([''Vulnerability Name'', ''Severity'', ''Confidence'', ''URL'', ''Description'', ''Solution'']
               # map (\<lambda>v. [name v, severity v, confidence v, url v, description v,
                            (case solution v of None \<Rightarrow> [] | Some s \<Rightarrow> s)])
                   findings))\<close>
    \<open>fst (generate_csv_report env scan_id output_file st) = Inr True\<close>
    by (simp_all add: w(3) csv)
  have wp: \<open>files (snd (generate_pdf_report env scan_id output_file st)) output_file
            = Some (PdfFile (pdf_story env data) (pdf_stamp env (clock env (ticks st))))\<close>
    \<open>fst (generate_pdf_report env scan_id output_file st) = Inr True\<close>
    if \<open>PDF_AVAILABLE env\<close> \<open>list_all (paragraph_ok env) (paragraph_texts (pdf_story env data))\<close>
    using that by (simp_all add: w(4))
  have wd: \<open>files (snd (generate_docx_report env scan_id output_file st)) output_file
            = Some (DocxFile (docx_blocks data) (docx_stamp env (clock env (ticks st))))\<close>
    \<open>fst (generate_docx_report env scan_id output_file st) = Inr True\<close>
    if \<open>DOCX_AVAILABLE env\<close> \<open>list_all (docx_ok env) (block_texts (docx_blocks data))\<close>
    using that by (simp_all add: w(5))
  have wx: \<open>files (snd (generate_excel_report env scan_id output_file st)) output_file
            = Some (XlsxFile (xlsx_summary data) (xlsx_rows data) (xlsx_stamp env (clock env (ticks st))))\<close>
    \<open>fst (generate_excel_report env scan_id output_file st) = Inr True\<close>
    if \<open>EXCEL_AVAILABLE env\<close>
      \<open>list_all (xlsx_ok env) (cell_texts (map snd (xlsx_summary data) @ concat (xlsx_rows data)))\<close>
    using that by (simp_all add: w(6))
  show ?thesis
    apply (rule exI [of _ findings])
    apply (rule exI [of _ data])
    apply (rule exI [of _ html])
    apply (rule exI [of _ \<open>pdf_story env data\<close>])
    apply (rule exI [of _ \<open>docx_blocks data\<close>])
    apply (rule exI [of _ \<open>xlsx_rows data\<close>])
    apply (rule exI [of _ \<open>json_data data\<close>])
    using findings_def data_def h story blocks rows n t k e f wh wj wc wp wd wx m rp rd rx
    by blast
qed

theorem stored_counts_rendered_without_cross_check_witness:
  \<open>has_tables (db example_sys)
   \<and> fits 60
   \<and> stored_scan (db example_sys) 60
       = Some (60, ''http://wiki.test'', ''quick'', ''2024-03-03 08:00:00'', ''2024-03-03 08:01:00'',
               5, 2, 2, 1, ''completed'')
   \<and> 5 \<noteq> int (length (stored_findings (db example_sys) 60))
   \<and> writable example_sys ''report.out''
   \<and> (\<exists>findings data html story blocks rows j.
      findings = stored_findings (db example_sys) 60
      \<and> data = aggregate (60, ''http://wiki.test'', ''quick'', ''2024-03-03 08:00:00'', ''2024-03-03 08:01:00'',
               5, 2, 2, 1, ''completed'') findings
      \<and> html = html_head example_sys data (clock example_sys (ticks initial_state))
            @ concat (map (\<lambda>(k, v). finding_card example_sys k v) (enumerate 1 findings))
            @ html_tail 60 (clock example_sys (Suc (ticks initial_state)))
      \<and> story = pdf_front example_sys data @ concat (map (\<lambda>(k, v). pdf_finding k v) (enumerate 1 findings))
      \<and> blocks = docx_front data @ concat (map (\<lambda>(k, v). docx_finding k v) (enumerate 1 findings))
      \<and> rows = [PStr ''#'', PStr ''Name'', PStr ''Severity'', PStr ''Confidence'', PStr ''URL'',
               PStr ''Description'', PStr ''Solution'']
            # map (\<lambda>(k, v). [PInt (int k), PStr (name v), PStr (severity v), PStr (confidence v),
                               PStr (url v), PStr (description v),
                               (case solution v of None \<Rightarrow> PNone | Some s \<Rightarrow> PStr s)])
                (enumerate 1 findings)
      \<and> fst (generate_html_report example_sys 60 ''report.out'' initial_state) = Inr True
      \<and> fst (generate_json_report example_sys 60 ''report.out'' initial_state) = Inr True
      \<and> fst (generate_csv_report example_sys 60 ''report.out'' initial_state) = Inr True
      \<and> files (snd (generate_html_report example_sys 60 ''report.out'' initial_state)) ''report.out''
            = Some (HtmlFile html)
      \<and> sublist (''<h3>Total Issues</h3>\<newline>                <div class="number">''
            @ str_int 5 @ ''</div>'') html
      \<and> sublist (''<h3>High Risk</h3>\<newline>                <div class="number">''
            @ str_int 2 @ ''</div>'') html
      \<and> sublist (''<h3>Medium Risk</h3>\<newline>                <div class="number">''
            @ str_int 2 @ ''</div>'') html
      \<and> sublist (''<h3>Low Risk</h3>\<newline>                <div class="number">''
            @ str_int 1 @ ''</div>'') html
      \<and> list_all (\<lambda>(k, v). sublist (''<div class="vuln-title">'' @ str_nat k @ ''. '' @ name v @ ''</div>'') html)
          (enumerate 1 findings)
      \<and> files (snd (generate_json_report example_sys 60 ''report.out'' initial_state)) ''report.out''
            = Some (JsonFile j)
      \<and> json_field ''total_alerts'' j = Some (JInt 5)
      \<and> json_field ''high_risk'' j = Some (JInt 2)
      \<and> json_field ''medium_risk'' j = Some (JInt 2)
      \<and> json_field ''low_risk'' j = Some (JInt 1)
      \<and> findings_of_json j = Some findings
      \<and> files (snd (generate_csv_report example_sys 60 ''report.out'' initial_state)) ''report.out''
            = Some (CsvFile
              ([''Vulnerability Name'', ''Severity'', ''Confidence'', ''URL'', ''Description'', ''Solution'']
               # map (\<lambda>v. [name v, severity v, confidence v, url v, description v,
                            (case solution v of None \<Rightarrow> [] | Some s \<Rightarrow> s)])
                   findings))
      \<and> fst (generate_pdf_report example_sys 60 ''report.out'' initial_state) = Inr True
          \<and> files (snd (generate_pdf_report example_sys 60 ''report.out'' initial_state)) ''report.out''
            = Some (PdfFile story (pdf_stamp example_sys (clock example_sys (ticks initial_state))))
      \<and> Table [[''Metric'', ''Count''],
             [''Total Issues'', str_int 5],
             [''High Risk'', str_int 2],
             [''Medium Risk'', str_int 2],
             [''Low Risk'', str_int 1]] [3, 2] \<in> set story
      \<and> filter (\<lambda>f. case f of Paragraph text style \<Rightarrow> style = ''Heading3'' | _ \<Rightarrow> False) story
          = map (\<lambda>(k, v). Paragraph (''<b>'' @ str_nat k @ ''. '' @ name v @ ''</b> ['' @ severity v @ '']'') ''Heading3'')
              (enumerate 1 findings)
      \<and> fst (generate_docx_report example_sys 60 ''report.out'' initial_state) = Inr True
          \<and> files (snd (generate_docx_report example_sys 60 ''report.out'' initial_state)) ''report.out''
            = Some (DocxFile blocks (docx_stamp example_sys (clock example_sys (ticks initial_state))))
      \<and> (\<exists>target. DocTable ''Light Grid Accent 1''
             [[''Total Issues'', str_int 5],
              [''High Risk'', str_int 2],
              [''Medium Risk'', str_int 2],
              [''Low Risk'', str_int 1],
              [''Target URL'', target]] \<in> set blocks)
      \<and> filter (\<lambda>b. case b of Heading text level \<Rightarrow> level = 2 | _ \<Rightarrow> False) blocks
          = map (\<lambda>(k, v). Heading (str_nat k @ ''. '' @ name v) 2) (enumerate 1 findings)
      \<and> fst (generate_excel_report example_sys 60 ''report.out'' initial_state) = Inr True
          \<and> files (snd (generate_excel_report example_sys 60 ''report.out'' initial_state)) ''report.out''
            = Some (XlsxFile (xlsx_summary data) rows (xlsx_stamp example_sys (clock example_sys (ticks initial_state))))
      \<and> map_of (xlsx_summary data) ''B5'' = Some (PInt 5)
      \<and> map_of (xlsx_summary data) ''B6'' = Some (PInt 2)
      \<and> map_of (xlsx_summary data) ''B7'' = Some (PInt 2)
      \<and> map_of (xlsx_summary data) ''B8'' = Some (PInt 1)
      \<and> int (length findings) \<noteq> 5
      \<and> length (tl rows) = length findings)\<close>
proof -
  have a1: \<open>has_tables (db example_sys)\<close> and a2: \<open>fits 60\<close>
    by (simp_all add: example_sys_simps example_store_tables fits_examples)
  have a3: \<open>stored_scan (db example_sys) 60
       = Some (60, ''http://wiki.test'', ''quick'', ''2024-03-03 08:00:00'', ''2024-03-03 08:01:00'',
               5, 2, 2, 1, ''completed'')\<close>
    by (simp add: example_sys_simps stored_scan_def example_store_def)
  note a = a1 a2 a3
  have m: \<open>5 \<noteq> int (length (stored_findings (db example_sys) 60))\<close>
    by (simp add: stored_findings_def example_sys_simps example_store_def)
  have b: \<open>writable example_sys ''report.out''\<close>
    by (simp add: example_sys_def)
  have f: \<open>PDF_AVAILABLE example_sys\<close> \<open>DOCX_AVAILABLE example_sys\<close> \<open>EXCEL_AVAILABLE example_sys\<close>
    by (simp_all add: example_sys_def)
  have g: \<open>stored_findings (db example_sys) 60 = [\<lparr>vuln_id = 2, name = ''Open Redirect'', severity = ''Low'', confidence = ''Low'',
          url = ''http://wiki.test/go'', description = ''Unchecked target'', solution = None,
          reference = None\<rparr>]\<close>
    by (simp add: stored_findings_def example_sys_simps example_store_def)
  have n: \<open>str_nat (Suc 0) = ''1''\<close> \<open>str_nat 2 = ''2''\<close> \<open>str_nat 3 = ''3''\<close>
    by code_simp+
  have p: \<open>list_all (paragraph_ok example_sys)
      (paragraph_texts (pdf_front example_sys (aggregate (60, ''http://wiki.test'', ''quick'', ''2024-03-03 08:00:00'', ''2024-03-03 08:01:00'',
               5, 2, 2, 1, ''completed'') (stored_findings (db example_sys) 60))
         @ concat (map (\<lambda>(k, v). pdf_finding k v) (enumerate 1 (stored_findings (db example_sys) 60)))))\<close>
    by code_simp
  have d: \<open>list_all (docx_ok example_sys)
      (block_texts (docx_front (aggregate (60, ''http://wiki.test'', ''quick'', ''2024-03-03 08:00:00'', ''2024-03-03 08:01:00'',
               5, 2, 2, 1, ''completed'') (stored_findings (db example_sys) 60))
         @ concat (map (\<lambda>(k, v). docx_finding k v) (enumerate 1 (stored_findings (db example_sys) 60)))))\<close>
    by code_simp
  have x: \<open>list_all (xlsx_ok example_sys)
      (cell_texts (map snd (xlsx_summary (aggregate (60, ''http://wiki.test'', ''quick'', ''2024-03-03 08:00:00'', ''2024-03-03 08:01:00'',
               5, 2, 2, 1, ''completed'') (stored_findings (db example_sys) 60)))
         @ concat
            ([PStr ''#'', PStr ''Name'', PStr ''Severity'', PStr ''Confidence'', PStr ''URL'',
               PStr ''Description'', PStr ''Solution'']
            # map (\<lambda>(k, v). [PInt (int k), PStr (name v), PStr (severity v), PStr (confidence v),
                               PStr (url v), PStr (description v),
                               (case solution v of None \<Rightarrow> PNone | Some s \<Rightarrow> PStr s)])
                (enumerate 1 (stored_findings (db example_sys) 60)))))\<close>
    by code_simp
  show ?thesis
    using stored_counts_rendered_without_cross_check [OF a m b, of initial_state]
    apply (elim exE conjE)
    apply hypsubst
    apply (intro exI conjI a b m)
    apply (rule refl | assumption | simp only: f p d x simp_thms)+
    done
qed

end
